theory Spec2Isabelle
  imports Complex_Main "HOL-Library.Word" "HOL-Library.Log_Nat"
begin

unbundle bit_operations_syntax

section \<open>Shared data: time stamps and sensor events\<close>

text \<open>
  The sketches target the ESP32 and the ESP8266 (any other board stops at
  \<^verbatim>\<open>#error "Board not supported."\<close>), where \<^verbatim>\<open>unsigned long\<close>, \<^verbatim>\<open>long\<close>, \<^verbatim>\<open>int\<close>
  and \<^verbatim>\<open>uint32_t\<close> are 32 bits wide. A value of \<^verbatim>\<open>millis()\<close> is a 32-bit word:
  subtraction wraps, and the comparisons of the sketches are unsigned.

  A finite \<^verbatim>\<open>float\<close> is taken as the real number it denotes, and comparisons of floats
  are exact. In the motion detectors float arithmetic is the arithmetic of the reals. In
  the threshold mappings of Tap-Guard, whose results are the numbers the sensor is given,
  every float operation is rounded to single precision (section "Single-precision
  floats").
\<close>

type_synonym millis = "32 word"

record sensors_vec =
  vx :: real
  vy :: real
  vz :: real

text \<open>What \<^verbatim>\<open>mpu.getEvent(&a, &g, &temp)\<close> delivers; the temperature is read by no
  function of the motion engine and is left out.\<close>

record mpu_event =
  ev_acceleration :: sensors_vec
  ev_gyro :: sensors_vec

text \<open>The C library's \<^verbatim>\<open>atan2(y, x)\<close> on finite arguments, in radians; at the origin
  it returns 0.\<close>

definition atan2 :: "real \<Rightarrow> real \<Rightarrow> real" where
  "atan2 y x =
     (if 0 < x then arctan (y / x)
      else if x < 0 then (if 0 \<le> y then arctan (y / x) + pi else arctan (y / x) - pi)
      else if 0 < y then pi / 2
      else if y < 0 then - (pi / 2)
      else 0)"

datatype motion = Tilt | Slide | Lift

section \<open>Single-precision floats\<close>

text \<open>
  A \<^verbatim>\<open>float\<close> of the ESP32 is an IEEE 754 binary32 number: 24 significant bits, the
  least exponent -126. An operation on floats gives the exact result rounded to the
  nearest such number, a tie going to the one with the even significand, and each
  operation of an expression is rounded on its own. \<open>round_even\<close> rounds to the nearest
  integer, \<open>binade x\<close> is the exponent \<open>e\<close> with \<open>2\<^sup>e \<le> \<bar>x\<bar> < 2\<^sup>e\<^sup>+\<^sup>1\<close>,
  \<open>ulp_exp x\<close> the exponent of the spacing of the floats around \<open>x\<close>, and \<open>fl x\<close> the float
  nearest to \<open>x\<close>. Overflow to an infinity (magnitudes from \<open>2\<^sup>1\<^sup>2\<^sup>8\<close> on) is not
  modelled; the mappings stay below 256.
\<close>

definition round_even :: "real \<Rightarrow> int" where
  "round_even x =
     (let f = \<lfloor>x\<rfloor>; d = x - of_int f
      in if d < 1 / 2 then f else if d > 1 / 2 then f + 1
         else if even f then f else f + 1)"

definition binade :: "real \<Rightarrow> int" where
  "binade x =
     (if 1 \<le> \<bar>x\<bar> then int (floorlog 2 (nat \<lfloor>\<bar>x\<bar>\<rfloor>)) - 1
      else - int (floorlog 2 (nat (\<lceil>1 / \<bar>x\<bar>\<rceil> - 1))))"

definition ulp_exp :: "real \<Rightarrow> int" where
  "ulp_exp x = max (binade x) (- 126) - 23"

definition fl :: "real \<Rightarrow> real" where
  "fl x = (if x = 0 then 0
           else of_int (round_even (x / 2 powi ulp_exp x)) * 2 powi ulp_exp x)"

text \<open>The conversion of an \<^verbatim>\<open>int\<close> operand to \<^verbatim>\<open>float\<close>.\<close>

definition float_of_int :: "int \<Rightarrow> real" where
  "float_of_int n = fl (of_int n)"

text \<open>What \<^verbatim>\<open>String::toFloat()\<close> can deliver for the text of a request argument: a
  number, an infinity or a NaN (the C library's conversion accepts the texts "inf" and
  "nan"). An ordered comparison with a NaN is false.\<close>

datatype cfloat = Num real | PosInf | NegInf | NaN

fun cf_less :: "cfloat \<Rightarrow> real \<Rightarrow> bool" where
  "cf_less (Num x) c = (x < c)"
| "cf_less NegInf c = True"
| "cf_less PosInf c = False"
| "cf_less NaN c = False"

fun cf_greater :: "cfloat \<Rightarrow> real \<Rightarrow> bool" where
  "cf_greater (Num x) c = (x > c)"
| "cf_greater PosInf c = True"
| "cf_greater NegInf c = False"
| "cf_greater NaN c = False"

text \<open>The macro \<^verbatim>\<open>constrain(amt,low,high) ((amt)<(low)?(low):((amt)>(high)?(high):(amt)))\<close>
  on such a value.\<close>

definition constrain_float :: "cfloat \<Rightarrow> real \<Rightarrow> real \<Rightarrow> cfloat" where
  "constrain_float amt low high =
     (if cf_less amt low then Num low else if cf_greater amt high then Num high else amt)"

section \<open>DrinkGuard Interactive Coaster v5 (arming system, tilt, slide and lift)\<close>

definition DEFAULT_TILT_THRESHOLD_DEGREES :: real where
  "DEFAULT_TILT_THRESHOLD_DEGREES = 4"

definition DEFAULT_SUSTAINED_TILT_DURATION_MS :: millis where
  "DEFAULT_SUSTAINED_TILT_DURATION_MS = 500"

definition DEFAULT_SLIDE_MAGNITUDE_THRESHOLD_ACCEL :: real where
  "DEFAULT_SLIDE_MAGNITUDE_THRESHOLD_ACCEL = 7 / 10"

definition DEFAULT_SUSTAINED_SLIDE_DURATION_MS :: millis where
  "DEFAULT_SUSTAINED_SLIDE_DURATION_MS = 1000"

definition DEFAULT_LIFT_ACCEL_THRESHOLD_G :: real where
  "DEFAULT_LIFT_ACCEL_THRESHOLD_G = 15 / 100"

definition DEFAULT_SUSTAINED_LIFT_DURATION_MS :: millis where
  "DEFAULT_SUSTAINED_LIFT_DURATION_MS = 400"

definition GRAVITY_MS2 :: real where
  "GRAVITY_MS2 = 980665 / 100000"

definition TELEMETRY_READ_INTERVAL_MS :: millis where
  "TELEMETRY_READ_INTERVAL_MS = 50"

definition WEB_MOTION_INDICATOR_DURATION_MS :: millis where
  "WEB_MOTION_INDICATOR_DURATION_MS = 3000"

definition ARMED_DURATION_MS :: millis where
  "ARMED_DURATION_MS = 10 * 60 * 1000"

record v5_state =
  currentAcceleration :: sensors_vec
  currentGyro :: sensors_vec
  currentRoll_deg :: real
  currentPitch_deg :: real
  currentYaw_deg :: real
  baseRoll_deg :: real
  basePitch_deg :: real
  baseAccelZ_ms2 :: real
  systemArmed :: bool
  armStartTime_ms :: millis
  timeRemaining_s :: int
  lastMotionTimestamp_ms :: millis
  webShowsMotionActive :: bool
  ledIndicatesMotion :: bool
  isSustainedTilt :: bool
  isSustainedSlide :: bool
  isSustainedLift :: bool
  lastMotionType :: string
  sustainedTiltStartTime_ms :: millis
  sustainedSlideStartTime_ms :: millis
  sustainedLiftStartTime_ms :: millis
  lastTelemetryReadTime_ms :: millis

text \<open>The globals as their initialisers leave them.\<close>

definition v5_init :: v5_state where
  "v5_init =
     \<lparr> currentAcceleration = \<lparr>vx = 0, vy = 0, vz = 0\<rparr>,
       currentGyro = \<lparr>vx = 0, vy = 0, vz = 0\<rparr>,
       currentRoll_deg = 0, currentPitch_deg = 0, currentYaw_deg = 0,
       baseRoll_deg = 0, basePitch_deg = 0, baseAccelZ_ms2 = GRAVITY_MS2,
       systemArmed = False, armStartTime_ms = 0, timeRemaining_s = 0,
       lastMotionTimestamp_ms = 0, webShowsMotionActive = False,
       ledIndicatesMotion = False,
       isSustainedTilt = False, isSustainedSlide = False, isSustainedLift = False,
       lastMotionType = ''None'',
       sustainedTiltStartTime_ms = 0, sustainedSlideStartTime_ms = 0,
       sustainedLiftStartTime_ms = 0, lastTelemetryReadTime_ms = 0 \<rparr>"

definition processSensorData :: "mpu_event \<Rightarrow> v5_state \<Rightarrow> v5_state" where
  "processSensorData e s =
     (let a = ev_acceleration e;
          s1 = s\<lparr> currentAcceleration := a, currentGyro := ev_gyro e,
                  currentRoll_deg := atan2 (vy a) (vz a) * 180 / pi,
                  currentPitch_deg :=
                    atan2 (- vx a) (sqrt ((vy a)\<^sup>2 + (vz a)\<^sup>2)) * 180 / pi \<rparr>
      in if systemArmed s1
         then s1\<lparr> currentYaw_deg :=
                    currentYaw_deg s1 + vz (ev_gyro e) * (50 / 1000) * (180 / pi) \<rparr>
         else s1)"

text \<open>\<^verbatim>\<open>handleArmSystem\<close>: \<open>now\<close> is the value of \<^verbatim>\<open>millis()\<close>, \<open>e\<close> the fresh sensor
  event read by its call of \<^verbatim>\<open>processSensorData\<close>. The HTTP reply is the constant text
  "System Armed".\<close>

definition handleArmSystem :: "millis \<Rightarrow> mpu_event \<Rightarrow> v5_state \<Rightarrow> v5_state" where
  "handleArmSystem now e s =
     (let s1 = s\<lparr> systemArmed := True, armStartTime_ms := now,
                  timeRemaining_s := uint (ARMED_DURATION_MS div 1000) \<rparr>;
          s2 = processSensorData e s1
      in s2\<lparr> baseRoll_deg := currentRoll_deg s2,
              basePitch_deg := currentPitch_deg s2,
              baseAccelZ_ms2 := vz (currentAcceleration s2),
              currentYaw_deg := 0,
              isSustainedTilt := False, isSustainedSlide := False,
              isSustainedLift := False,
              lastMotionType := ''None'',
              lastMotionTimestamp_ms := 0 \<rparr>)"

definition handleDisarmSystem :: "v5_state \<Rightarrow> v5_state" where
  "handleDisarmSystem s =
     s\<lparr> systemArmed := False,
        isSustainedTilt := False, isSustainedSlide := False, isSustainedLift := False,
        lastMotionType := ''None'',
        lastMotionTimestamp_ms := 0,
        timeRemaining_s := 0 \<rparr>"

text \<open>\<^verbatim>\<open>detectSustainedMotionEvents\<close>: \<open>currentTime\<close> is its own reading of
  \<^verbatim>\<open>millis()\<close>. Its three blocks (tilt, slide, lift) run one after the other on the
  globals; each is a function here, and the result lists the \<^verbatim>\<open>[ALERT]\<close> lines they
  print, in order: one per rising edge of a sustained flag (\<^verbatim>\<open>motionThisCycle\<close> is set
  exactly when a line is printed).\<close>

definition tiltDetection :: "millis \<Rightarrow> v5_state \<Rightarrow> motion list \<times> v5_state" where
  "tiltDetection currentTime s =
     (let effectiveRoll = currentRoll_deg s - baseRoll_deg s;
          effectivePitch = currentPitch_deg s - basePitch_deg s
      in if \<bar>effectiveRoll\<bar> > DEFAULT_TILT_THRESHOLD_DEGREES
            \<or> \<bar>effectivePitch\<bar> > DEFAULT_TILT_THRESHOLD_DEGREES
         then
           let sa = (if sustainedTiltStartTime_ms s = 0
                     then s\<lparr>sustainedTiltStartTime_ms := currentTime\<rparr> else s)
           in if currentTime - sustainedTiltStartTime_ms sa
                   \<ge> DEFAULT_SUSTAINED_TILT_DURATION_MS \<and> \<not> isSustainedTilt sa
              then ([Tilt], sa\<lparr>isSustainedTilt := True, lastMotionType := ''TILT''\<rparr>)
              else ([], sa)
         else ([], s\<lparr>sustainedTiltStartTime_ms := 0, isSustainedTilt := False\<rparr>))"

definition slideDetection :: "millis \<Rightarrow> v5_state \<Rightarrow> motion list \<times> v5_state" where
  "slideDetection currentTime s =
     (let horizontalAccelMag =
            sqrt ((vx (currentAcceleration s))\<^sup>2 + (vy (currentAcceleration s))\<^sup>2)
      in if horizontalAccelMag > DEFAULT_SLIDE_MAGNITUDE_THRESHOLD_ACCEL
         then
           let sa = (if sustainedSlideStartTime_ms s = 0
                     then s\<lparr>sustainedSlideStartTime_ms := currentTime\<rparr> else s)
           in if currentTime - sustainedSlideStartTime_ms sa
                   \<ge> DEFAULT_SUSTAINED_SLIDE_DURATION_MS \<and> \<not> isSustainedSlide sa
              then ([Slide], sa\<lparr>isSustainedSlide := True, lastMotionType := ''SLIDE''\<rparr>)
              else ([], sa)
         else ([], s\<lparr>sustainedSlideStartTime_ms := 0, isSustainedSlide := False\<rparr>))"

definition liftDetection :: "millis \<Rightarrow> v5_state \<Rightarrow> motion list \<times> v5_state" where
  "liftDetection currentTime s =
     (let accelZ_deviation_ms2 = \<bar>vz (currentAcceleration s) - baseAccelZ_ms2 s\<bar>;
          liftThreshold_ms2 = DEFAULT_LIFT_ACCEL_THRESHOLD_G * GRAVITY_MS2
      in if accelZ_deviation_ms2 > liftThreshold_ms2
         then
           let sa = (if sustainedLiftStartTime_ms s = 0
                     then s\<lparr>sustainedLiftStartTime_ms := currentTime\<rparr> else s)
           in if currentTime - sustainedLiftStartTime_ms sa
                   \<ge> DEFAULT_SUSTAINED_LIFT_DURATION_MS \<and> \<not> isSustainedLift sa
              then ([Lift], sa\<lparr>isSustainedLift := True, lastMotionType := ''LIFT''\<rparr>)
              else ([], sa)
         else ([], s\<lparr>sustainedLiftStartTime_ms := 0, isSustainedLift := False\<rparr>))"

definition detectSustainedMotionEvents :: "millis \<Rightarrow> v5_state \<Rightarrow> motion list \<times> v5_state" where
  "detectSustainedMotionEvents currentTime s =
     (if \<not> systemArmed s then ([], s)
      else
        let r1 = tiltDetection currentTime s;
            r2 = slideDetection currentTime (snd r1);
            r3 = liftDetection currentTime (snd r2);
            alerts = fst r1 @ fst r2 @ fst r3;
            motionThisCycle = (alerts \<noteq> [])
        in (alerts,
            if motionThisCycle then (snd r3)\<lparr>lastMotionTimestamp_ms := currentTime\<rparr>
            else snd r3))"

definition updateSystemIndicators :: "millis \<Rightarrow> v5_state \<Rightarrow> v5_state" where
  "updateSystemIndicators currentTime_ms s =
     (let anyMotionCurrentlyActive =
            (isSustainedTilt s \<or> isSustainedSlide s \<or> isSustainedLift s);
          s1 = (if anyMotionCurrentlyActive then s\<lparr>webShowsMotionActive := True\<rparr>
                else if currentTime_ms - lastMotionTimestamp_ms s < WEB_MOTION_INDICATOR_DURATION_MS
                        \<and> lastMotionTimestamp_ms s \<noteq> 0
                then s\<lparr>webShowsMotionActive := True\<rparr>
                else (let s0 = s\<lparr>webShowsMotionActive := False\<rparr>
                      in if lastMotionType s0 \<noteq> ''None''
                         then s0\<lparr>lastMotionType := ''None''\<rparr> else s0))
      in s1\<lparr>ledIndicatesMotion := webShowsMotionActive s1\<rparr>)"

text \<open>What one pass of \<^verbatim>\<open>loop()\<close> observes: its reading of \<^verbatim>\<open>millis()\<close>, the sensor
  event (read only on a telemetry tick) and the reading of \<^verbatim>\<open>millis()\<close> inside
  \<^verbatim>\<open>detectSustainedMotionEvents\<close>. The HTTP handlers that \<^verbatim>\<open>server.handleClient()\<close> may
  run are transitions of their own (\<open>handleArmSystem\<close>, \<open>handleDisarmSystem\<close>).\<close>

record loop_obs =
  ob_millis :: millis
  ob_event :: mpu_event
  ob_detect_millis :: millis

definition loop :: "loop_obs \<Rightarrow> v5_state \<Rightarrow> motion list \<times> v5_state" where
  "loop ob s =
     (let currentTime_ms = ob_millis ob;
          r =
            (if currentTime_ms - lastTelemetryReadTime_ms s \<ge> TELEMETRY_READ_INTERVAL_MS
             then
               let sa = processSensorData (ob_event ob)
                          (s\<lparr>lastTelemetryReadTime_ms := currentTime_ms\<rparr>)
               in if systemArmed sa
                  then detectSustainedMotionEvents (ob_detect_millis ob) sa
                  else ([], sa)
             else ([], s));
          s1 = snd r;
          s2 =
            (if systemArmed s1
             then
               let sb = (if currentTime_ms - armStartTime_ms s1 \<ge> ARMED_DURATION_MS
                         then s1\<lparr> systemArmed := False,
                                  isSustainedTilt := False, isSustainedSlide := False,
                                  isSustainedLift := False,
                                  lastMotionType := ''None'' \<rparr>
                         else s1);
                   sc = sb\<lparr> timeRemaining_s :=
                             sint ((ARMED_DURATION_MS - (currentTime_ms - armStartTime_ms sb))
                                   div 1000) \<rparr>
               in if timeRemaining_s sc < 0 then sc\<lparr>timeRemaining_s := 0\<rparr> else sc
             else s1\<lparr>timeRemaining_s := 0\<rparr>)
      in (fst r, updateSystemIndicators currentTime_ms s2))"

text \<open>A run of \<^verbatim>\<open>loop()\<close> passes during which no HTTP handler runs.\<close>

fun loops :: "loop_obs list \<Rightarrow> v5_state \<Rightarrow> v5_state" where
  "loops [] s = s"
| "loops (ob # obs) s = loops obs (snd (loop ob s))"

subsection \<open>Vocabulary of the motion classifier\<close>

text \<open>The three detectors differ in their globals and constants only. For a motion type,
  \<open>over_threshold\<close> is the comparison its block makes on the current readings,
  \<open>candidate_start\<close> its start-time global (0 when no candidate is timed),
  \<open>candidate_sustained\<close> its sustained flag and \<open>debounce_duration\<close> its duration.\<close>

fun over_threshold :: "motion \<Rightarrow> v5_state \<Rightarrow> bool" where
  "over_threshold Tilt s =
     (\<bar>currentRoll_deg s - baseRoll_deg s\<bar> > DEFAULT_TILT_THRESHOLD_DEGREES
      \<or> \<bar>currentPitch_deg s - basePitch_deg s\<bar> > DEFAULT_TILT_THRESHOLD_DEGREES)"
| "over_threshold Slide s =
     (sqrt ((vx (currentAcceleration s))\<^sup>2 + (vy (currentAcceleration s))\<^sup>2)
        > DEFAULT_SLIDE_MAGNITUDE_THRESHOLD_ACCEL)"
| "over_threshold Lift s =
     (\<bar>vz (currentAcceleration s) - baseAccelZ_ms2 s\<bar>
        > DEFAULT_LIFT_ACCEL_THRESHOLD_G * GRAVITY_MS2)"

fun candidate_start :: "motion \<Rightarrow> v5_state \<Rightarrow> millis" where
  "candidate_start Tilt s = sustainedTiltStartTime_ms s"
| "candidate_start Slide s = sustainedSlideStartTime_ms s"
| "candidate_start Lift s = sustainedLiftStartTime_ms s"

fun candidate_sustained :: "motion \<Rightarrow> v5_state \<Rightarrow> bool" where
  "candidate_sustained Tilt s = isSustainedTilt s"
| "candidate_sustained Slide s = isSustainedSlide s"
| "candidate_sustained Lift s = isSustainedLift s"

fun debounce_duration :: "motion \<Rightarrow> millis" where
  "debounce_duration Tilt = DEFAULT_SUSTAINED_TILT_DURATION_MS"
| "debounce_duration Slide = DEFAULT_SUSTAINED_SLIDE_DURATION_MS"
| "debounce_duration Lift = DEFAULT_SUSTAINED_LIFT_DURATION_MS"

definition pollTick :: "millis \<times> mpu_event \<Rightarrow> v5_state \<Rightarrow> motion list \<times> v5_state" where
  "pollTick te s = detectSustainedMotionEvents (fst te) (processSensorData (snd te) s)"

fun pollTicks :: "(millis \<times> mpu_event) list \<Rightarrow> v5_state \<Rightarrow> motion list list" where
  "pollTicks [] s = []"
| "pollTicks (te # tes) s = fst (pollTick te s) # pollTicks tes (snd (pollTick te s))"

fun fires_at_first_reach :: "millis \<Rightarrow> millis \<Rightarrow> millis list \<Rightarrow> bool list" where
  "fires_at_first_reach d t0 [] = []"
| "fires_at_first_reach d t0 (t # ts) =
     (if d \<le> t - t0 then True # replicate (length ts) False
      else False # fires_at_first_reach d t0 ts)"

section \<open>DrinkGuard Coaster, tamper detection (motion\_detection3.ino)\<close>

text \<open>The runtime sensitivity globals of this sketch are initialised to the defaults and
  written by no function of it ("Fixed to defaults in this version").\<close>

definition md3_currentTiltThresholdDegrees :: real where
  "md3_currentTiltThresholdDegrees = 3 / 10"

definition md3_currentSustainedTiltDurationMs :: millis where
  "md3_currentSustainedTiltDurationMs = 80"

definition md3_currentSlideThresholdAccel :: real where
  "md3_currentSlideThresholdAccel = 25 / 100"

definition md3_currentSustainedSlideDurationMs :: millis where
  "md3_currentSustainedSlideDurationMs = 80"

definition md3_WEB_MOTION_INDICATOR_DURATION_MS :: millis where
  "md3_WEB_MOTION_INDICATOR_DURATION_MS = 1500"

definition md3_LED_MOTION_INDICATOR_DURATION_MS :: millis where
  "md3_LED_MOTION_INDICATOR_DURATION_MS = 750"

definition md3_MAX_LOG_ENTRIES :: nat where
  "md3_MAX_LOG_ENTRIES = 10"

definition md3_MIN_LOG_INTERVAL_MS :: millis where
  "md3_MIN_LOG_INTERVAL_MS = 250"

record MotionLogEntry =
  timestamp_ms :: millis
  motionType :: string
  rollAtDetection_deg :: real
  pitchAtDetection_deg :: real

record md3_state =
  md3_currentAcceleration :: sensors_vec
  md3_currentGyro :: sensors_vec
  md3_currentRoll_deg :: real
  md3_currentPitch_deg :: real
  md3_lastSignificantRoll :: real
  md3_lastSignificantPitch :: real
  md3_lastSignificantSlideX :: real
  md3_lastMotionTimestamp_ms :: millis
  md3_webShowsMotionActive :: bool
  md3_ledIndicatesMotion :: bool
  md3_isSustainedTilt :: bool
  md3_isSustainedSlide :: bool
  md3_prevTiltRoll_deg :: real
  md3_prevTiltPitch_deg :: real
  md3_firstTiltCheck :: bool
  md3_sustainedTiltStartTime_ms :: millis
  md3_prevSlideAccelX :: real
  md3_prevSlideAccelY :: real
  md3_firstSlideCheck :: bool
  md3_sustainedSlideStartTime_ms :: millis
  md3_motionEventLog :: "MotionLogEntry list"
  md3_lastLogEntryTime_ms :: millis
  md3_lastTelemetryReadTime_ms :: millis

definition md3_init :: md3_state where
  "md3_init =
     \<lparr> md3_currentAcceleration = \<lparr>vx = 0, vy = 0, vz = 0\<rparr>,
       md3_currentGyro = \<lparr>vx = 0, vy = 0, vz = 0\<rparr>,
       md3_currentRoll_deg = 0, md3_currentPitch_deg = 0,
       md3_lastSignificantRoll = 0, md3_lastSignificantPitch = 0,
       md3_lastSignificantSlideX = 0,
       md3_lastMotionTimestamp_ms = 0, md3_webShowsMotionActive = False,
       md3_ledIndicatesMotion = False,
       md3_isSustainedTilt = False, md3_isSustainedSlide = False,
       md3_prevTiltRoll_deg = 0, md3_prevTiltPitch_deg = 0, md3_firstTiltCheck = True,
       md3_sustainedTiltStartTime_ms = 0,
       md3_prevSlideAccelX = 0, md3_prevSlideAccelY = 0, md3_firstSlideCheck = True,
       md3_sustainedSlideStartTime_ms = 0,
       md3_motionEventLog = [], md3_lastLogEntryTime_ms = 0,
       md3_lastTelemetryReadTime_ms = 0 \<rparr>"

definition md3_processSensorData :: "mpu_event \<Rightarrow> md3_state \<Rightarrow> md3_state" where
  "md3_processSensorData e s =
     (let a = ev_acceleration e
      in s\<lparr> md3_currentAcceleration := a, md3_currentGyro := ev_gyro e,
             md3_currentRoll_deg := atan2 (vy a) (vz a) * 180 / pi,
             md3_currentPitch_deg :=
               atan2 (- vx a) (sqrt (vy a * vy a + vz a * vz a)) * 180 / pi \<rparr>)"

text \<open>\<^verbatim>\<open>addEventToMotionLog\<close>: \<open>currentTime\<close> is its own reading of \<^verbatim>\<open>millis()\<close>.\<close>

definition addEventToMotionLog ::
  "millis \<Rightarrow> millis \<Rightarrow> string \<Rightarrow> real \<Rightarrow> real \<Rightarrow> md3_state \<Rightarrow> md3_state" where
  "addEventToMotionLog currentTime ts type r p s =
     (if currentTime - md3_lastLogEntryTime_ms s < md3_MIN_LOG_INTERVAL_MS
         \<and> md3_motionEventLog s \<noteq> []
      then s
      else
        let s1 = (if length (md3_motionEventLog s) \<ge> md3_MAX_LOG_ENTRIES
                  then s\<lparr>md3_motionEventLog := tl (md3_motionEventLog s)\<rparr> else s);
            newEntry = \<lparr> timestamp_ms = ts, motionType = type,
                         rollAtDetection_deg = r, pitchAtDetection_deg = p \<rparr>
        in s1\<lparr> md3_motionEventLog := md3_motionEventLog s1 @ [newEntry],
                md3_lastLogEntryTime_ms := currentTime \<rparr>)"

text \<open>What one pass of \<^verbatim>\<open>loop()\<close> observes: its own reading of \<^verbatim>\<open>millis()\<close>, the sensor
  event, the reading of \<^verbatim>\<open>millis()\<close> in \<^verbatim>\<open>detectSustainedMotionEvents\<close> and the readings
  in the two calls of \<^verbatim>\<open>addEventToMotionLog\<close> (for a tilt, for a slide).\<close>

record md3_obs =
  md3_ob_millis :: millis
  md3_ob_event :: mpu_event
  md3_ob_detect_millis :: millis
  md3_ob_log_millis_tilt :: millis
  md3_ob_log_millis_slide :: millis

definition md3_tiltDetection :: "millis \<Rightarrow> millis \<Rightarrow> md3_state \<Rightarrow> motion list \<times> md3_state" where
  "md3_tiltDetection currentTime logTime s =
     (let deltaRoll = \<bar>md3_currentRoll_deg s - md3_prevTiltRoll_deg s\<bar>;
          deltaPitch = \<bar>md3_currentPitch_deg s - md3_prevTiltPitch_deg s\<bar>;
          r =
            (if md3_firstTiltCheck s
             then ([], s\<lparr> md3_prevTiltRoll_deg := md3_currentRoll_deg s,
                           md3_prevTiltPitch_deg := md3_currentPitch_deg s,
                           md3_firstTiltCheck := False \<rparr>)
             else if deltaRoll > md3_currentTiltThresholdDegrees
                     \<or> deltaPitch > md3_currentTiltThresholdDegrees
             then
               (if md3_sustainedTiltStartTime_ms s = 0
                then ([], s\<lparr>md3_sustainedTiltStartTime_ms := currentTime\<rparr>)
                else if currentTime - md3_sustainedTiltStartTime_ms s
                          \<ge> md3_currentSustainedTiltDurationMs
                        \<and> \<not> md3_isSustainedTilt s
                then ([Tilt],
                      addEventToMotionLog logTime currentTime ''Tilt Detected''
                        (md3_currentRoll_deg s) (md3_currentPitch_deg s)
                        (s\<lparr> md3_isSustainedTilt := True,
                             md3_lastSignificantRoll := md3_currentRoll_deg s,
                             md3_lastSignificantPitch := md3_currentPitch_deg s \<rparr>))
                else ([], s))
             else ([], s\<lparr> md3_sustainedTiltStartTime_ms := 0,
                           md3_isSustainedTilt := False \<rparr>))
      in (fst r, (snd r)\<lparr> md3_prevTiltRoll_deg := md3_currentRoll_deg (snd r),
                           md3_prevTiltPitch_deg := md3_currentPitch_deg (snd r) \<rparr>))"

definition md3_slideDetection :: "millis \<Rightarrow> millis \<Rightarrow> md3_state \<Rightarrow> motion list \<times> md3_state" where
  "md3_slideDetection currentTime logTime s =
     (let ax = vx (md3_currentAcceleration s);
          ay = vy (md3_currentAcceleration s);
          netAccelChange =
            sqrt ((ax - md3_prevSlideAccelX s)\<^sup>2 + (ay - md3_prevSlideAccelY s)\<^sup>2);
          r =
            (if md3_firstSlideCheck s
             then ([], s\<lparr> md3_prevSlideAccelX := ax, md3_prevSlideAccelY := ay,
                           md3_firstSlideCheck := False \<rparr>)
             else if netAccelChange > md3_currentSlideThresholdAccel
             then
               (if md3_sustainedSlideStartTime_ms s = 0
                then ([], s\<lparr>md3_sustainedSlideStartTime_ms := currentTime\<rparr>)
                else if currentTime - md3_sustainedSlideStartTime_ms s
                          \<ge> md3_currentSustainedSlideDurationMs
                        \<and> \<not> md3_isSustainedSlide s
                then ([Slide],
                      addEventToMotionLog logTime currentTime ''Slide Detected''
                        (md3_currentRoll_deg s) (md3_currentPitch_deg s)
                        (s\<lparr> md3_isSustainedSlide := True,
                             md3_lastSignificantSlideX :=
                               (if ax > md3_prevSlideAccelX s + md3_currentSlideThresholdAccel / 2
                                then 1
                                else if ax < md3_prevSlideAccelX s - md3_currentSlideThresholdAccel / 2
                                then - 1 else 0) \<rparr>))
                else ([], s))
             else ([], s\<lparr> md3_sustainedSlideStartTime_ms := 0,
                           md3_isSustainedSlide := False \<rparr>))
      in (fst r, (snd r)\<lparr> md3_prevSlideAccelX := vx (md3_currentAcceleration (snd r)),
                           md3_prevSlideAccelY := vy (md3_currentAcceleration (snd r)) \<rparr>))"

text \<open>\<^verbatim>\<open>detectSustainedMotionEvents\<close> of this sketch; the result lists the detections of
  this cycle (\<^verbatim>\<open>tiltDetectedThisCycle\<close>, \<^verbatim>\<open>slideDetectedThisCycle\<close>).\<close>

definition md3_detectSustainedMotionEvents ::
  "millis \<Rightarrow> millis \<Rightarrow> millis \<Rightarrow> md3_state \<Rightarrow> motion list \<times> md3_state" where
  "md3_detectSustainedMotionEvents currentTime logTimeTilt logTimeSlide s =
     (let r1 = md3_tiltDetection currentTime logTimeTilt s;
          r2 = md3_slideDetection currentTime logTimeSlide (snd r1);
          detected = fst r1 @ fst r2
      in (detected,
          if detected \<noteq> [] then (snd r2)\<lparr>md3_lastMotionTimestamp_ms := currentTime\<rparr>
          else snd r2))"

definition updateSystemIndicatorsAndLogging :: "millis \<Rightarrow> md3_state \<Rightarrow> md3_state" where
  "updateSystemIndicatorsAndLogging currentTime_ms s =
     (let s1 =
            (if currentTime_ms - md3_lastMotionTimestamp_ms s < md3_WEB_MOTION_INDICATOR_DURATION_MS
                \<and> md3_lastMotionTimestamp_ms s \<noteq> 0
             then s\<lparr>md3_webShowsMotionActive := True\<rparr>
             else s\<lparr> md3_webShowsMotionActive := False,
                     md3_isSustainedTilt := False, md3_isSustainedSlide := False,
                     md3_lastSignificantRoll := 0, md3_lastSignificantPitch := 0,
                     md3_lastSignificantSlideX := 0 \<rparr>)
      in if currentTime_ms - md3_lastMotionTimestamp_ms s1 < md3_LED_MOTION_INDICATOR_DURATION_MS
            \<and> md3_lastMotionTimestamp_ms s1 \<noteq> 0
         then s1\<lparr>md3_ledIndicatesMotion := True\<rparr>
         else s1\<lparr>md3_ledIndicatesMotion := False\<rparr>)"

definition md3_loop :: "md3_obs \<Rightarrow> md3_state \<Rightarrow> motion list \<times> md3_state" where
  "md3_loop ob s =
     (let currentTime_ms = md3_ob_millis ob;
          r =
            (if currentTime_ms - md3_lastTelemetryReadTime_ms s \<ge> TELEMETRY_READ_INTERVAL_MS
             then md3_detectSustainedMotionEvents (md3_ob_detect_millis ob)
                    (md3_ob_log_millis_tilt ob) (md3_ob_log_millis_slide ob)
                    (md3_processSensorData (md3_ob_event ob)
                       (s\<lparr>md3_lastTelemetryReadTime_ms := currentTime_ms\<rparr>))
             else ([], s))
      in (fst r, updateSystemIndicatorsAndLogging currentTime_ms (snd r)))"

text \<open>A run of \<^verbatim>\<open>loop()\<close> passes: the detections pass by pass, and the globals in the
  end.\<close>

definition md3_step ::
  "motion list list \<times> md3_state \<Rightarrow> md3_obs \<Rightarrow> motion list list \<times> md3_state" where
  "md3_step acc ob = (case md3_loop ob (snd acc) of (d, s') \<Rightarrow> (fst acc @ [d], s'))"

definition md3_loops :: "md3_obs list \<Rightarrow> md3_state \<Rightarrow> motion list list \<times> md3_state" where
  "md3_loops obs s = foldl md3_step ([], s) obs"

text \<open>What a run shows of the tilt detector: the detections pass by pass, and the
  candidate timer in the end.\<close>

definition md3_outcome :: "md3_obs list \<Rightarrow> md3_state \<Rightarrow> motion list list \<times> millis" where
  "md3_outcome obs s =
     (case md3_loops obs s of (ds, s') \<Rightarrow> (ds, md3_sustainedTiltStartTime_ms s'))"

section \<open>DrinkGuard Coaster v2, adjustable sensitivity (Motion\_Detection4.ino)\<close>

text \<open>The Arduino core's macro
  \<^verbatim>\<open>constrain(amt,low,high) ((amt)<(low)?(low):((amt)>(high)?(high):(amt)))\<close>.\<close>

definition constrain :: "'a::linorder \<Rightarrow> 'a \<Rightarrow> 'a \<Rightarrow> 'a" where
  "constrain amt low high = (if amt < low then low else if amt > high then high else amt)"

text \<open>What a handler passes to \<^verbatim>\<open>server.send\<close>, with the \<^verbatim>\<open>Location\<close> header when it
  sets one.\<close>

record http_reply =
  reply_code :: nat
  reply_location :: "string option"
  reply_body :: string

definition md4_WEB_MOTION_INDICATOR_DURATION_MS :: millis where
  "md4_WEB_MOTION_INDICATOR_DURATION_MS = 2000"

definition md4_LED_MOTION_INDICATOR_DURATION_MS :: millis where
  "md4_LED_MOTION_INDICATOR_DURATION_MS = 1000"

record md4_state =
  md4_currentTiltThresholdDegrees :: real
  md4_currentSustainedTiltDurationMs :: millis
  md4_currentSlideThresholdAccel :: real
  md4_currentSustainedSlideDurationMs :: millis
  md4_currentAcceleration :: sensors_vec
  md4_currentGyro :: sensors_vec
  md4_currentRoll_deg :: real
  md4_currentPitch_deg :: real
  md4_animRoll :: real
  md4_animPitch :: real
  md4_animSlideX :: real
  md4_lastMotionTimestamp_ms :: millis
  md4_webShowsMotionActive :: bool
  md4_ledIndicatesMotion :: bool
  md4_isSustainedTilt :: bool
  md4_isSustainedSlide :: bool
  md4_lastMotionType :: string
  md4_prevTiltRoll_deg :: real
  md4_prevTiltPitch_deg :: real
  md4_firstTiltCheck :: bool
  md4_sustainedTiltStartTime_ms :: millis
  md4_prevSlideAccelX :: real
  md4_prevSlideAccelY :: real
  md4_firstSlideCheck :: bool
  md4_sustainedSlideStartTime_ms :: millis

definition md4_tiltDetection :: "millis \<Rightarrow> md4_state \<Rightarrow> motion list \<times> md4_state" where
  "md4_tiltDetection currentTime s =
     (let absDeltaRoll = \<bar>md4_currentRoll_deg s - md4_prevTiltRoll_deg s\<bar>;
          absDeltaPitch = \<bar>md4_currentPitch_deg s - md4_prevTiltPitch_deg s\<bar>;
          r =
            (if md4_firstTiltCheck s
             then ([], s\<lparr> md4_prevTiltRoll_deg := md4_currentRoll_deg s,
                           md4_prevTiltPitch_deg := md4_currentPitch_deg s,
                           md4_firstTiltCheck := False \<rparr>)
             else if absDeltaRoll > md4_currentTiltThresholdDegrees s
                     \<or> absDeltaPitch > md4_currentTiltThresholdDegrees s
             then
               (if md4_sustainedTiltStartTime_ms s = 0
                then ([], s\<lparr>md4_sustainedTiltStartTime_ms := currentTime\<rparr>)
                else if currentTime - md4_sustainedTiltStartTime_ms s
                          \<ge> md4_currentSustainedTiltDurationMs s
                        \<and> \<not> md4_isSustainedTilt s
                then ([Tilt],
                      s\<lparr> md4_isSustainedTilt := True,
                          md4_animPitch := md4_currentPitch_deg s,
                          md4_animRoll := md4_currentRoll_deg s,
                          md4_lastMotionType := ''Tilt'' \<rparr>)
                else ([], s))
             else ([], s\<lparr>md4_sustainedTiltStartTime_ms := 0\<rparr>))
      in (fst r, (snd r)\<lparr> md4_prevTiltRoll_deg := md4_currentRoll_deg (snd r),
                           md4_prevTiltPitch_deg := md4_currentPitch_deg (snd r) \<rparr>))"

definition md4_slideDetection :: "millis \<Rightarrow> md4_state \<Rightarrow> motion list \<times> md4_state" where
  "md4_slideDetection currentTime s =
     (let ax = vx (md4_currentAcceleration s);
          ay = vy (md4_currentAcceleration s);
          deltaAccelX = \<bar>ax - md4_prevSlideAccelX s\<bar>;
          deltaAccelY = \<bar>ay - md4_prevSlideAccelY s\<bar>;
          r =
            (if md4_firstSlideCheck s
             then ([], s\<lparr> md4_prevSlideAccelX := ax, md4_prevSlideAccelY := ay,
                           md4_firstSlideCheck := False \<rparr>)
             else if deltaAccelX > md4_currentSlideThresholdAccel s
                     \<or> deltaAccelY > md4_currentSlideThresholdAccel s
             then
               (if md4_sustainedSlideStartTime_ms s = 0
                then ([], s\<lparr>md4_sustainedSlideStartTime_ms := currentTime\<rparr>)
                else if currentTime - md4_sustainedSlideStartTime_ms s
                          \<ge> md4_currentSustainedSlideDurationMs s
                        \<and> \<not> md4_isSustainedSlide s
                then ([Slide],
                      s\<lparr> md4_isSustainedSlide := True,
                          md4_animSlideX :=
                            (if deltaAccelX > deltaAccelY
                             then (if ax > md4_prevSlideAccelX s then 1 else - 1)
                             else 0),
                          md4_lastMotionType := ''Slide'' \<rparr>)
                else ([], s))
             else ([], s\<lparr>md4_sustainedSlideStartTime_ms := 0\<rparr>))
      in (fst r, (snd r)\<lparr> md4_prevSlideAccelX := vx (md4_currentAcceleration (snd r)),
                           md4_prevSlideAccelY := vy (md4_currentAcceleration (snd r)) \<rparr>))"

definition md4_detectSustainedMotionEvents ::
  "millis \<Rightarrow> md4_state \<Rightarrow> motion list \<times> md4_state" where
  "md4_detectSustainedMotionEvents currentTime s =
     (let r1 = md4_tiltDetection currentTime s;
          r2 = md4_slideDetection currentTime (snd r1);
          detected = fst r1 @ fst r2
      in (detected,
          if detected \<noteq> [] then (snd r2)\<lparr>md4_lastMotionTimestamp_ms := currentTime\<rparr>
          else snd r2))"

definition md4_updateSystemIndicators :: "millis \<Rightarrow> md4_state \<Rightarrow> md4_state" where
  "md4_updateSystemIndicators currentTime_ms s =
     (let s1 =
            (if currentTime_ms - md4_lastMotionTimestamp_ms s < md4_WEB_MOTION_INDICATOR_DURATION_MS
                \<and> md4_lastMotionTimestamp_ms s \<noteq> 0
             then s\<lparr>md4_webShowsMotionActive := True\<rparr>
             else s\<lparr> md4_webShowsMotionActive := False,
                     md4_isSustainedTilt := False, md4_isSustainedSlide := False,
                     md4_lastMotionType := ''None'',
                     md4_animRoll := 0, md4_animPitch := 0, md4_animSlideX := 0 \<rparr>)
      in if currentTime_ms - md4_lastMotionTimestamp_ms s1 < md4_LED_MOTION_INDICATOR_DURATION_MS
            \<and> md4_lastMotionTimestamp_ms s1 \<noteq> 0
         then s1\<lparr>md4_ledIndicatesMotion := True\<rparr>
         else s1\<lparr>md4_ledIndicatesMotion := False\<rparr>)"

definition md4_init :: md4_state where
  "md4_init =
     \<lparr> md4_currentTiltThresholdDegrees = 15 / 10,
       md4_currentSustainedTiltDurationMs = 250,
       md4_currentSlideThresholdAccel = 1,
       md4_currentSustainedSlideDurationMs = 250,
       md4_currentAcceleration = \<lparr>vx = 0, vy = 0, vz = 0\<rparr>,
       md4_currentGyro = \<lparr>vx = 0, vy = 0, vz = 0\<rparr>,
       md4_currentRoll_deg = 0, md4_currentPitch_deg = 0,
       md4_animRoll = 0, md4_animPitch = 0, md4_animSlideX = 0,
       md4_lastMotionTimestamp_ms = 0, md4_webShowsMotionActive = False,
       md4_ledIndicatesMotion = False,
       md4_isSustainedTilt = False, md4_isSustainedSlide = False,
       md4_lastMotionType = ''None'',
       md4_prevTiltRoll_deg = 0, md4_prevTiltPitch_deg = 0, md4_firstTiltCheck = True,
       md4_sustainedTiltStartTime_ms = 0,
       md4_prevSlideAccelX = 0, md4_prevSlideAccelY = 0, md4_firstSlideCheck = True,
       md4_sustainedSlideStartTime_ms = 0 \<rparr>"

definition md4_processSensorData :: "mpu_event \<Rightarrow> md4_state \<Rightarrow> md4_state" where
  "md4_processSensorData e s =
     (let a = ev_acceleration e
      in s\<lparr> md4_currentAcceleration := a, md4_currentGyro := ev_gyro e,
             md4_currentRoll_deg := atan2 (vy a) (vz a) * 180 / pi,
             md4_currentPitch_deg :=
               atan2 (- vx a) (sqrt (vy a * vy a + vz a * vz a)) * 180 / pi \<rparr>)"

text \<open>A poll tick of this sketch's \<^verbatim>\<open>loop()\<close>, at which every reading of \<^verbatim>\<open>millis()\<close>
  gives \<open>t\<close>: the sensor is read, the detectors run and the indicators are updated.\<close>

definition md4_tick :: "md4_state \<Rightarrow> millis \<times> mpu_event \<Rightarrow> md4_state" where
  "md4_tick s te =
     md4_updateSystemIndicators (fst te)
       (snd (md4_detectSustainedMotionEvents (fst te) (md4_processSensorData (snd te) s)))"

text \<open>\<^verbatim>\<open>handleUpdateSetting\<close>: \<open>param\<close> and \<open>action\<close> are the two request arguments. A
  duration is copied into a \<^verbatim>\<open>long\<close>, stepped and constrained there, and stored back
  into the \<^verbatim>\<open>unsigned long\<close> global.\<close>

definition handleUpdateSetting :: "string \<Rightarrow> string \<Rightarrow> md4_state \<Rightarrow> http_reply \<times> md4_state" where
  "handleUpdateSetting param action s =
     (let stepF = (\<lambda>v::real. if action = ''inc'' then v + 1 / 10
                              else if action = ''dec'' then v - 1 / 10 else v);
          stepL = (\<lambda>v::int. if action = ''inc'' then v + 25
                             else if action = ''dec'' then v - 25 else v);
          s1 =
            (if param = ''tilt_thresh''
             then s\<lparr> md4_currentTiltThresholdDegrees :=
                        constrain (stepF (md4_currentTiltThresholdDegrees s)) (2 / 10) 5 \<rparr>
             else if param = ''tilt_dur''
             then s\<lparr> md4_currentSustainedTiltDurationMs :=
                        word_of_int
                          (constrain (stepL (sint (md4_currentSustainedTiltDurationMs s))) 50 1000) \<rparr>
             else if param = ''slide_thresh''
             then s\<lparr> md4_currentSlideThresholdAccel :=
                        constrain (stepF (md4_currentSlideThresholdAccel s)) (1 / 10) 3 \<rparr>
             else if param = ''slide_dur''
             then s\<lparr> md4_currentSustainedSlideDurationMs :=
                        word_of_int
                          (constrain (stepL (sint (md4_currentSustainedSlideDurationMs s))) 50 1000) \<rparr>
             else s)
      in (\<lparr> reply_code = 302, reply_location = Some ''/'', reply_body = ''Updating...'' \<rparr>,
          s1))"

text \<open>The value that \<^verbatim>\<open>handleUpdateSetting\<close> of Motion\_Detection4.ino hands to
  \<^verbatim>\<open>constrain\<close>: the current setting moved one step (0.1, or 25 ms) by the action.\<close>

definition md4_steppedFloat :: "string \<Rightarrow> real \<Rightarrow> real" where
  "md4_steppedFloat action v =
     (if action = ''inc'' then v + 1 / 10 else if action = ''dec'' then v - 1 / 10 else v)"

definition md4_steppedLong :: "string \<Rightarrow> int \<Rightarrow> int" where
  "md4_steppedLong action v =
     (if action = ''inc'' then v + 25 else if action = ''dec'' then v - 25 else v)"

section \<open>MotionGuard Pro, core functionality test build (motion\_detection2.ino)\<close>

text \<open>A request argument of \<^verbatim>\<open>handleUpdateSettings\<close>: its name, and what
  \<^verbatim>\<open>valStr.toFloat()\<close> and \<^verbatim>\<open>strtoul(valStr.c_str(), NULL, 10)\<close> make of its text.\<close>

record form_arg =
  arg_name :: string
  arg_toFloat :: cfloat
  arg_strtoul :: "32 word"

record mg_settings =
  mg_currentTiltThresholdDegrees :: real
  mg_currentSustainedTiltDurationMs :: millis
  mg_currentSlideThresholdAccel :: real
  mg_currentSustainedSlideDurationMs :: millis

text \<open>The body of the loop over the request arguments. Of the values \<^verbatim>\<open>toFloat()\<close>
  can deliver only a number passes \<^verbatim>\<open>v>=0.05f&&v<=5.0f\<close>.\<close>

definition mg_applyArg :: "form_arg \<Rightarrow> mg_settings \<Rightarrow> mg_settings" where
  "mg_applyArg a s =
     (if arg_name a = ''slide_thresh_accel''
      then (case arg_toFloat a of
              Num v \<Rightarrow>
                if v \<ge> 5 / 100 \<and> v \<le> 5 then s\<lparr>mg_currentSlideThresholdAccel := v\<rparr> else s
            | _ \<Rightarrow> s)
      else if arg_name a = ''slide_duration_ms''
      then (let v = arg_strtoul a
            in if v \<ge> 50 \<and> v \<le> 3000 then s\<lparr>mg_currentSustainedSlideDurationMs := v\<rparr> else s)
      else s)"

text \<open>\<^verbatim>\<open>handleUpdateSettings\<close>: \<open>authenticated\<close> is the result of
  \<^verbatim>\<open>server.authenticate\<close>; without it the handler asks for credentials (status 401) and
  changes nothing.\<close>

definition handleUpdateSettings ::
  "bool \<Rightarrow> form_arg list \<Rightarrow> mg_settings \<Rightarrow> http_reply \<times> mg_settings" where
  "handleUpdateSettings authenticated args s =
     (if \<not> authenticated
      then (\<lparr> reply_code = 401, reply_location = None, reply_body = [] \<rparr>, s)
      else (\<lparr> reply_code = 302, reply_location = Some ''/'', reply_body = ''Updating...'' \<rparr>,
            fold mg_applyArg args s))"

section \<open>Tap-Guard (Motion\_Detection\_Alpha.ino, Motion\_Detection\_Alpha2.ino, v7, v8)\<close>

text \<open>The conversion of a float to \<^verbatim>\<open>int\<close> truncates toward zero.\<close>

definition trunc_int :: "real \<Rightarrow> int" where
  "trunc_int x = (if 0 \<le> x then \<lfloor>x\<rfloor> else \<lceil>x\<rceil>)"


text \<open>Tap-Guard v6 (Motion\_Detection\_Alpha2.ino):
  \<^verbatim>\<open>max(THR_MIN, int(THR_MAX - sens * (THR_MAX - THR_MIN)))\<close>.\<close>

definition THR_MIN :: int where
  "THR_MIN = 1"

definition THR_MAX :: int where
  "THR_MAX = 120"

definition calcThr :: "real \<Rightarrow> int" where
  "calcThr sens =
     max THR_MIN
       (trunc_int (fl (float_of_int THR_MAX - fl (sens * float_of_int (THR_MAX - THR_MIN)))))"

text \<open>\<^verbatim>\<open>hSens\<close> of v6: \<open>val\<close> is \<^verbatim>\<open>server.arg("val").toFloat()\<close>. The handler stores the
  constrained value in \<^verbatim>\<open>sens\<close>, hands \<^verbatim>\<open>calcThr()\<close> to the sensor and replies with status
  200 and an empty body; the result is the reply, the new \<^verbatim>\<open>sens\<close> and the threshold
  handed over. A NaN passes both comparisons of \<^verbatim>\<open>constrain\<close>; the conversion of a NaN to
  \<^verbatim>\<open>int\<close> in \<^verbatim>\<open>calcThr\<close> is not defined by the language, and the threshold is \<open>None\<close>
  then.\<close>

definition hSens :: "cfloat \<Rightarrow> http_reply \<times> cfloat \<times> int option" where
  "hSens val =
     (let sens = constrain_float val 0 1;
          thr = (case sens of Num x \<Rightarrow> Some (calcThr x) | _ \<Rightarrow> None)
      in (\<lparr> reply_code = 200, reply_location = None, reply_body = [] \<rparr>, sens, thr))"

text \<open>Tap-Guard v7: the slider level 1..10 is mapped to the threshold by
  \<^verbatim>\<open>THR_MAX - (level-1) * ((THR_MAX-THR_MIN)/9.0f)\<close>, converted to \<^verbatim>\<open>int\<close> on return.\<close>

definition tg7_THR_MIN :: int where
  "tg7_THR_MIN = 1"

definition tg7_THR_MAX :: int where
  "tg7_THR_MAX = 180"

definition tg7_thrVal :: "int \<Rightarrow> int" where
  "tg7_thrVal level =
     trunc_int
       (fl (float_of_int tg7_THR_MAX
            - fl (float_of_int (level - 1)
                  * fl (float_of_int (tg7_THR_MAX - tg7_THR_MIN) / 9))))"

text \<open>\<^verbatim>\<open>hSens\<close> of v7: \<open>val\<close> is \<^verbatim>\<open>server.arg("val").toInt()\<close>. The handler stores the
  constrained level, hands \<^verbatim>\<open>thrVal()\<close> to the sensor and replies with status 200 and an
  empty body; the result is the reply, the new level and the threshold handed over.\<close>

definition tg7_hSens :: "int \<Rightarrow> http_reply \<times> int \<times> int" where
  "tg7_hSens val =
     (let level = constrain val 1 10
      in (\<lparr> reply_code = 200, reply_location = None, reply_body = [] \<rparr>,
          level, tg7_thrVal level))"

text \<open>Tap-Guard v8 (second sketch of motion\_detection.ino). The Arduino core's
  \<^verbatim>\<open>map(x, in_min, in_max, out_min, out_max)\<close> computes in \<^verbatim>\<open>long\<close>, and C division
  truncates toward zero.\<close>

definition c_div :: "int \<Rightarrow> int \<Rightarrow> int" where
  "c_div a b = sgn a * sgn b * (\<bar>a\<bar> div \<bar>b\<bar>)"

definition arduino_map :: "int \<Rightarrow> int \<Rightarrow> int \<Rightarrow> int \<Rightarrow> int \<Rightarrow> int" where
  "arduino_map x in_min in_max out_min out_max =
     c_div ((x - in_min) * (out_max - out_min)) (in_max - in_min) + out_min"

definition DEVICE_THR_MOST_SENSITIVE :: int where
  "DEVICE_THR_MOST_SENSITIVE = 1"

definition DEVICE_THR_DEFAULT_OPTIMAL :: int where
  "DEVICE_THR_DEFAULT_OPTIMAL = 1"

definition DEVICE_THR_LEAST_SENSITIVE :: int where
  "DEVICE_THR_LEAST_SENSITIVE = 80"

definition tg8_thrVal :: "int \<Rightarrow> int" where
  "tg8_thrVal level =
     (if level = 5 then DEVICE_THR_DEFAULT_OPTIMAL
      else if level > 5 then DEVICE_THR_MOST_SENSITIVE
      else arduino_map level 1 4 DEVICE_THR_LEAST_SENSITIVE (DEVICE_THR_DEFAULT_OPTIMAL + 1))"

text \<open>\<^verbatim>\<open>hSens\<close> of v8: \<open>arg\<close> is \<^verbatim>\<open>server.arg("val").toInt()\<close> when the request has the
  argument, \<open>level\<close> the level before the request. Without the argument the level is
  kept and nothing is handed to the sensor; the reply is status 200 with an empty body
  in both cases.\<close>

definition tg8_hSens :: "int option \<Rightarrow> int \<Rightarrow> http_reply \<times> int \<times> int option" where
  "tg8_hSens arg level =
     (case arg of
        None \<Rightarrow> (\<lparr> reply_code = 200, reply_location = None, reply_body = [] \<rparr>, level, None)
      | Some newLevel \<Rightarrow>
          (let l = constrain newLevel 1 10
           in (\<lparr> reply_code = 200, reply_location = None, reply_body = [] \<rparr>,
               l, Some (tg8_thrVal l))))"

section \<open>MPU6050 web server, tilt and slide detection (first sketch of motion\_detection.ino)\<close>

definition TILT_CHANGE_DEGREE_THRESHOLD :: real where
  "TILT_CHANGE_DEGREE_THRESHOLD = 5 / 10"

definition SUSTAINED_TILT_DURATION :: millis where
  "SUSTAINED_TILT_DURATION = 250"

definition SLIDE_ACCEL_CHANGE_THRESHOLD :: real where
  "SLIDE_ACCEL_CHANGE_THRESHOLD = 5 / 10"

definition SUSTAINED_SLIDE_DURATION :: millis where
  "SUSTAINED_SLIDE_DURATION = 150"

definition MAX_MOTION_LOG_ENTRIES :: nat where
  "MAX_MOTION_LOG_ENTRIES = 20"

definition MIN_INTERVAL_BETWEEN_LOG_ENTRIES :: millis where
  "MIN_INTERVAL_BETWEEN_LOG_ENTRIES = 300"

definition telemetryReadInterval :: millis where
  "telemetryReadInterval = 50"

definition WEB_MOTION_VISIBLE_DURATION :: millis where
  "WEB_MOTION_VISIBLE_DURATION = 900"

definition LED_ON_DURATION_AFTER_MOTION :: millis where
  "LED_ON_DURATION_AFTER_MOTION = 500"

text \<open>The float literal \<^verbatim>\<open>1e-4f\<close>: the single-precision number nearest to 0.0001,
  which is \<open>13743895 / 2^37\<close>.\<close>

definition near_zero_eps :: real where
  "near_zero_eps = 13743895 / 137438953472"

record LogEntry =
  timestamp :: millis
  le_motionType :: string
  accelData :: sensors_vec
  gyroData :: sensors_vec
  rollAtDetection :: real
  pitchAtDetection :: real

record md1_state =
  current_a :: sensors_vec
  current_g :: sensors_vec
  current_roll :: real
  current_pitch :: real
  lastTelemetryReadMillis :: millis
  lastMotionDetectedTime :: millis
  webPageShowsMotion :: bool
  ledShouldBeOn :: bool
  prev_roll_tilt :: real
  prev_pitch_tilt :: real
  firstTiltReading :: bool
  continuousTiltChangeStartTime :: millis
  deviceIsTiltingSustained :: bool
  prev_ax_slide :: real
  prev_ay_slide :: real
  firstAccelReadingForSlide :: bool
  continuousSlideStartTime :: millis
  deviceIsSlidingSustained :: bool
  motionLog :: "LogEntry list"
  lastTimeEntryAddedToLog :: millis
  prevOverallMotionState :: bool

definition md1_init :: md1_state where
  "md1_init =
     \<lparr> current_a = \<lparr>vx = 0, vy = 0, vz = 0\<rparr>, current_g = \<lparr>vx = 0, vy = 0, vz = 0\<rparr>,
       current_roll = 0, current_pitch = 0,
       lastTelemetryReadMillis = 0, lastMotionDetectedTime = 0,
       webPageShowsMotion = False, ledShouldBeOn = False,
       prev_roll_tilt = 0, prev_pitch_tilt = 0, firstTiltReading = True,
       continuousTiltChangeStartTime = 0, deviceIsTiltingSustained = False,
       prev_ax_slide = 0, prev_ay_slide = 0, firstAccelReadingForSlide = True,
       continuousSlideStartTime = 0, deviceIsSlidingSustained = False,
       motionLog = [], lastTimeEntryAddedToLog = 0, prevOverallMotionState = False \<rparr>"

definition readTelemetryDataAndAngles :: "mpu_event \<Rightarrow> md1_state \<Rightarrow> md1_state" where
  "readTelemetryDataAndAngles e s =
     (let ax = vx (ev_acceleration e); ay = vy (ev_acceleration e);
          az = vz (ev_acceleration e);
          s1 = s\<lparr>current_a := ev_acceleration e, current_g := ev_gyro e\<rparr>;
          s2 = (if \<bar>az\<bar> < near_zero_eps \<and> \<bar>ay\<bar> < near_zero_eps
                then s1\<lparr>current_roll := (if firstTiltReading s1 then 0 else prev_roll_tilt s1)\<rparr>
                else s1\<lparr>current_roll := atan2 ay az * 180 / pi\<rparr>);
          yz_sqrt_sum = sqrt (ay\<^sup>2 + az\<^sup>2)
      in if yz_sqrt_sum < near_zero_eps
         then s2\<lparr>current_pitch := (if firstTiltReading s2 then 0 else prev_pitch_tilt s2)\<rparr>
         else s2\<lparr>current_pitch := atan2 (- ax) yz_sqrt_sum * 180 / pi\<rparr>)"

definition checkSustainedTilt :: "millis \<Rightarrow> md1_state \<Rightarrow> md1_state" where
  "checkSustainedTilt ct s =
     (if firstTiltReading s
      then s\<lparr> prev_roll_tilt := current_roll s, prev_pitch_tilt := current_pitch s,
              firstTiltReading := False, continuousTiltChangeStartTime := 0,
              deviceIsTiltingSustained := False \<rparr>
      else
        let dr = \<bar>current_roll s - prev_roll_tilt s\<bar>;
            dp = \<bar>current_pitch s - prev_pitch_tilt s\<bar>;
            s1 =
              (if dr > TILT_CHANGE_DEGREE_THRESHOLD \<or> dp > TILT_CHANGE_DEGREE_THRESHOLD
               then
                 let sa = (if continuousTiltChangeStartTime s = 0
                           then s\<lparr>continuousTiltChangeStartTime := ct\<rparr> else s)
                 in if ct - continuousTiltChangeStartTime sa \<ge> SUSTAINED_TILT_DURATION
                    then sa\<lparr>deviceIsTiltingSustained := True\<rparr> else sa
               else s\<lparr>deviceIsTiltingSustained := False, continuousTiltChangeStartTime := 0\<rparr>)
        in s1\<lparr>prev_roll_tilt := current_roll s1, prev_pitch_tilt := current_pitch s1\<rparr>)"

definition checkSustainedSlide :: "millis \<Rightarrow> md1_state \<Rightarrow> md1_state" where
  "checkSustainedSlide ct s =
     (if firstAccelReadingForSlide s
      then s\<lparr> prev_ax_slide := vx (current_a s), prev_ay_slide := vy (current_a s),
              firstAccelReadingForSlide := False, continuousSlideStartTime := 0,
              deviceIsSlidingSustained := False \<rparr>
      else
        let dax = \<bar>vx (current_a s) - prev_ax_slide s\<bar>;
            day = \<bar>vy (current_a s) - prev_ay_slide s\<bar>;
            s1 =
              (if dax + day > SLIDE_ACCEL_CHANGE_THRESHOLD
               then
                 let sa = (if continuousSlideStartTime s = 0
                           then s\<lparr>continuousSlideStartTime := ct\<rparr> else s)
                 in if ct - continuousSlideStartTime sa \<ge> SUSTAINED_SLIDE_DURATION
                    then sa\<lparr>deviceIsSlidingSustained := True\<rparr> else sa
               else s\<lparr>deviceIsSlidingSustained := False, continuousSlideStartTime := 0\<rparr>)
        in s1\<lparr>prev_ax_slide := vx (current_a s1), prev_ay_slide := vy (current_a s1)\<rparr>)"

definition addMotionToLog ::
  "millis \<Rightarrow> string \<Rightarrow> sensors_vec \<Rightarrow> sensors_vec \<Rightarrow> real \<Rightarrow> real \<Rightarrow> md1_state \<Rightarrow> md1_state"
  where
  "addMotionToLog ts type a g r p s =
     (let s1 = (if length (motionLog s) \<ge> MAX_MOTION_LOG_ENTRIES
                then s\<lparr>motionLog := tl (motionLog s)\<rparr> else s);
          nE = \<lparr> timestamp = ts, le_motionType = type, accelData = a, gyroData = g,
                  rollAtDetection = r, pitchAtDetection = p \<rparr>
      in s1\<lparr>motionLog := motionLog s1 @ [nE]\<rparr>)"

definition updateMotionDisplayStates :: "millis \<Rightarrow> md1_state \<Rightarrow> md1_state" where
  "updateMotionDisplayStates ct s =
     (if lastMotionDetectedTime s = 0 \<and> \<not> deviceIsTiltingSustained s
         \<and> \<not> deviceIsSlidingSustained s
      then s\<lparr>webPageShowsMotion := False, ledShouldBeOn := False\<rparr>
      else s\<lparr> webPageShowsMotion :=
                (ct - lastMotionDetectedTime s < WEB_MOTION_VISIBLE_DURATION),
              ledShouldBeOn :=
                (ct - lastMotionDetectedTime s < LED_ON_DURATION_AFTER_MOTION) \<rparr>)"

text \<open>The block of \<^verbatim>\<open>loop()\<close> that reacts to the overall motion state: on its rising edge
  the motion is logged, unless an entry was logged less than
  \<^verbatim>\<open>MIN_INTERVAL_BETWEEN_LOG_ENTRIES\<close> ago.\<close>

definition logMotionStart :: "millis \<Rightarrow> md1_state \<Rightarrow> md1_state" where
  "logMotionStart currentMillisInLoop s =
     (let overallMotionDetected = (deviceIsTiltingSustained s \<or> deviceIsSlidingSustained s);
          s1 =
            (if overallMotionDetected \<and> \<not> prevOverallMotionState s
             then
               let motionTypeStr =
                     (if deviceIsTiltingSustained s \<and> deviceIsSlidingSustained s
                      then ''Tilt & Slide''
                      else if deviceIsTiltingSustained s then ''Tilt''
                      else if deviceIsSlidingSustained s then ''Slide''
                      else ''Motion'');
                   sa = s\<lparr>lastMotionDetectedTime := currentMillisInLoop\<rparr>
               in if currentMillisInLoop - lastTimeEntryAddedToLog sa
                       \<ge> MIN_INTERVAL_BETWEEN_LOG_ENTRIES
                  then (addMotionToLog currentMillisInLoop motionTypeStr (current_a sa)
                          (current_g sa) (current_roll sa) (current_pitch sa) sa)
                         \<lparr>lastTimeEntryAddedToLog := currentMillisInLoop\<rparr>
                  else sa
             else s)
      in s1\<lparr>prevOverallMotionState := overallMotionDetected\<rparr>)"

text \<open>\<^verbatim>\<open>addMotionToLog\<close> on an entry given as a whole, and a run of appends.\<close>

definition appendEntry :: "LogEntry \<Rightarrow> md1_state \<Rightarrow> md1_state" where
  "appendEntry e s =
     addMotionToLog (timestamp e) (le_motionType e) (accelData e) (gyroData e)
       (rollAtDetection e) (pitchAtDetection e) s"

text \<open>The rising edge of the overall motion state, on which \<^verbatim>\<open>loop()\<close> logs.\<close>

definition motionStarted :: "md1_state \<Rightarrow> bool" where
  "motionStarted s =
     ((deviceIsTiltingSustained s \<or> deviceIsSlidingSustained s) \<and> \<not> prevOverallMotionState s)"

text \<open>The text \<^verbatim>\<open>loop()\<close> logs for the motion that started.\<close>

definition motionTypeStr :: "md1_state \<Rightarrow> string" where
  "motionTypeStr s =
     (if deviceIsTiltingSustained s \<and> deviceIsSlidingSustained s then ''Tilt & Slide''
      else if deviceIsTiltingSustained s then ''Tilt''
      else if deviceIsSlidingSustained s then ''Slide''
      else ''Motion'')"

text \<open>One pass of \<^verbatim>\<open>loop()\<close>: \<open>now\<close> is its reading of \<^verbatim>\<open>millis()\<close>, \<open>ct\<close> the
  reading inside the two checks and the display update, \<open>e\<close> the sensor event.\<close>

definition md1_loop :: "millis \<Rightarrow> millis \<Rightarrow> mpu_event \<Rightarrow> md1_state \<Rightarrow> md1_state" where
  "md1_loop now ct e s =
     (let s1 =
            (if now - lastTelemetryReadMillis s \<ge> telemetryReadInterval
             then checkSustainedSlide ct
                    (checkSustainedTilt ct
                       (readTelemetryDataAndAngles e (s\<lparr>lastTelemetryReadMillis := now\<rparr>)))
             else s)
      in updateMotionDisplayStates ct (logMotionStart now s1))"

text \<open>Between two passes of \<^verbatim>\<open>loop()\<close> the previous roll and pitch that the tilt check keeps
  are the current ones (both 0 before the first reading): the roll and pitch that
  \<^verbatim>\<open>readTelemetryDataAndAngles\<close> falls back to are those of the previous reading.\<close>

definition md1_prev_ok :: "md1_state \<Rightarrow> bool" where
  "md1_prev_ok s =
     (if firstTiltReading s then current_roll s = 0 \<and> current_pitch s = 0
      else prev_roll_tilt s = current_roll s \<and> prev_pitch_tilt s = current_pitch s)"

section \<open>AuraGuard Coaster v21.1 (hardware motion interrupt and software slow-move detection)\<close>

definition ACCEL_READ_INTERVAL_MS :: millis where
  "ACCEL_READ_INTERVAL_MS = 100"

definition SLOW_MOVE_SAMPLE_COUNT :: nat where
  "SLOW_MOVE_SAMPLE_COUNT = 5"

definition SLOW_MOVE_THRESHOLD_G :: real where
  "SLOW_MOVE_THRESHOLD_G = 35 / 1000"

definition SLOW_MOVE_MIN_DURATION_MS :: millis where
  "SLOW_MOVE_MIN_DURATION_MS = 750"

definition MAX_MOTION_LOG_ENTRIES_AG :: nat where
  "MAX_MOTION_LOG_ENTRIES_AG = 30"

text \<open>The array \<^verbatim>\<open>g_motionLog\<close> has \<^verbatim>\<open>MAX_MOTION_LOG_ENTRIES\<close> cells, of which the first
  \<^verbatim>\<open>g_motionLogCount\<close> hold the log; \<^verbatim>\<open>g_accelMagnitudeSamples\<close> has
  \<^verbatim>\<open>SLOW_MOVE_SAMPLE_COUNT\<close> cells.\<close>

record ag_state =
  g_isSystemArmed :: bool
  g_newRawMotionDetectedByMPU :: bool
  g_newSlowMoveDetectedBySW :: bool
  g_motionEventForWebUI :: bool
  g_motionLog :: "string list"
  g_motionLogCount :: nat
  g_armingTimeMillis :: millis
  g_accelBaselineMagnitude :: real
  g_accelMagnitudeSamples :: "real list"
  g_accelSampleIndex :: nat
  g_baselineEstablished :: bool
  g_lastAccelReadTime :: millis
  g_slowMoveStartTime :: millis
  g_potentialSlowMove :: bool

definition ag_init :: ag_state where
  "ag_init =
     \<lparr> g_isSystemArmed = False, g_newRawMotionDetectedByMPU = False,
       g_newSlowMoveDetectedBySW = False, g_motionEventForWebUI = False,
       g_motionLog = replicate MAX_MOTION_LOG_ENTRIES_AG [], g_motionLogCount = 0,
       g_armingTimeMillis = 0, g_accelBaselineMagnitude = 0,
       g_accelMagnitudeSamples = replicate SLOW_MOVE_SAMPLE_COUNT 0,
       g_accelSampleIndex = 0, g_baselineEstablished = False,
       g_lastAccelReadTime = 0, g_slowMoveStartTime = 0, g_potentialSlowMove = False \<rparr>"

definition calculateAccelMagnitude :: "mpu_event \<Rightarrow> real" where
  "calculateAccelMagnitude e =
     (let ax = vx (ev_acceleration e) / (981 / 100);
          ay = vy (ev_acceleration e) / (981 / 100);
          az = vz (ev_acceleration e) / (981 / 100)
      in sqrt (ax * ax + ay * ay + az * az))"

definition updateAccelSamples :: "real \<Rightarrow> ag_state \<Rightarrow> ag_state" where
  "updateAccelSamples currentMagnitude s =
     (let s1 = s\<lparr> g_accelMagnitudeSamples :=
                     (g_accelMagnitudeSamples s)[g_accelSampleIndex s := currentMagnitude] \<rparr>;
          s2 = s1\<lparr>g_accelSampleIndex := (g_accelSampleIndex s1 + 1) mod SLOW_MOVE_SAMPLE_COUNT\<rparr>
      in if \<not> g_baselineEstablished s2 \<and> g_accelSampleIndex s2 = 0
         then s2\<lparr>g_baselineEstablished := True\<rparr> else s2)"

text \<open>The sum of the sample cells, as the two \<^verbatim>\<open>for\<close> loops of \<^verbatim>\<open>checkForSlowMove\<close> add
  them up.\<close>

definition sumSamples :: "ag_state \<Rightarrow> real" where
  "sumSamples s = (\<Sum>i \<leftarrow> [0 ..< SLOW_MOVE_SAMPLE_COUNT]. g_accelMagnitudeSamples s ! i)"

text \<open>\<^verbatim>\<open>checkForSlowMove\<close>: \<open>now\<close> stands for its readings of \<^verbatim>\<open>millis()\<close>; its parameter
  \<^verbatim>\<open>currentMagnitude\<close> is read nowhere in its body. The result is the value it returns (a
  slow move was detected) and the globals it leaves.\<close>

definition checkForSlowMove :: "millis \<Rightarrow> ag_state \<Rightarrow> bool \<times> ag_state" where
  "checkForSlowMove now s =
     (if \<not> g_baselineEstablished s
      then (False,
            s\<lparr>g_accelBaselineMagnitude := sumSamples s / real SLOW_MOVE_SAMPLE_COUNT\<rparr>)
      else
        let currentSmoothedMagnitude = sumSamples s / real SLOW_MOVE_SAMPLE_COUNT;
            diff = \<bar>currentSmoothedMagnitude - g_accelBaselineMagnitude s\<bar>
        in if diff > SLOW_MOVE_THRESHOLD_G
           then
             (if \<not> g_potentialSlowMove s
              then (False, s\<lparr>g_potentialSlowMove := True, g_slowMoveStartTime := now\<rparr>)
              else if now - g_slowMoveStartTime s \<ge> SLOW_MOVE_MIN_DURATION_MS
              then (True,
                    s\<lparr> g_accelBaselineMagnitude := currentSmoothedMagnitude,
                        g_potentialSlowMove := False \<rparr>)
              else (False, s))
           else
             (let s1 = s\<lparr>g_potentialSlowMove := False\<rparr>
              in (False,
                  if now mod (ACCEL_READ_INTERVAL_MS * 10) = 0
                  then s1\<lparr> g_accelBaselineMagnitude :=
                             g_accelBaselineMagnitude s1 * (95 / 100)
                             + currentSmoothedMagnitude * (5 / 100) \<rparr>
                  else s1)))"

text \<open>The smoothed magnitude \<^verbatim>\<open>checkForSlowMove\<close> computes from the sample window, and its
  comparison with the baseline.\<close>

definition smoothedMagnitude :: "ag_state \<Rightarrow> real" where
  "smoothedMagnitude s = sumSamples s / real SLOW_MOVE_SAMPLE_COUNT"

definition slowMoveOver :: "ag_state \<Rightarrow> bool" where
  "slowMoveOver s =
     (\<bar>smoothedMagnitude s - g_accelBaselineMagnitude s\<bar> > SLOW_MOVE_THRESHOLD_G)"

text \<open>What one call of \<^verbatim>\<open>processMotionDetection\<close> observes: the sensor's motion interrupt
  status, the reading of \<^verbatim>\<open>millis()\<close>, the sensor event read by
  \<^verbatim>\<open>calculateAccelMagnitude\<close> and the text \<^verbatim>\<open>getFormattedTime()\<close> returns.\<close>

record ag_obs =
  ag_interrupt :: bool
  ag_millis :: millis
  ag_event :: mpu_event
  ag_formattedTime :: string

definition processMotionDetection :: "ag_obs \<Rightarrow> ag_state \<Rightarrow> ag_state" where
  "processMotionDetection ob s =
     (let hw = ag_interrupt ob;
          s1 = (if hw then s\<lparr>g_newRawMotionDetectedByMPU := True\<rparr> else s);
          r =
            (if ag_millis ob - g_lastAccelReadTime s1 \<ge> ACCEL_READ_INTERVAL_MS
             then
               let sa = s1\<lparr>g_lastAccelReadTime := ag_millis ob\<rparr>;
                   currentMag = calculateAccelMagnitude (ag_event ob);
                   sb = updateAccelSamples currentMag sa
               in if g_baselineEstablished sb
                  then (let c = checkForSlowMove (ag_millis ob) sb
                        in if fst c then (True, (snd c)\<lparr>g_newSlowMoveDetectedBySW := True\<rparr>)
                           else (False, snd c))
                  else (False, sb)
             else (False, s1));
          motionDetectedThisCycle = (hw \<or> fst r);
          s2 = snd r
      in if motionDetectedThisCycle
         then
           (if g_isSystemArmed s2
            then
              let s3 = s2\<lparr>g_motionEventForWebUI := True\<rparr>
              in if g_motionLogCount s3 < MAX_MOTION_LOG_ENTRIES_AG
                 then s3\<lparr> g_motionLog :=
                            (g_motionLog s3)[g_motionLogCount s3 := ag_formattedTime ob],
                          g_motionLogCount := g_motionLogCount s3 + 1 \<rparr>
                 else s3
            else s2)
         else s2)"

text \<open>\<^verbatim>\<open>httpHandleArmCommand\<close>: \<open>arg\<close> is the request's \<^verbatim>\<open>state\<close> argument, if it has
  one; \<open>now\<close> is the reading of \<^verbatim>\<open>millis()\<close>.\<close>

definition httpHandleArmCommand ::
  "string option \<Rightarrow> millis \<Rightarrow> ag_state \<Rightarrow> http_reply \<times> ag_state" where
  "httpHandleArmCommand arg now s =
     (case arg of
        None \<Rightarrow>
          (\<lparr> reply_code = 400, reply_location = None,
             reply_body = ''ERROR: Missing 'state' query parameter.'' \<rparr>, s)
      | Some v \<Rightarrow>
          (let s1 = s\<lparr>g_isSystemArmed := (v = ''1''), g_motionEventForWebUI := False\<rparr>
           in if g_isSystemArmed s1
              then (\<lparr> reply_code = 200, reply_location = None,
                      reply_body = ''ACK: System ARMED. Log cleared.'' \<rparr>,
                    s1\<lparr> g_motionLogCount := 0,
                        g_armingTimeMillis := now,
                        g_baselineEstablished := False,
                        g_accelMagnitudeSamples :=
                          map (\<lambda>x. 0) (g_accelMagnitudeSamples s1),
                        g_accelSampleIndex := 0,
                        g_potentialSlowMove := False \<rparr>)
              else (\<lparr> reply_code = 200, reply_location = None,
                      reply_body = ''ACK: System DISARMED.'' \<rparr>, s1)))"

text \<open>The array \<^verbatim>\<open>logArr\<close> that \<^verbatim>\<open>httpHandleStateRequest\<close> puts into its reply: while
  armed the cells \<^verbatim>\<open>g_motionLog[i]\<close> for \<^verbatim>\<open>i\<close> from 0 below \<^verbatim>\<open>g_motionLogCount\<close>, and
  no entry while disarmed. The loop runs to the counter, whatever the size of the array.\<close>

definition httpHandleStateRequest_log :: "ag_state \<Rightarrow> string list" where
  "httpHandleStateRequest_log s =
     (if g_isSystemArmed s then map (\<lambda>i. g_motionLog s ! i) [0 ..< g_motionLogCount s] else [])"

subsection \<open>Vocabulary of the other classifiers\<close>

text \<open>The comparisons the tilt and slide blocks of motion\_detection3.ino and of
  Motion\_Detection4.ino make on the current readings.\<close>

definition md3_tilt_over :: "md3_state \<Rightarrow> bool" where
  "md3_tilt_over s =
     (\<bar>md3_currentRoll_deg s - md3_prevTiltRoll_deg s\<bar> > md3_currentTiltThresholdDegrees
      \<or> \<bar>md3_currentPitch_deg s - md3_prevTiltPitch_deg s\<bar> > md3_currentTiltThresholdDegrees)"

definition md3_slide_over :: "md3_state \<Rightarrow> bool" where
  "md3_slide_over s =
     (sqrt ((vx (md3_currentAcceleration s) - md3_prevSlideAccelX s)\<^sup>2
            + (vy (md3_currentAcceleration s) - md3_prevSlideAccelY s)\<^sup>2)
        > md3_currentSlideThresholdAccel)"

definition md4_tilt_over :: "md4_state \<Rightarrow> bool" where
  "md4_tilt_over s =
     (\<bar>md4_currentRoll_deg s - md4_prevTiltRoll_deg s\<bar> > md4_currentTiltThresholdDegrees s
      \<or> \<bar>md4_currentPitch_deg s - md4_prevTiltPitch_deg s\<bar> > md4_currentTiltThresholdDegrees s)"

definition md4_slide_over :: "md4_state \<Rightarrow> bool" where
  "md4_slide_over s =
     (\<bar>vx (md4_currentAcceleration s) - md4_prevSlideAccelX s\<bar> > md4_currentSlideThresholdAccel s
      \<or> \<bar>vy (md4_currentAcceleration s) - md4_prevSlideAccelY s\<bar> > md4_currentSlideThresholdAccel s)"

text \<open>The tilt check of motion\_detection.ino: the comparison it makes on the current
  readings, a poll tick (the sensor is read, then \<^verbatim>\<open>checkSustainedTilt\<close> runs with its own
  reading \<open>fst te\<close> of \<^verbatim>\<open>millis()\<close>), a run of poll ticks at each of which the comparison
  holds, and the rising edges of \<^verbatim>\<open>deviceIsTiltingSustained\<close> tick by tick.\<close>

definition md1_tilt_over :: "md1_state \<Rightarrow> bool" where
  "md1_tilt_over s =
     (\<bar>current_roll s - prev_roll_tilt s\<bar> > TILT_CHANGE_DEGREE_THRESHOLD
      \<or> \<bar>current_pitch s - prev_pitch_tilt s\<bar> > TILT_CHANGE_DEGREE_THRESHOLD)"

definition md1_tiltTick :: "millis \<times> mpu_event \<Rightarrow> md1_state \<Rightarrow> md1_state" where
  "md1_tiltTick te s = checkSustainedTilt (fst te) (readTelemetryDataAndAngles (snd te) s)"

fun md1_tilt_over_run :: "(millis \<times> mpu_event) list \<Rightarrow> md1_state \<Rightarrow> bool" where
  "md1_tilt_over_run [] s = True"
| "md1_tilt_over_run (te # tes) s =
     (md1_tilt_over (readTelemetryDataAndAngles (snd te) s)
      \<and> md1_tilt_over_run tes (md1_tiltTick te s))"

fun md1_tilt_rises :: "(millis \<times> mpu_event) list \<Rightarrow> md1_state \<Rightarrow> bool list" where
  "md1_tilt_rises [] s = []"
| "md1_tilt_rises (te # tes) s =
     (deviceIsTiltingSustained (md1_tiltTick te s) \<and> \<not> deviceIsTiltingSustained s)
     # md1_tilt_rises tes (md1_tiltTick te s)"

section \<open>Concrete inputs\<close>

text \<open>A coaster lying flat and at rest (gravity along z, in units the sketches do not
  depend on), one rolled by 45 degrees and one rolled by 135 degrees.\<close>

definition flat_event :: mpu_event where
  "flat_event = \<lparr> ev_acceleration = \<lparr>vx = 0, vy = 0, vz = 1\<rparr>,
                   ev_gyro = \<lparr>vx = 0, vy = 0, vz = 0\<rparr> \<rparr>"

definition rolled_event :: mpu_event where
  "rolled_event = \<lparr> ev_acceleration = \<lparr>vx = 0, vy = 1, vz = 1\<rparr>,
                     ev_gyro = \<lparr>vx = 0, vy = 0, vz = 0\<rparr> \<rparr>"

definition tipped_event :: mpu_event where
  "tipped_event = \<lparr> ev_acceleration = \<lparr>vx = 0, vy = 1, vz = - 1\<rparr>,
                     ev_gyro = \<lparr>vx = 0, vy = 0, vz = 0\<rparr> \<rparr>"

text \<open>Detector states in which a tilt (and a slide) is sustained: of v5, reached from
  arming by two poll ticks of a rolled coaster; of the two other sketches, with the
  readings at rest.\<close>

definition md3_sustained_tilt :: md3_state where
  "md3_sustained_tilt =
     md3_init\<lparr> md3_firstTiltCheck := False, md3_firstSlideCheck := False,
               md3_isSustainedTilt := True, md3_sustainedTiltStartTime_ms := 1050,
               md3_isSustainedSlide := True, md3_sustainedSlideStartTime_ms := 1050,
               md3_lastMotionTimestamp_ms := 1150 \<rparr>"

definition md4_sustained_tilt :: md4_state where
  "md4_sustained_tilt =
     md4_init\<lparr> md4_firstTiltCheck := False, md4_firstSlideCheck := False,
               md4_isSustainedTilt := True, md4_sustainedTiltStartTime_ms := 1050,
               md4_isSustainedSlide := True, md4_sustainedSlideStartTime_ms := 1050,
               md4_lastMotionTimestamp_ms := 1300 \<rparr>"

definition v5_sustained_tilt :: v5_state where
  "v5_sustained_tilt =
     snd (pollTick (1550, rolled_event)
            (snd (pollTick (1050, rolled_event) (handleArmSystem 1000 flat_event v5_init))))"

text \<open>Log entries of motion\_detection.ino, 400 ms apart, and passes of AuraGuard's
  \<^verbatim>\<open>loop()\<close> one second apart, in each of which the sensor reports a motion interrupt.\<close>

definition tilt_entry :: "nat \<Rightarrow> LogEntry" where
  "tilt_entry n =
     \<lparr> timestamp = of_nat (3000 + 400 * n), le_motionType = ''Tilt'',
       accelData = \<lparr>vx = 0, vy = 1, vz = 1\<rparr>, gyroData = \<lparr>vx = 0, vy = 0, vz = 0\<rparr>,
       rollAtDetection = 45, pitchAtDetection = 0 \<rparr>"

definition time_text :: "nat \<Rightarrow> string" where
  "time_text n = ''12:00:'' @ [''0123456789'' ! (n div 10), ''0123456789'' ! (n mod 10)]"

definition ag_motion_pass :: "nat \<Rightarrow> ag_obs" where
  "ag_motion_pass n =
     \<lparr> ag_interrupt = True, ag_millis = of_nat (1000 * (n + 1)), ag_event = flat_event,
       ag_formattedTime = time_text n \<rparr>"

definition ag_armed :: ag_state where
  "ag_armed = snd (httpHandleArmCommand (Some ''1'') 500 ag_init)"

text \<open>States of the two logging sketches: motion\_detection3.ino after its first log entry,
  at 1150 ms; motion\_detection.ino with a tilt just sustained, and with a tilt sustained
  again 200 ms after one was logged at 2500 ms.\<close>

definition md3_logged :: md3_state where
  "md3_logged = addEventToMotionLog 1150 1150 ''Tilt Detected'' 45 0 md3_init"

definition md1_tilting :: md1_state where
  "md1_tilting = md1_init\<lparr>deviceIsTiltingSustained := True\<rparr>"

definition md1_tilting_again :: md1_state where
  "md1_tilting_again =
     (logMotionStart 2600
        ((logMotionStart 2500 md1_tilting)\<lparr>deviceIsTiltingSustained := False\<rparr>))
       \<lparr>deviceIsTiltingSustained := True\<rparr>"

text \<open>States of AuraGuard's slow-move detector, with the baseline established: a
  candidate pending since 1000 ms with a smoothed magnitude of 1 against a baseline of 0;
  the baseline settled at 1; the settled baseline with a slightly different last sample;
  and, armed, a candidate pending since 1000 ms with a smoothed magnitude of 1.2 against
  a baseline of 1.\<close>

definition ag_pending :: ag_state where
  "ag_pending =
     ag_init\<lparr> g_baselineEstablished := True, g_accelMagnitudeSamples := [1, 1, 1, 1, 1],
              g_accelBaselineMagnitude := 0, g_potentialSlowMove := True,
              g_slowMoveStartTime := 1000 \<rparr>"

definition ag_settled :: ag_state where
  "ag_settled =
     ag_init\<lparr> g_baselineEstablished := True, g_accelMagnitudeSamples := [1, 1, 1, 1, 1],
              g_accelBaselineMagnitude := 1 \<rparr>"

definition ag_drifting :: ag_state where
  "ag_drifting =
     ag_init\<lparr> g_baselineEstablished := True,
              g_accelMagnitudeSamples := [1, 1, 1, 1, 102 / 100],
              g_accelBaselineMagnitude := 1 \<rparr>"

definition ag_lifted :: ag_state where
  "ag_lifted =
     ag_init\<lparr> g_isSystemArmed := True, g_baselineEstablished := True,
              g_accelMagnitudeSamples := [12 / 10, 12 / 10, 12 / 10, 12 / 10, 12 / 10],
              g_accelBaselineMagnitude := 1, g_potentialSlowMove := True,
              g_slowMoveStartTime := 1000 \<rparr>"

text \<open>A coaster in free fall: no acceleration on any axis.\<close>

definition freefall_event :: mpu_event where
  "freefall_event = \<lparr> ev_acceleration = \<lparr>vx = 0, vy = 0, vz = 0\<rparr>,
                       ev_gyro = \<lparr>vx = 0, vy = 0, vz = 0\<rparr> \<rparr>"

text \<open>The settings of MotionGuard Pro at power-up, and a request argument for the slide
  duration with the text of the number \<open>n\<close>.\<close>

definition mg_defaults :: mg_settings where
  "mg_defaults =
     \<lparr> mg_currentTiltThresholdDegrees = 5 / 10, mg_currentSustainedTiltDurationMs = 250,
       mg_currentSlideThresholdAccel = 5 / 10, mg_currentSustainedSlideDurationMs = 150 \<rparr>"

definition slide_duration_arg :: "nat \<Rightarrow> form_arg" where
  "slide_duration_arg n =
     \<lparr> arg_name = ''slide_duration_ms'', arg_toFloat = Num (real n), arg_strtoul = of_nat n \<rparr>"

text \<open>A pass of the \<^verbatim>\<open>loop()\<close> of motion\_detection3.ino in which every reading of
  \<^verbatim>\<open>millis()\<close> gives \<open>t\<close>.\<close>

definition md3_pass :: "millis \<Rightarrow> mpu_event \<Rightarrow> md3_obs" where
  "md3_pass t e =
     \<lparr> md3_ob_millis = t, md3_ob_event = e, md3_ob_detect_millis = t,
       md3_ob_log_millis_tilt = t, md3_ob_log_millis_slide = t \<rparr>"

text \<open>A pass of the v5 \<^verbatim>\<open>loop()\<close> in which every reading of \<^verbatim>\<open>millis()\<close> gives \<open>t\<close>.\<close>

definition pass_at :: "millis \<Rightarrow> mpu_event \<Rightarrow> loop_obs" where
  "pass_at t e = \<lparr> ob_millis = t, ob_event = e, ob_detect_millis = t \<rparr>"

text \<open>A coaster pitched by 45 degrees.\<close>

definition pitched_event :: mpu_event where
  "pitched_event = \<lparr> ev_acceleration = \<lparr>vx = - 1, vy = 0, vz = 1\<rparr>,
                      ev_gyro = \<lparr>vx = 0, vy = 0, vz = 0\<rparr> \<rparr>"

text \<open>The v5 detector one poll tick after the sustained tilt, the coaster flat again.\<close>

definition v5_tilt_dropped :: v5_state where
  "v5_tilt_dropped = snd (pollTick (1600, flat_event) v5_sustained_tilt)"

text \<open>The v5 detector armed flat at 1000 ms, after one poll tick at 1050 ms that read a
  roll of 45 degrees: the tilt candidate is timed and not yet sustained.\<close>

definition v5_tilt_pending :: v5_state where
  "v5_tilt_pending =
     snd (pollTick (1050, rolled_event) (handleArmSystem 1000 flat_event v5_init))"

text \<open>The tilt check of motion\_detection.ino after its first reading, of a coaster rolled
  by 45 degrees.\<close>

definition md1_tilted :: md1_state where
  "md1_tilted = md1_tiltTick (1000, rolled_event) md1_init"

section \<open>Verification: the v5 classifier, block by block\<close>

lemma processSensorData_frame [simp]:
  "systemArmed (processSensorData e s) = systemArmed s"
  "armStartTime_ms (processSensorData e s) = armStartTime_ms s"
  "baseRoll_deg (processSensorData e s) = baseRoll_deg s"
  "basePitch_deg (processSensorData e s) = basePitch_deg s"
  "baseAccelZ_ms2 (processSensorData e s) = baseAccelZ_ms2 s"
  "sustainedTiltStartTime_ms (processSensorData e s) = sustainedTiltStartTime_ms s"
  "sustainedSlideStartTime_ms (processSensorData e s) = sustainedSlideStartTime_ms s"
  "sustainedLiftStartTime_ms (processSensorData e s) = sustainedLiftStartTime_ms s"
  "isSustainedTilt (processSensorData e s) = isSustainedTilt s"
  "isSustainedSlide (processSensorData e s) = isSustainedSlide s"
  "isSustainedLift (processSensorData e s) = isSustainedLift s"
  by (simp_all add: processSensorData_def Let_def)

lemma tiltDetection_frame [simp]:
  "systemArmed (snd (tiltDetection t s)) = systemArmed s"
  "armStartTime_ms (snd (tiltDetection t s)) = armStartTime_ms s"
  "currentAcceleration (snd (tiltDetection t s)) = currentAcceleration s"
  "currentRoll_deg (snd (tiltDetection t s)) = currentRoll_deg s"
  "currentPitch_deg (snd (tiltDetection t s)) = currentPitch_deg s"
  "baseRoll_deg (snd (tiltDetection t s)) = baseRoll_deg s"
  "basePitch_deg (snd (tiltDetection t s)) = basePitch_deg s"
  "baseAccelZ_ms2 (snd (tiltDetection t s)) = baseAccelZ_ms2 s"
  "sustainedSlideStartTime_ms (snd (tiltDetection t s)) = sustainedSlideStartTime_ms s"
  "sustainedLiftStartTime_ms (snd (tiltDetection t s)) = sustainedLiftStartTime_ms s"
  "isSustainedSlide (snd (tiltDetection t s)) = isSustainedSlide s"
  "isSustainedLift (snd (tiltDetection t s)) = isSustainedLift s"
  by (simp_all add: tiltDetection_def Let_def)

lemma slideDetection_frame [simp]:
  "systemArmed (snd (slideDetection t s)) = systemArmed s"
  "armStartTime_ms (snd (slideDetection t s)) = armStartTime_ms s"
  "currentAcceleration (snd (slideDetection t s)) = currentAcceleration s"
  "currentRoll_deg (snd (slideDetection t s)) = currentRoll_deg s"
  "currentPitch_deg (snd (slideDetection t s)) = currentPitch_deg s"
  "baseRoll_deg (snd (slideDetection t s)) = baseRoll_deg s"
  "basePitch_deg (snd (slideDetection t s)) = basePitch_deg s"
  "baseAccelZ_ms2 (snd (slideDetection t s)) = baseAccelZ_ms2 s"
  "sustainedTiltStartTime_ms (snd (slideDetection t s)) = sustainedTiltStartTime_ms s"
  "sustainedLiftStartTime_ms (snd (slideDetection t s)) = sustainedLiftStartTime_ms s"
  "isSustainedTilt (snd (slideDetection t s)) = isSustainedTilt s"
  "isSustainedLift (snd (slideDetection t s)) = isSustainedLift s"
  by (simp_all add: slideDetection_def Let_def)

lemma liftDetection_frame [simp]:
  "systemArmed (snd (liftDetection t s)) = systemArmed s"
  "armStartTime_ms (snd (liftDetection t s)) = armStartTime_ms s"
  "currentAcceleration (snd (liftDetection t s)) = currentAcceleration s"
  "currentRoll_deg (snd (liftDetection t s)) = currentRoll_deg s"
  "currentPitch_deg (snd (liftDetection t s)) = currentPitch_deg s"
  "baseRoll_deg (snd (liftDetection t s)) = baseRoll_deg s"
  "basePitch_deg (snd (liftDetection t s)) = basePitch_deg s"
  "baseAccelZ_ms2 (snd (liftDetection t s)) = baseAccelZ_ms2 s"
  "sustainedTiltStartTime_ms (snd (liftDetection t s)) = sustainedTiltStartTime_ms s"
  "sustainedSlideStartTime_ms (snd (liftDetection t s)) = sustainedSlideStartTime_ms s"
  "isSustainedTilt (snd (liftDetection t s)) = isSustainedTilt s"
  "isSustainedSlide (snd (liftDetection t s)) = isSustainedSlide s"
  by (simp_all add: liftDetection_def Let_def)

text \<open>One block on its own candidate, as a function of the candidate alone.\<close>

lemma tiltDetection_own:
  "sustainedTiltStartTime_ms (snd (tiltDetection t s)) =
     (if over_threshold Tilt s
      then (if sustainedTiltStartTime_ms s = 0 then t else sustainedTiltStartTime_ms s)
      else 0)"
  "isSustainedTilt (snd (tiltDetection t s)) =
     (over_threshold Tilt s \<and>
      (isSustainedTilt s \<or>
       DEFAULT_SUSTAINED_TILT_DURATION_MS
         \<le> t - (if sustainedTiltStartTime_ms s = 0 then t else sustainedTiltStartTime_ms s)))"
  "fst (tiltDetection t s) =
     (if over_threshold Tilt s \<and> \<not> isSustainedTilt s \<and>
         DEFAULT_SUSTAINED_TILT_DURATION_MS
           \<le> t - (if sustainedTiltStartTime_ms s = 0 then t else sustainedTiltStartTime_ms s)
      then [Tilt] else [])"
  by (auto simp add: tiltDetection_def Let_def)

lemma slideDetection_own:
  "sustainedSlideStartTime_ms (snd (slideDetection t s)) =
     (if over_threshold Slide s
      then (if sustainedSlideStartTime_ms s = 0 then t else sustainedSlideStartTime_ms s)
      else 0)"
  "isSustainedSlide (snd (slideDetection t s)) =
     (over_threshold Slide s \<and>
      (isSustainedSlide s \<or>
       DEFAULT_SUSTAINED_SLIDE_DURATION_MS
         \<le> t - (if sustainedSlideStartTime_ms s = 0 then t else sustainedSlideStartTime_ms s)))"
  "fst (slideDetection t s) =
     (if over_threshold Slide s \<and> \<not> isSustainedSlide s \<and>
         DEFAULT_SUSTAINED_SLIDE_DURATION_MS
           \<le> t - (if sustainedSlideStartTime_ms s = 0 then t else sustainedSlideStartTime_ms s)
      then [Slide] else [])"
  by (auto simp add: slideDetection_def Let_def)

lemma liftDetection_own:
  "sustainedLiftStartTime_ms (snd (liftDetection t s)) =
     (if over_threshold Lift s
      then (if sustainedLiftStartTime_ms s = 0 then t else sustainedLiftStartTime_ms s)
      else 0)"
  "isSustainedLift (snd (liftDetection t s)) =
     (over_threshold Lift s \<and>
      (isSustainedLift s \<or>
       DEFAULT_SUSTAINED_LIFT_DURATION_MS
         \<le> t - (if sustainedLiftStartTime_ms s = 0 then t else sustainedLiftStartTime_ms s)))"
  "fst (liftDetection t s) =
     (if over_threshold Lift s \<and> \<not> isSustainedLift s \<and>
         DEFAULT_SUSTAINED_LIFT_DURATION_MS
           \<le> t - (if sustainedLiftStartTime_ms s = 0 then t else sustainedLiftStartTime_ms s)
      then [Lift] else [])"
  by (auto simp add: liftDetection_def Let_def)

lemma over_threshold_blocks [simp]:
  "over_threshold k (snd (tiltDetection t s)) = over_threshold k s"
  "over_threshold k (snd (slideDetection t s)) = over_threshold k s"
  "over_threshold k (snd (liftDetection t s)) = over_threshold k s"
  by (cases k; simp)+

text \<open>The whole classifier on one candidate.\<close>

lemma detect_candidate:
  assumes "systemArmed s"
  shows "candidate_start k (snd (detectSustainedMotionEvents t s)) =
           (if over_threshold k s
            then (if candidate_start k s = 0 then t else candidate_start k s) else 0)"
    and "candidate_sustained k (snd (detectSustainedMotionEvents t s)) =
           (over_threshold k s \<and>
            (candidate_sustained k s \<or>
             debounce_duration k \<le> t - (if candidate_start k s = 0 then t else candidate_start k s)))"
    and "k \<in> set (fst (detectSustainedMotionEvents t s)) =
           (over_threshold k s \<and> \<not> candidate_sustained k s \<and>
            debounce_duration k \<le> t - (if candidate_start k s = 0 then t else candidate_start k s))"
  using assms
  by (cases k; simp add: detectSustainedMotionEvents_def Let_def
        tiltDetection_own slideDetection_own liftDetection_own)+


lemma detect_frame [simp]:
  "systemArmed (snd (detectSustainedMotionEvents t s)) = systemArmed s"
  "armStartTime_ms (snd (detectSustainedMotionEvents t s)) = armStartTime_ms s"
  "baseRoll_deg (snd (detectSustainedMotionEvents t s)) = baseRoll_deg s"
  "basePitch_deg (snd (detectSustainedMotionEvents t s)) = basePitch_deg s"
  "baseAccelZ_ms2 (snd (detectSustainedMotionEvents t s)) = baseAccelZ_ms2 s"
  by (simp_all add: detectSustainedMotionEvents_def Let_def)

lemma pollTick_frame [simp]:
  "systemArmed (snd (pollTick te s)) = systemArmed s"
  "baseRoll_deg (snd (pollTick te s)) = baseRoll_deg s"
  "basePitch_deg (snd (pollTick te s)) = basePitch_deg s"
  "baseAccelZ_ms2 (snd (pollTick te s)) = baseAccelZ_ms2 s"
  by (simp_all add: pollTick_def)

lemma over_threshold_base:
  assumes "baseRoll_deg s' = baseRoll_deg s" "basePitch_deg s' = basePitch_deg s"
    "baseAccelZ_ms2 s' = baseAccelZ_ms2 s"
  shows "over_threshold k (processSensorData e s') = over_threshold k (processSensorData e s)"
  using assms by (cases k; simp add: processSensorData_def Let_def)

lemma over_threshold_pollTick [simp]:
  "over_threshold k (processSensorData e (snd (pollTick te s))) =
     over_threshold k (processSensorData e s)"
  by (rule over_threshold_base) simp_all

lemma candidate_processSensorData [simp]:
  "candidate_start k (processSensorData e s) = candidate_start k s"
  "candidate_sustained k (processSensorData e s) = candidate_sustained k s"
  by (cases k; simp)+

lemma pollTick_candidate:
  assumes "systemArmed s"
  shows "candidate_start k (snd (pollTick (t, e) s)) =
           (if over_threshold k (processSensorData e s)
            then (if candidate_start k s = 0 then t else candidate_start k s) else 0)"
    and "candidate_sustained k (snd (pollTick (t, e) s)) =
           (over_threshold k (processSensorData e s) \<and>
            (candidate_sustained k s \<or>
             debounce_duration k \<le> t - (if candidate_start k s = 0 then t else candidate_start k s)))"
    and "k \<in> set (fst (pollTick (t, e) s)) =
           (over_threshold k (processSensorData e s) \<and> \<not> candidate_sustained k s \<and>
            debounce_duration k \<le> t - (if candidate_start k s = 0 then t else candidate_start k s))"
  using assms by (simp_all add: pollTick_def detect_candidate)

lemma sustained_stays_silent:
  assumes "systemArmed s" "candidate_sustained k s"
    and "\<forall>te \<in> set ticks. over_threshold k (processSensorData (snd te) s)"
  shows "map (\<lambda>as. k \<in> set as) (pollTicks ticks s) = replicate (length ticks) False"
  using assms
proof (induction ticks arbitrary: s)
  case Nil
  then show ?case by simp
next
  case (Cons te ticks)
  obtain t e where te: "te = (t, e)" by (cases te)
  from Cons.prems have ov: "over_threshold k (processSensorData e s)"
    by (simp add: te)
  have quiet: "k \<notin> set (fst (pollTick te s))"
    using Cons.prems(1,2) by (simp add: te pollTick_candidate)
  have still: "candidate_sustained k (snd (pollTick te s))"
    using Cons.prems(1,2) ov by (simp add: te pollTick_candidate)
  have "map (\<lambda>as. k \<in> set as) (pollTicks ticks (snd (pollTick te s)))
          = replicate (length ticks) False"
    using Cons.prems(1,3) still by (intro Cons.IH) simp_all
  with quiet show ?case by simp
qed

lemma candidate_fires_at_first_reach:
  assumes "systemArmed s" "candidate_start k s = t0" "t0 \<noteq> 0" "\<not> candidate_sustained k s"
    and "\<forall>te \<in> set ticks. over_threshold k (processSensorData (snd te) s)"
  shows "map (\<lambda>as. k \<in> set as) (pollTicks ticks s)
           = fires_at_first_reach (debounce_duration k) t0 (map fst ticks)"
  using assms
proof (induction ticks arbitrary: s)
  case Nil
  then show ?case by simp
next
  case (Cons te ticks)
  obtain t e where te: "te = (t, e)" by (cases te)
  let ?s' = "snd (pollTick te s)"
  from Cons.prems have ov: "over_threshold k (processSensorData e s)"
    by (simp add: te)
  have start': "candidate_start k ?s' = t0"
    using Cons.prems(1-3) ov by (simp add: te pollTick_candidate)
  have rest: "\<forall>te \<in> set ticks. over_threshold k (processSensorData (snd te) ?s')"
    using Cons.prems(5) by simp
  show ?case
  proof (cases "debounce_duration k \<le> t - t0")
    case True
    have fire: "k \<in> set (fst (pollTick te s))"
      using Cons.prems(1-4) ov True by (simp add: te pollTick_candidate)
    have "candidate_sustained k ?s'"
      using Cons.prems(1-4) ov True by (simp add: te pollTick_candidate)
    then have "map (\<lambda>as. k \<in> set as) (pollTicks ticks ?s') = replicate (length ticks) False"
      using Cons.prems(1) rest by (intro sustained_stays_silent) simp_all
    with fire True show ?thesis by (simp add: te)
  next
    case False
    have quiet: "k \<notin> set (fst (pollTick te s))"
      using Cons.prems(1-4) ov False by (simp add: te pollTick_candidate)
    have "\<not> candidate_sustained k ?s'"
      using Cons.prems(1-4) ov False by (simp add: te pollTick_candidate)
    then have "map (\<lambda>as. k \<in> set as) (pollTicks ticks ?s')
                 = fires_at_first_reach (debounce_duration k) t0 (map fst ticks)"
      using Cons.prems(1,3) start' rest by (intro Cons.IH) simp_all
    with quiet False show ?thesis by (simp add: te)
  qed
qed

lemma debounce_duration_pos: "debounce_duration k \<noteq> 0"
  by (cases k) (simp_all add: DEFAULT_SUSTAINED_TILT_DURATION_MS_def
      DEFAULT_SUSTAINED_SLIDE_DURATION_MS_def DEFAULT_SUSTAINED_LIFT_DURATION_MS_def)

lemma count_fires_at_first_reach:
  "length (filter id (fires_at_first_reach d t0 ts)) = (if \<exists>t \<in> set ts. d \<le> t - t0 then 1 else 0)"
  by (induction ts) auto


section \<open>Verification: the arm timer of v5\<close>

lemma updateSystemIndicators_frame [simp]:
  "systemArmed (updateSystemIndicators t s) = systemArmed s"
  "armStartTime_ms (updateSystemIndicators t s) = armStartTime_ms s"
  by (simp_all add: updateSystemIndicators_def Let_def)

lemma loop_armStart: "armStartTime_ms (snd (loop ob s)) = armStartTime_ms s"
  by (simp add: loop_def Let_def)

lemma loop_armed:
  "systemArmed (snd (loop ob s)) =
     (systemArmed s \<and> ob_millis ob - armStartTime_ms s < ARMED_DURATION_MS)"
  by (auto simp add: loop_def Let_def)

lemma ARMED_DURATION_MS_value: "ARMED_DURATION_MS = 600000"
  by (simp add: ARMED_DURATION_MS_def)

lemma handleArmSystem_arm:
  "systemArmed (handleArmSystem now e s)"
  "armStartTime_ms (handleArmSystem now e s) = now"
  by (simp_all add: handleArmSystem_def Let_def)

text \<open>
  C5. \<^verbatim>\<open>ARMED_DURATION_MS\<close> is 600000. After any run of \<^verbatim>\<open>loop()\<close> passes in which no
  HTTP handler runs (so \<^verbatim>\<open>handleDisarmSystem\<close> is never called), the system is still armed
  exactly when it was armed at the start and no pass so far has read a time that is
  600000 ms or more past \<^verbatim>\<open>armStartTime_ms\<close>. So the system is disarmed by the first pass
  whose elapsed time reaches 600000 ms, by no earlier pass, and stays disarmed. Elapsed
  time is the unsigned 32-bit difference the sketch computes.
\<close>

theorem auto_disarm_at_600000:
  "systemArmed (loops obs s) =
     (systemArmed s \<and> (\<forall>ob \<in> set obs. ob_millis ob - armStartTime_ms s < 600000))"
proof (induction obs arbitrary: s)
  case Nil
  show ?case by simp
next
  case (Cons ob obs)
  show ?case
    by (auto simp add: Cons.IH loop_armed loop_armStart ARMED_DURATION_MS_value)
qed

text \<open>Armed at 5000 ms: still armed after the passes at 5050 and 604999 ms, disarmed by
  the pass at 605000 ms.\<close>

theorem auto_disarm_at_600000_witness:
  "systemArmed (loops [pass_at 5050 flat_event, pass_at 604999 flat_event]
                  (handleArmSystem 5000 flat_event v5_init))
   \<and> \<not> systemArmed (loops [pass_at 5050 flat_event, pass_at 604999 flat_event,
                            pass_at 605000 flat_event]
                  (handleArmSystem 5000 flat_event v5_init))"
  using auto_disarm_at_600000 [of "[pass_at 5050 flat_event, pass_at 604999 flat_event]"
          "handleArmSystem 5000 flat_event v5_init"]
        auto_disarm_at_600000 [of "[pass_at 5050 flat_event, pass_at 604999 flat_event,
            pass_at 605000 flat_event]" "handleArmSystem 5000 flat_event v5_init"]
  by (simp add: handleArmSystem_arm pass_at_def)

section \<open>Verification: evaluating the sketches on the concrete inputs\<close>

lemma atan2_deg_1_1: "atan2 1 1 * 180 / pi = 45"
  by (simp add: atan2_def arctan_one)

lemma atan2_deg_1_m1: "atan2 1 (- 1) * 180 / pi = 135"
  by (simp add: atan2_def arctan_one arctan_minus field_simps)

lemma atan2_deg_0_pos: "0 < x \<Longrightarrow> atan2 0 x * 180 / pi = 0"
  by (simp add: atan2_def)

lemma processSensorData_roll:
  "currentRoll_deg (processSensorData flat_event s) = 0"
  "currentPitch_deg (processSensorData flat_event s) = 0"
  "currentAcceleration (processSensorData flat_event s) = \<lparr>vx = 0, vy = 0, vz = 1\<rparr>"
  "currentRoll_deg (processSensorData rolled_event s) = 45"
  "currentPitch_deg (processSensorData rolled_event s) = 0"
  "currentAcceleration (processSensorData rolled_event s) = \<lparr>vx = 0, vy = 1, vz = 1\<rparr>"
  by (simp_all add: processSensorData_def flat_event_def rolled_event_def Let_def
      atan2_deg_1_1 atan2_deg_0_pos)

lemma handleArmSystem_fields:
  "baseRoll_deg (handleArmSystem now e s) = currentRoll_deg (processSensorData e s)"
  "basePitch_deg (handleArmSystem now e s) = currentPitch_deg (processSensorData e s)"
  "baseAccelZ_ms2 (handleArmSystem now e s) = vz (ev_acceleration e)"
  "isSustainedTilt (handleArmSystem now e s) = False"
  "isSustainedSlide (handleArmSystem now e s) = False"
  "isSustainedLift (handleArmSystem now e s) = False"
  "sustainedTiltStartTime_ms (handleArmSystem now e s) = sustainedTiltStartTime_ms s"
  "sustainedSlideStartTime_ms (handleArmSystem now e s) = sustainedSlideStartTime_ms s"
  "sustainedLiftStartTime_ms (handleArmSystem now e s) = sustainedLiftStartTime_ms s"
  "lastMotionTimestamp_ms (handleArmSystem now e s) = 0"
  "lastMotionType (handleArmSystem now e s) = ''None''"
  "currentYaw_deg (handleArmSystem now e s) = 0"
  by (simp_all add: handleArmSystem_def processSensorData_def Let_def)

lemma md3_processSensorData_events:
  "md3_processSensorData rolled_event s =
     s\<lparr> md3_currentAcceleration := \<lparr>vx = 0, vy = 1, vz = 1\<rparr>,
        md3_currentGyro := \<lparr>vx = 0, vy = 0, vz = 0\<rparr>,
        md3_currentRoll_deg := 45, md3_currentPitch_deg := 0 \<rparr>"
  "md3_processSensorData tipped_event s =
     s\<lparr> md3_currentAcceleration := \<lparr>vx = 0, vy = 1, vz = - 1\<rparr>,
        md3_currentGyro := \<lparr>vx = 0, vy = 0, vz = 0\<rparr>,
        md3_currentRoll_deg := 135, md3_currentPitch_deg := 0 \<rparr>"
  by (simp_all add: md3_processSensorData_def rolled_event_def tipped_event_def Let_def
      atan2_deg_1_1 atan2_deg_1_m1 atan2_deg_0_pos)

lemma md3_pass_sel [simp]:
  "md3_ob_millis (md3_pass t e) = t" "md3_ob_detect_millis (md3_pass t e) = t"
  "md3_ob_log_millis_tilt (md3_pass t e) = t" "md3_ob_log_millis_slide (md3_pass t e) = t"
  "md3_ob_event (md3_pass t e) = e"
  by (simp_all add: md3_pass_def)

lemmas md3_eval = md3_loop_def md3_detectSustainedMotionEvents_def md3_tiltDetection_def
  md3_slideDetection_def updateSystemIndicatorsAndLogging_def addEventToMotionLog_def
  md3_processSensorData_events Let_def TELEMETRY_READ_INTERVAL_MS_def
  md3_currentTiltThresholdDegrees_def md3_currentSustainedTiltDurationMs_def
  md3_currentSlideThresholdAccel_def md3_currentSustainedSlideDurationMs_def
  md3_WEB_MOTION_INDICATOR_DURATION_MS_def md3_LED_MOTION_INDICATOR_DURATION_MS_def
  md3_MAX_LOG_ENTRIES_def md3_MIN_LOG_INTERVAL_MS_def

lemma md4_processSensorData_events:
  "md4_processSensorData rolled_event s =
     s\<lparr> md4_currentAcceleration := \<lparr>vx = 0, vy = 1, vz = 1\<rparr>,
        md4_currentGyro := \<lparr>vx = 0, vy = 0, vz = 0\<rparr>,
        md4_currentRoll_deg := 45, md4_currentPitch_deg := 0 \<rparr>"
  "md4_processSensorData tipped_event s =
     s\<lparr> md4_currentAcceleration := \<lparr>vx = 0, vy = 1, vz = - 1\<rparr>,
        md4_currentGyro := \<lparr>vx = 0, vy = 0, vz = 0\<rparr>,
        md4_currentRoll_deg := 135, md4_currentPitch_deg := 0 \<rparr>"
  by (simp_all add: md4_processSensorData_def rolled_event_def tipped_event_def Let_def
      atan2_deg_1_1 atan2_deg_1_m1 atan2_deg_0_pos)

lemmas md4_eval = md4_tick_def md4_detectSustainedMotionEvents_def md4_tiltDetection_def
  md4_slideDetection_def md4_updateSystemIndicators_def md4_processSensorData_events Let_def
  md4_WEB_MOTION_INDICATOR_DURATION_MS_def md4_LED_MOTION_INDICATOR_DURATION_MS_def

lemmas pollTick_tilt = pollTick_candidate [where k = Tilt, simplified]

lemma v5_sustained_tilt_facts:
  "systemArmed v5_sustained_tilt"
  "isSustainedTilt v5_sustained_tilt"
  "sustainedTiltStartTime_ms v5_sustained_tilt = 1050"
  "baseRoll_deg v5_sustained_tilt = 0"
  "basePitch_deg v5_sustained_tilt = 0"
  by (simp_all add: v5_sustained_tilt_def pollTick_tilt handleArmSystem_arm
      handleArmSystem_fields processSensorData_roll v5_init_def
      DEFAULT_TILT_THRESHOLD_DEGREES_def DEFAULT_SUSTAINED_TILT_DURATION_MS_def)

section \<open>Verification: the falling edge\<close>

lemma md3_tiltDetection_below:
  assumes "\<not> md3_firstTiltCheck s" "\<not> md3_tilt_over s"
  shows "md3_sustainedTiltStartTime_ms (snd (md3_tiltDetection t lt s)) = 0"
    and "\<not> md3_isSustainedTilt (snd (md3_tiltDetection t lt s))"
  using assms by (simp_all add: md3_tiltDetection_def md3_tilt_over_def Let_def)

lemma md3_slideDetection_frame [simp]:
  "md3_sustainedTiltStartTime_ms (snd (md3_slideDetection t lt s)) = md3_sustainedTiltStartTime_ms s"
  "md3_isSustainedTilt (snd (md3_slideDetection t lt s)) = md3_isSustainedTilt s"
  by (simp_all add: md3_slideDetection_def addEventToMotionLog_def Let_def)

lemma md3_tiltDetection_frame [simp]:
  "md3_firstSlideCheck (snd (md3_tiltDetection t lt s)) = md3_firstSlideCheck s"
  "md3_slide_over (snd (md3_tiltDetection t lt s)) = md3_slide_over s"
  by (simp_all add: md3_tiltDetection_def md3_slide_over_def addEventToMotionLog_def Let_def)

lemma md3_slideDetection_below:
  assumes "\<not> md3_firstSlideCheck s" "\<not> md3_slide_over s"
  shows "md3_sustainedSlideStartTime_ms (snd (md3_slideDetection t lt s)) = 0"
    and "\<not> md3_isSustainedSlide (snd (md3_slideDetection t lt s))"
  using assms by (simp_all add: md3_slideDetection_def md3_slide_over_def Let_def)

lemma md3_detect_below:
  "\<not> md3_firstTiltCheck s \<Longrightarrow> \<not> md3_tilt_over s \<Longrightarrow>
     md3_sustainedTiltStartTime_ms (snd (md3_detectSustainedMotionEvents t lt ls s)) = 0
     \<and> \<not> md3_isSustainedTilt (snd (md3_detectSustainedMotionEvents t lt ls s))"
  "\<not> md3_firstSlideCheck s \<Longrightarrow> \<not> md3_slide_over s \<Longrightarrow>
     md3_sustainedSlideStartTime_ms (snd (md3_detectSustainedMotionEvents t lt ls s)) = 0
     \<and> \<not> md3_isSustainedSlide (snd (md3_detectSustainedMotionEvents t lt ls s))"
  by (simp_all add: md3_detectSustainedMotionEvents_def Let_def md3_tiltDetection_below
      md3_slideDetection_below)

lemma md4_tiltDetection_below:
  assumes "\<not> md4_firstTiltCheck s" "\<not> md4_tilt_over s"
  shows "md4_sustainedTiltStartTime_ms (snd (md4_tiltDetection t s)) = 0"
    and "md4_isSustainedTilt (snd (md4_tiltDetection t s)) = md4_isSustainedTilt s"
  using assms by (simp_all add: md4_tiltDetection_def md4_tilt_over_def Let_def)

lemma md4_slideDetection_frame [simp]:
  "md4_sustainedTiltStartTime_ms (snd (md4_slideDetection t s)) = md4_sustainedTiltStartTime_ms s"
  "md4_isSustainedTilt (snd (md4_slideDetection t s)) = md4_isSustainedTilt s"
  by (simp_all add: md4_slideDetection_def Let_def)

lemma md4_tiltDetection_frame [simp]:
  "md4_firstSlideCheck (snd (md4_tiltDetection t s)) = md4_firstSlideCheck s"
  "md4_slide_over (snd (md4_tiltDetection t s)) = md4_slide_over s"
  "md4_isSustainedSlide (snd (md4_tiltDetection t s)) = md4_isSustainedSlide s"
  by (simp_all add: md4_tiltDetection_def md4_slide_over_def Let_def)

lemma md4_slideDetection_below:
  assumes "\<not> md4_firstSlideCheck s" "\<not> md4_slide_over s"
  shows "md4_sustainedSlideStartTime_ms (snd (md4_slideDetection t s)) = 0"
    and "md4_isSustainedSlide (snd (md4_slideDetection t s)) = md4_isSustainedSlide s"
  using assms by (simp_all add: md4_slideDetection_def md4_slide_over_def Let_def)

lemma md4_detect_below:
  "\<not> md4_firstTiltCheck s \<Longrightarrow> \<not> md4_tilt_over s \<Longrightarrow>
     md4_sustainedTiltStartTime_ms (snd (md4_detectSustainedMotionEvents t s)) = 0
     \<and> md4_isSustainedTilt (snd (md4_detectSustainedMotionEvents t s)) = md4_isSustainedTilt s"
  "\<not> md4_firstSlideCheck s \<Longrightarrow> \<not> md4_slide_over s \<Longrightarrow>
     md4_sustainedSlideStartTime_ms (snd (md4_detectSustainedMotionEvents t s)) = 0
     \<and> md4_isSustainedSlide (snd (md4_detectSustainedMotionEvents t s)) = md4_isSustainedSlide s"
  by (simp_all add: md4_detectSustainedMotionEvents_def Let_def md4_tiltDetection_below
      md4_slideDetection_below)

lemma updateSystemIndicators_window:
  "\<not> isSustainedTilt s \<Longrightarrow> \<not> isSustainedSlide s \<Longrightarrow> \<not> isSustainedLift s \<Longrightarrow>
   webShowsMotionActive (updateSystemIndicators t s) =
     (t - lastMotionTimestamp_ms s < 3000 \<and> lastMotionTimestamp_ms s \<noteq> 0)"
  by (simp add: updateSystemIndicators_def Let_def WEB_MOTION_INDICATOR_DURATION_MS_def)

lemma md4_updateSystemIndicators_flags:
  "md4_isSustainedTilt (md4_updateSystemIndicators t s) =
     (md4_isSustainedTilt s
      \<and> t - md4_lastMotionTimestamp_ms s < 2000 \<and> md4_lastMotionTimestamp_ms s \<noteq> 0)"
  "md4_isSustainedSlide (md4_updateSystemIndicators t s) =
     (md4_isSustainedSlide s
      \<and> t - md4_lastMotionTimestamp_ms s < 2000 \<and> md4_lastMotionTimestamp_ms s \<noteq> 0)"
  by (auto simp add: md4_updateSystemIndicators_def Let_def
      md4_WEB_MOTION_INDICATOR_DURATION_MS_def)

lemma md4_lastMotion_frame:
  "md4_lastMotionTimestamp_ms (snd (md4_tiltDetection t s)) = md4_lastMotionTimestamp_ms s"
  "md4_lastMotionTimestamp_ms (snd (md4_slideDetection t s)) = md4_lastMotionTimestamp_ms s"
  by (simp_all add: md4_tiltDetection_def md4_slideDetection_def Let_def)

lemma md4_detect_lastMotion:
  "md4_lastMotionTimestamp_ms (snd (md4_detectSustainedMotionEvents t s)) =
     (if fst (md4_detectSustainedMotionEvents t s) = [] then md4_lastMotionTimestamp_ms s else t)"
  by (simp add: md4_detectSustainedMotionEvents_def Let_def md4_lastMotion_frame)

lemma lastMotionTimestamp_frame [simp]:
  "lastMotionTimestamp_ms (processSensorData e s) = lastMotionTimestamp_ms s"
  "lastMotionTimestamp_ms (snd (tiltDetection t s)) = lastMotionTimestamp_ms s"
  "lastMotionTimestamp_ms (snd (slideDetection t s)) = lastMotionTimestamp_ms s"
  "lastMotionTimestamp_ms (snd (liftDetection t s)) = lastMotionTimestamp_ms s"
  by (simp_all add: processSensorData_def tiltDetection_def slideDetection_def
      liftDetection_def Let_def)

lemma pollTick_lastMotion:
  assumes "systemArmed s"
  shows "lastMotionTimestamp_ms (snd (pollTick (t, e) s)) =
           (if fst (pollTick (t, e) s) \<noteq> [] then t else lastMotionTimestamp_ms s)"
  using assms
  by (simp add: pollTick_def detectSustainedMotionEvents_def Let_def)

lemma no_alert_iff: "(alerts = []) = (\<forall>k::motion. k \<notin> set alerts)"
  by (cases alerts) auto

lemma v5_sustained_tilt_more:
  "baseAccelZ_ms2 v5_sustained_tilt = 1"
  "lastMotionTimestamp_ms v5_sustained_tilt = 1550"
proof -
  show "baseAccelZ_ms2 v5_sustained_tilt = 1"
    by (simp add: v5_sustained_tilt_def handleArmSystem_fields flat_event_def)
  have "Tilt \<in> set (fst (pollTick (1550, rolled_event)
      (snd (pollTick (1050, rolled_event) (handleArmSystem 1000 flat_event v5_init)))))"
    by (simp add: pollTick_tilt handleArmSystem_arm
      handleArmSystem_fields processSensorData_roll v5_init_def
      DEFAULT_TILT_THRESHOLD_DEGREES_def DEFAULT_SUSTAINED_TILT_DURATION_MS_def)
  then have "fst (pollTick (1550, rolled_event)
      (snd (pollTick (1050, rolled_event) (handleArmSystem 1000 flat_event v5_init)))) \<noteq> []"
    by auto
  then show "lastMotionTimestamp_ms v5_sustained_tilt = 1550"
    by (simp add: v5_sustained_tilt_def pollTick_lastMotion handleArmSystem_arm)
qed

lemma v5_flat_below:
  "\<not> over_threshold k (processSensorData flat_event v5_sustained_tilt)"
  by (cases k)
    (simp_all add: v5_sustained_tilt_facts v5_sustained_tilt_more processSensorData_roll
      DEFAULT_TILT_THRESHOLD_DEGREES_def DEFAULT_SLIDE_MAGNITUDE_THRESHOLD_ACCEL_def
      DEFAULT_LIFT_ACCEL_THRESHOLD_G_def GRAVITY_MS2_def)

lemma v5_flat_quiet: "fst (pollTick (1600, flat_event) v5_sustained_tilt) = []"
proof -
  have "k \<notin> set (fst (pollTick (1600, flat_event) v5_sustained_tilt))" for k
    by (simp add: pollTick_candidate v5_sustained_tilt_facts v5_flat_below)
  then show ?thesis by (simp add: no_alert_iff)
qed

lemma v5_tilt_fired:
  "systemArmed (snd (pollTick (1050, rolled_event) (handleArmSystem 1000 flat_event v5_init)))"
  "fst (pollTick (1550, rolled_event)
         (snd (pollTick (1050, rolled_event) (handleArmSystem 1000 flat_event v5_init)))) \<noteq> []"
proof -
  show "systemArmed
      (snd (pollTick (1050, rolled_event) (handleArmSystem 1000 flat_event v5_init)))"
    by (simp add: handleArmSystem_arm)
  have "Tilt \<in> set (fst (pollTick (1550, rolled_event)
      (snd (pollTick (1050, rolled_event) (handleArmSystem 1000 flat_event v5_init)))))"
    by (simp add: pollTick_tilt handleArmSystem_arm
      handleArmSystem_fields processSensorData_roll v5_init_def
      DEFAULT_TILT_THRESHOLD_DEGREES_def DEFAULT_SUSTAINED_TILT_DURATION_MS_def)
  then show "fst (pollTick (1550, rolled_event)
      (snd (pollTick (1050, rolled_event) (handleArmSystem 1000 flat_event v5_init)))) \<noteq> []"
    by auto
qed

lemma md4_tilt_again_facts:
  "fst (md4_detectSustainedMotionEvents 1350 md4_sustained_tilt) = []"
  "fst (md4_detectSustainedMotionEvents 1400
         (md4_processSensorData tipped_event
            (md4_sustained_tilt\<lparr>md4_isSustainedTilt := False\<rparr>))) = [Tilt]"
  "md4_lastMotionTimestamp_ms md4_sustained_tilt = 1300"
  by (simp_all add: md4_detectSustainedMotionEvents_def md4_tiltDetection_def
      md4_slideDetection_def md4_processSensorData_events Let_def md4_sustained_tilt_def
      md4_init_def)

lemma v5_tilt_dropped_facts:
  "\<not> isSustainedTilt v5_tilt_dropped" "\<not> isSustainedSlide v5_tilt_dropped"
  "\<not> isSustainedLift v5_tilt_dropped" "lastMotionTimestamp_ms v5_tilt_dropped = 1550"
proof -
  have flags: "\<not> candidate_sustained k v5_tilt_dropped" for k
    by (simp add: v5_tilt_dropped_def pollTick_candidate v5_sustained_tilt_facts v5_flat_below)
  show "\<not> isSustainedTilt v5_tilt_dropped" using flags [of Tilt] by simp
  show "\<not> isSustainedSlide v5_tilt_dropped" using flags [of Slide] by simp
  show "\<not> isSustainedLift v5_tilt_dropped" using flags [of Lift] by simp
  have "k \<notin> set (fst (pollTick (1600, flat_event) v5_sustained_tilt))" for k
    by (simp add: pollTick_candidate v5_sustained_tilt_facts v5_flat_below)
  then have "fst (pollTick (1600, flat_event) v5_sustained_tilt) = []"
    by (simp add: no_alert_iff)
  then show "lastMotionTimestamp_ms v5_tilt_dropped = 1550"
    by (simp add: v5_tilt_dropped_def pollTick_lastMotion v5_sustained_tilt_facts
        v5_sustained_tilt_more)
qed

text \<open>
  C4, as the code has it. At a poll tick whose deviation is at or below the threshold:
  the v5 sketch clears the candidate's start time and its sustained flag (every motion
  type), and with no flag set the alert stays visible exactly while the tick is less than
  3000 ms past the last alert; motion\_detection3.ino clears start time and flag (tilt and
  slide, after the first check); Motion\_Detection4.ino clears the start time and leaves
  the sustained flag as it was. There \<^verbatim>\<open>updateSystemIndicators\<close> keeps a sustained flag
  while the pass is less than 2000 ms past the last detection and clears it in the first
  pass that is not. In v5 and in Motion\_Detection4.ino a tick that detects a motion sets
  the time of the last detection to its own time, and a tick that detects none leaves it.
\<close>

theorem falling_edge:
  "(systemArmed s \<and> \<not> over_threshold k (processSensorData e s) \<longrightarrow>
      candidate_start k (snd (pollTick (t, e) s)) = 0
      \<and> \<not> candidate_sustained k (snd (pollTick (t, e) s)))
   \<and> (\<not> isSustainedTilt s \<and> \<not> isSustainedSlide s \<and> \<not> isSustainedLift s \<longrightarrow>
      webShowsMotionActive (updateSystemIndicators t s) =
        (t - lastMotionTimestamp_ms s < 3000 \<and> lastMotionTimestamp_ms s \<noteq> 0))
   \<and> (\<not> md3_firstTiltCheck s3 \<and> \<not> md3_tilt_over s3 \<longrightarrow>
      md3_sustainedTiltStartTime_ms (snd (md3_detectSustainedMotionEvents t3 lt ls s3)) = 0
      \<and> \<not> md3_isSustainedTilt (snd (md3_detectSustainedMotionEvents t3 lt ls s3)))
   \<and> (\<not> md3_firstSlideCheck s3 \<and> \<not> md3_slide_over s3 \<longrightarrow>
      md3_sustainedSlideStartTime_ms (snd (md3_detectSustainedMotionEvents t3 lt ls s3)) = 0
      \<and> \<not> md3_isSustainedSlide (snd (md3_detectSustainedMotionEvents t3 lt ls s3)))
   \<and> (\<not> md4_firstTiltCheck s4 \<and> \<not> md4_tilt_over s4 \<longrightarrow>
      md4_sustainedTiltStartTime_ms (snd (md4_detectSustainedMotionEvents t4 s4)) = 0
      \<and> md4_isSustainedTilt (snd (md4_detectSustainedMotionEvents t4 s4)) = md4_isSustainedTilt s4)
   \<and> (\<not> md4_firstSlideCheck s4 \<and> \<not> md4_slide_over s4 \<longrightarrow>
      md4_sustainedSlideStartTime_ms (snd (md4_detectSustainedMotionEvents t4 s4)) = 0
      \<and> md4_isSustainedSlide (snd (md4_detectSustainedMotionEvents t4 s4)) = md4_isSustainedSlide s4)
   \<and> md4_isSustainedTilt (md4_updateSystemIndicators t5 s5) =
       (md4_isSustainedTilt s5
        \<and> t5 - md4_lastMotionTimestamp_ms s5 < 2000 \<and> md4_lastMotionTimestamp_ms s5 \<noteq> 0)
   \<and> md4_isSustainedSlide (md4_updateSystemIndicators t5 s5) =
       (md4_isSustainedSlide s5
        \<and> t5 - md4_lastMotionTimestamp_ms s5 < 2000 \<and> md4_lastMotionTimestamp_ms s5 \<noteq> 0)
   \<and> (systemArmed s \<longrightarrow>
      lastMotionTimestamp_ms (snd (pollTick (t, e) s)) =
        (if fst (pollTick (t, e) s) = [] then lastMotionTimestamp_ms s else t))
   \<and> md4_lastMotionTimestamp_ms (snd (md4_detectSustainedMotionEvents t4 s4)) =
       (if fst (md4_detectSustainedMotionEvents t4 s4) = [] then md4_lastMotionTimestamp_ms s4
        else t4)"
  by (simp add: pollTick_candidate updateSystemIndicators_window md3_detect_below md4_detect_below
      md4_updateSystemIndicators_flags pollTick_lastMotion md4_detect_lastMotion)

text \<open>In v5 a tilt sustained since 1550 ms is dropped by the flat tick at 1600 ms; the
  alert is still shown at 1650 ms and no longer at 4550 ms. In Motion\_Detection4.ino the
  flags set at 1300 ms pass the tick at 1350 ms, are kept by \<^verbatim>\<open>updateSystemIndicators\<close>
  at 3250 ms and cleared at 3300 ms. The time of the last detection is the time of the
  tick that detected (1550 ms in v5, and 1400 ms for a tilt detected then in
  Motion\_Detection4.ino); a tick that detects nothing leaves it.\<close>

theorem falling_edge_witness:
  "candidate_sustained Tilt v5_sustained_tilt
   \<and> candidate_start Tilt (snd (pollTick (1600, flat_event) v5_sustained_tilt)) = 0
   \<and> \<not> candidate_sustained Tilt (snd (pollTick (1600, flat_event) v5_sustained_tilt))
   \<and> webShowsMotionActive (updateSystemIndicators 1650 v5_tilt_dropped)
   \<and> \<not> webShowsMotionActive (updateSystemIndicators 4550 v5_tilt_dropped)
   \<and> md3_sustainedTiltStartTime_ms
        (snd (md3_detectSustainedMotionEvents 1200 1200 1200 md3_sustained_tilt)) = 0
   \<and> \<not> md3_isSustainedTilt
        (snd (md3_detectSustainedMotionEvents 1200 1200 1200 md3_sustained_tilt))
   \<and> md3_sustainedSlideStartTime_ms
        (snd (md3_detectSustainedMotionEvents 1200 1200 1200 md3_sustained_tilt)) = 0
   \<and> \<not> md3_isSustainedSlide
        (snd (md3_detectSustainedMotionEvents 1200 1200 1200 md3_sustained_tilt))
   \<and> md4_sustainedTiltStartTime_ms
        (snd (md4_detectSustainedMotionEvents 1350 md4_sustained_tilt)) = 0
   \<and> md4_isSustainedTilt (snd (md4_detectSustainedMotionEvents 1350 md4_sustained_tilt))
   \<and> md4_sustainedSlideStartTime_ms
        (snd (md4_detectSustainedMotionEvents 1350 md4_sustained_tilt)) = 0
   \<and> md4_isSustainedSlide (snd (md4_detectSustainedMotionEvents 1350 md4_sustained_tilt))
   \<and> md4_isSustainedTilt (md4_updateSystemIndicators 3250 md4_sustained_tilt)
   \<and> \<not> md4_isSustainedTilt (md4_updateSystemIndicators 3300 md4_sustained_tilt)
   \<and> md4_isSustainedSlide (md4_updateSystemIndicators 3250 md4_sustained_tilt)
   \<and> \<not> md4_isSustainedSlide (md4_updateSystemIndicators 3300 md4_sustained_tilt)
   \<and> lastMotionTimestamp_ms
        (snd (pollTick (1550, rolled_event)
                (snd (pollTick (1050, rolled_event)
                        (handleArmSystem 1000 flat_event v5_init))))) = 1550
   \<and> lastMotionTimestamp_ms (snd (pollTick (1600, flat_event) v5_sustained_tilt)) = 1550
   \<and> md4_lastMotionTimestamp_ms
        (snd (md4_detectSustainedMotionEvents 1350 md4_sustained_tilt)) = 1300
   \<and> md4_lastMotionTimestamp_ms
        (snd (md4_detectSustainedMotionEvents 1400
                (md4_processSensorData tipped_event
                   (md4_sustained_tilt\<lparr>md4_isSustainedTilt := False\<rparr>)))) = 1400"
proof -
  note inst = falling_edge [where s = v5_sustained_tilt and k = Tilt and e = flat_event
      and t = 1600 and ?s3.0 = md3_sustained_tilt and ?t3.0 = 1200 and lt = 1200
      and ls = 1200 and ?s4.0 = md4_sustained_tilt and ?t4.0 = 1350
      and ?s5.0 = md4_sustained_tilt and ?t5.0 = 3250]
  note late = falling_edge [where s = v5_tilt_dropped and t = 4550
      and ?s5.0 = md4_sustained_tilt and ?t5.0 = 3300]
  note early = falling_edge [where s = v5_tilt_dropped and t = 1650]
  have below: "\<not> over_threshold Tilt (processSensorData flat_event v5_sustained_tilt)"
    by (rule v5_flat_below)
  have v5: "candidate_start Tilt (snd (pollTick (1600, flat_event) v5_sustained_tilt)) = 0
      \<and> \<not> candidate_sustained Tilt (snd (pollTick (1600, flat_event) v5_sustained_tilt))"
    using inst below v5_sustained_tilt_facts(1) by blast
  have shown: "webShowsMotionActive (updateSystemIndicators 1650 v5_tilt_dropped)"
    using early by (simp add: v5_tilt_dropped_facts)
  have gone: "\<not> webShowsMotionActive (updateSystemIndicators 4550 v5_tilt_dropped)"
    using late by (simp add: v5_tilt_dropped_facts)
  have md3: "\<not> md3_firstTiltCheck md3_sustained_tilt" "\<not> md3_tilt_over md3_sustained_tilt"
    "\<not> md3_firstSlideCheck md3_sustained_tilt" "\<not> md3_slide_over md3_sustained_tilt"
    by (simp_all add: md3_sustained_tilt_def md3_init_def md3_tilt_over_def md3_slide_over_def
        md3_currentTiltThresholdDegrees_def md3_currentSlideThresholdAccel_def)
  have md4: "\<not> md4_firstTiltCheck md4_sustained_tilt" "\<not> md4_tilt_over md4_sustained_tilt"
    "\<not> md4_firstSlideCheck md4_sustained_tilt" "\<not> md4_slide_over md4_sustained_tilt"
    "md4_isSustainedTilt md4_sustained_tilt" "md4_isSustainedSlide md4_sustained_tilt"
    "md4_lastMotionTimestamp_ms md4_sustained_tilt = 1300"
    by (simp_all add: md4_sustained_tilt_def md4_init_def md4_tilt_over_def md4_slide_over_def)
  have kept: "md4_isSustainedTilt (md4_updateSystemIndicators 3250 md4_sustained_tilt)"
    "md4_isSustainedSlide (md4_updateSystemIndicators 3250 md4_sustained_tilt)"
    using inst by (simp_all add: md4)
  have cleared: "\<not> md4_isSustainedTilt (md4_updateSystemIndicators 3300 md4_sustained_tilt)"
    "\<not> md4_isSustainedSlide (md4_updateSystemIndicators 3300 md4_sustained_tilt)"
    using late by (simp_all add: md4)
  have stamped: "lastMotionTimestamp_ms
        (snd (pollTick (1550, rolled_event)
                (snd (pollTick (1050, rolled_event)
                        (handleArmSystem 1000 flat_event v5_init))))) = 1550"
    using falling_edge [where t = 1550 and e = rolled_event
        and s = "snd (pollTick (1050, rolled_event) (handleArmSystem 1000 flat_event v5_init))"]
      v5_tilt_fired
    by simp
  have unstamped: "lastMotionTimestamp_ms (snd (pollTick (1600, flat_event) v5_sustained_tilt))
      = 1550"
    using inst by (simp add: v5_flat_quiet v5_sustained_tilt_facts v5_sustained_tilt_more)
  have md4_unstamped: "md4_lastMotionTimestamp_ms
        (snd (md4_detectSustainedMotionEvents 1350 md4_sustained_tilt)) = 1300"
    using inst by (simp add: md4_tilt_again_facts)
  have md4_stamped: "md4_lastMotionTimestamp_ms
        (snd (md4_detectSustainedMotionEvents 1400
                (md4_processSensorData tipped_event
                   (md4_sustained_tilt\<lparr>md4_isSustainedTilt := False\<rparr>)))) = 1400"
    using falling_edge [where ?t4.0 = 1400
        and ?s4.0 = "md4_processSensorData tipped_event
                       (md4_sustained_tilt\<lparr>md4_isSustainedTilt := False\<rparr>)"]
    by (simp add: md4_tilt_again_facts)
  show ?thesis
    using inst v5 shown gone md3 md4 kept cleared v5_sustained_tilt_facts(2)
      stamped unstamped md4_unstamped md4_stamped
    by simp
qed

text \<open>
  Counterexample to C4 as stated, in Motion\_Detection4.ino. From power-up, poll ticks at
  1000, 1050, 1300 and 1350 ms read a roll of 45, 135, 45 and 45 degrees. The tilt is
  detected at 1300 ms. At 1350 ms the deviation is 0, below the threshold of 1.5 degrees:
  the start time is cleared, and \<^verbatim>\<open>isSustainedTilt\<close> is still set after the tick.
\<close>

theorem md4_flag_outlives_drop:
  "md4_isSustainedTilt
     (foldl md4_tick md4_init
        [(1000, rolled_event), (1050, tipped_event), (1300, rolled_event), (1350, rolled_event)])
   \<and> md4_sustainedTiltStartTime_ms
     (foldl md4_tick md4_init
        [(1000, rolled_event), (1050, tipped_event), (1300, rolled_event), (1350, rolled_event)])
     = 0"
  by (simp add: md4_eval md4_init_def)

section \<open>Verification: the debounce of the motion classifier\<close>

lemma md1_tiltTick_candidate:
  assumes "\<not> firstTiltReading s" "md1_tilt_over (readTelemetryDataAndAngles e s)"
  shows "continuousTiltChangeStartTime (md1_tiltTick (t, e) s) =
           (if continuousTiltChangeStartTime s = 0 then t else continuousTiltChangeStartTime s)"
    and "deviceIsTiltingSustained (md1_tiltTick (t, e) s) =
           (deviceIsTiltingSustained s
            \<or> SUSTAINED_TILT_DURATION
                \<le> t - (if continuousTiltChangeStartTime s = 0 then t
                        else continuousTiltChangeStartTime s))"
    and "\<not> firstTiltReading (md1_tiltTick (t, e) s)"
  using assms
  by (auto simp add: md1_tiltTick_def checkSustainedTilt_def md1_tilt_over_def
      readTelemetryDataAndAngles_def Let_def)

lemma md1_sustained_stays:
  assumes "\<not> firstTiltReading s" "deviceIsTiltingSustained s" "md1_tilt_over_run ticks s"
  shows "md1_tilt_rises ticks s = replicate (length ticks) False"
  using assms
proof (induction ticks arbitrary: s)
  case Nil
  then show ?case by simp
next
  case (Cons te ticks)
  obtain t e where te: "te = (t, e)" by (cases te)
  from Cons.prems have ov: "md1_tilt_over (readTelemetryDataAndAngles e s)"
    and rest: "md1_tilt_over_run ticks (md1_tiltTick te s)"
    by (simp_all add: te)
  have still: "deviceIsTiltingSustained (md1_tiltTick te s)"
    and nf: "\<not> firstTiltReading (md1_tiltTick te s)"
    using Cons.prems(1,2) ov by (simp_all add: te md1_tiltTick_candidate)
  have "md1_tilt_rises ticks (md1_tiltTick te s) = replicate (length ticks) False"
    using nf still rest by (rule Cons.IH)
  with Cons.prems(2) show ?case by simp
qed

lemma md1_fires_at_first_reach:
  assumes "\<not> firstTiltReading s" "continuousTiltChangeStartTime s = t0" "t0 \<noteq> 0"
    and "\<not> deviceIsTiltingSustained s" "md1_tilt_over_run ticks s"
  shows "md1_tilt_rises ticks s
           = fires_at_first_reach SUSTAINED_TILT_DURATION t0 (map fst ticks)"
  using assms
proof (induction ticks arbitrary: s)
  case Nil
  then show ?case by simp
next
  case (Cons te ticks)
  obtain t e where te: "te = (t, e)" by (cases te)
  let ?s' = "md1_tiltTick te s"
  from Cons.prems have ov: "md1_tilt_over (readTelemetryDataAndAngles e s)"
    and rest: "md1_tilt_over_run ticks ?s'"
    by (simp_all add: te)
  have start': "continuousTiltChangeStartTime ?s' = t0"
    and nf: "\<not> firstTiltReading ?s'"
    using Cons.prems(1-3) ov by (simp_all add: te md1_tiltTick_candidate)
  have flag': "deviceIsTiltingSustained ?s' = (SUSTAINED_TILT_DURATION \<le> t - t0)"
    using Cons.prems(1-4) ov by (simp add: te md1_tiltTick_candidate)
  show ?case
  proof (cases "SUSTAINED_TILT_DURATION \<le> t - t0")
    case True
    then have "deviceIsTiltingSustained ?s'" by (simp add: flag')
    then have "md1_tilt_rises ticks ?s' = replicate (length ticks) False"
      using nf rest by (intro md1_sustained_stays)
    with True Cons.prems(4) flag' show ?thesis by (simp add: te)
  next
    case False
    then have "\<not> deviceIsTiltingSustained ?s'" by (simp add: flag')
    then have "md1_tilt_rises ticks ?s'
        = fires_at_first_reach SUSTAINED_TILT_DURATION t0 (map fst ticks)"
      using nf start' Cons.prems(3) rest by (intro Cons.IH)
    with False flag' show ?thesis by (simp add: te)
  qed
qed

lemma md1_fires_once:
  assumes "\<not> firstTiltReading s" "continuousTiltChangeStartTime s = 0"
    and "\<not> deviceIsTiltingSustained s" "t0 \<noteq> 0"
    and "md1_tilt_over_run ((t0, e0) # ticks) s"
  shows "md1_tilt_rises ((t0, e0) # ticks) s
           = fires_at_first_reach SUSTAINED_TILT_DURATION t0 (t0 # map fst ticks)"
proof -
  let ?s' = "md1_tiltTick (t0, e0) s"
  from assms(5) have ov: "md1_tilt_over (readTelemetryDataAndAngles e0 s)"
    and rest: "md1_tilt_over_run ticks ?s'"
    by simp_all
  have dur: "SUSTAINED_TILT_DURATION \<noteq> 0" by (simp add: SUSTAINED_TILT_DURATION_def)
  have start': "continuousTiltChangeStartTime ?s' = t0"
    and nf: "\<not> firstTiltReading ?s'"
    and flag': "\<not> deviceIsTiltingSustained ?s'"
    using assms(1-3) ov dur by (simp_all add: md1_tiltTick_candidate)
  have "md1_tilt_rises ticks ?s'
      = fires_at_first_reach SUSTAINED_TILT_DURATION t0 (map fst ticks)"
    using nf start' assms(4) flag' rest by (rule md1_fires_at_first_reach)
  with flag' dur show ?thesis by simp
qed

text \<open>motion\_detection3.ino, one poll tick over the threshold.\<close>

lemma addEventToMotionLog_frame:
  "md3_isSustainedTilt (addEventToMotionLog ct ts ty r p s) = md3_isSustainedTilt s"
  "md3_isSustainedSlide (addEventToMotionLog ct ts ty r p s) = md3_isSustainedSlide s"
  "md3_sustainedTiltStartTime_ms (addEventToMotionLog ct ts ty r p s)
     = md3_sustainedTiltStartTime_ms s"
  "md3_sustainedSlideStartTime_ms (addEventToMotionLog ct ts ty r p s)
     = md3_sustainedSlideStartTime_ms s"
  by (simp_all add: addEventToMotionLog_def Let_def)

lemma md3_tiltDetection_over:
  assumes "\<not> md3_firstTiltCheck s" "md3_tilt_over s"
  shows "fst (md3_tiltDetection t lt s) =
           (if md3_sustainedTiltStartTime_ms s \<noteq> 0
               \<and> md3_currentSustainedTiltDurationMs \<le> t - md3_sustainedTiltStartTime_ms s
               \<and> \<not> md3_isSustainedTilt s
            then [Tilt] else [])"
    and "md3_isSustainedTilt (snd (md3_tiltDetection t lt s)) =
           (md3_isSustainedTilt s
            \<or> md3_sustainedTiltStartTime_ms s \<noteq> 0
              \<and> md3_currentSustainedTiltDurationMs \<le> t - md3_sustainedTiltStartTime_ms s)"
    and "md3_sustainedTiltStartTime_ms (snd (md3_tiltDetection t lt s)) =
           (if md3_sustainedTiltStartTime_ms s = 0 then t else md3_sustainedTiltStartTime_ms s)"
  using assms
  by (auto simp add: md3_tiltDetection_def md3_tilt_over_def Let_def addEventToMotionLog_frame)

lemma md3_slideDetection_over:
  assumes "\<not> md3_firstSlideCheck s" "md3_slide_over s"
  shows "fst (md3_slideDetection t lt s) =
           (if md3_sustainedSlideStartTime_ms s \<noteq> 0
               \<and> md3_currentSustainedSlideDurationMs \<le> t - md3_sustainedSlideStartTime_ms s
               \<and> \<not> md3_isSustainedSlide s
            then [Slide] else [])"
    and "md3_isSustainedSlide (snd (md3_slideDetection t lt s)) =
           (md3_isSustainedSlide s
            \<or> md3_sustainedSlideStartTime_ms s \<noteq> 0
              \<and> md3_currentSustainedSlideDurationMs \<le> t - md3_sustainedSlideStartTime_ms s)"
    and "md3_sustainedSlideStartTime_ms (snd (md3_slideDetection t lt s)) =
           (if md3_sustainedSlideStartTime_ms s = 0 then t else md3_sustainedSlideStartTime_ms s)"
  using assms
  by (auto simp add: md3_slideDetection_def md3_slide_over_def Let_def
      addEventToMotionLog_frame)

lemma md3_other_alerts:
  "Tilt \<notin> set (fst (md3_slideDetection t lt s))"
  "Slide \<notin> set (fst (md3_tiltDetection t lt s))"
  "Lift \<notin> set (fst (md3_slideDetection t lt s))"
  "Lift \<notin> set (fst (md3_tiltDetection t lt s))"
  by (simp_all add: md3_slideDetection_def md3_tiltDetection_def Let_def)

lemma md3_other_lift: "Lift \<notin> set (fst (md3_detectSustainedMotionEvents t lt ls s))"
  by (simp add: md3_detectSustainedMotionEvents_def Let_def md3_other_alerts)

lemma md3_tiltDetection_slide_frame:
  "md3_isSustainedSlide (snd (md3_tiltDetection t lt s)) = md3_isSustainedSlide s"
  "md3_sustainedSlideStartTime_ms (snd (md3_tiltDetection t lt s))
     = md3_sustainedSlideStartTime_ms s"
  by (simp_all add: md3_tiltDetection_def Let_def addEventToMotionLog_frame)

lemma md3_lastMotion_frame:
  "md3_lastMotionTimestamp_ms (addEventToMotionLog ct ts ty r p s) = md3_lastMotionTimestamp_ms s"
  "md3_lastMotionTimestamp_ms (snd (md3_tiltDetection t lt s)) = md3_lastMotionTimestamp_ms s"
  "md3_lastMotionTimestamp_ms (snd (md3_slideDetection t lt s)) = md3_lastMotionTimestamp_ms s"
  by (simp_all add: addEventToMotionLog_def md3_tiltDetection_def md3_slideDetection_def Let_def)

lemma md3_detect_lastMotion:
  "md3_lastMotionTimestamp_ms (snd (md3_detectSustainedMotionEvents t lt ls s)) =
     (if fst (md3_detectSustainedMotionEvents t lt ls s) = [] then md3_lastMotionTimestamp_ms s
      else t)"
  by (simp add: md3_detectSustainedMotionEvents_def Let_def md3_lastMotion_frame)

lemma md3_tilt_tick:
  assumes "\<not> md3_firstTiltCheck s" "md3_tilt_over s"
  shows "(Tilt \<in> set (fst (md3_detectSustainedMotionEvents t lt ls s))) =
           (md3_sustainedTiltStartTime_ms s \<noteq> 0
            \<and> md3_currentSustainedTiltDurationMs \<le> t - md3_sustainedTiltStartTime_ms s
            \<and> \<not> md3_isSustainedTilt s)"
    and "md3_isSustainedTilt (snd (md3_detectSustainedMotionEvents t lt ls s)) =
           (md3_isSustainedTilt s
            \<or> md3_sustainedTiltStartTime_ms s \<noteq> 0
              \<and> md3_currentSustainedTiltDurationMs \<le> t - md3_sustainedTiltStartTime_ms s)"
    and "md3_sustainedTiltStartTime_ms (snd (md3_detectSustainedMotionEvents t lt ls s)) =
           (if md3_sustainedTiltStartTime_ms s = 0 then t else md3_sustainedTiltStartTime_ms s)"
  using assms
  by (simp_all add: md3_detectSustainedMotionEvents_def Let_def md3_tiltDetection_over
      md3_other_alerts)

lemma md3_slide_tick:
  assumes "\<not> md3_firstSlideCheck s" "md3_slide_over s"
  shows "(Slide \<in> set (fst (md3_detectSustainedMotionEvents t lt ls s))) =
           (md3_sustainedSlideStartTime_ms s \<noteq> 0
            \<and> md3_currentSustainedSlideDurationMs \<le> t - md3_sustainedSlideStartTime_ms s
            \<and> \<not> md3_isSustainedSlide s)"
    and "md3_isSustainedSlide (snd (md3_detectSustainedMotionEvents t lt ls s)) =
           (md3_isSustainedSlide s
            \<or> md3_sustainedSlideStartTime_ms s \<noteq> 0
              \<and> md3_currentSustainedSlideDurationMs \<le> t - md3_sustainedSlideStartTime_ms s)"
    and "md3_sustainedSlideStartTime_ms (snd (md3_detectSustainedMotionEvents t lt ls s)) =
           (if md3_sustainedSlideStartTime_ms s = 0 then t else md3_sustainedSlideStartTime_ms s)"
  using assms
  by (simp_all add: md3_detectSustainedMotionEvents_def Let_def md3_slideDetection_over
      md3_other_alerts md3_tiltDetection_slide_frame)

lemma updateSystemIndicatorsAndLogging_flags:
  "md3_isSustainedTilt (updateSystemIndicatorsAndLogging t s) =
     (md3_isSustainedTilt s
      \<and> t - md3_lastMotionTimestamp_ms s < 1500 \<and> md3_lastMotionTimestamp_ms s \<noteq> 0)"
  "md3_isSustainedSlide (updateSystemIndicatorsAndLogging t s) =
     (md3_isSustainedSlide s
      \<and> t - md3_lastMotionTimestamp_ms s < 1500 \<and> md3_lastMotionTimestamp_ms s \<noteq> 0)"
  by (auto simp add: updateSystemIndicatorsAndLogging_def Let_def
      md3_WEB_MOTION_INDICATOR_DURATION_MS_def)

lemma updateSystemIndicatorsAndLogging_frame:
  "md3_sustainedTiltStartTime_ms (updateSystemIndicatorsAndLogging t s)
     = md3_sustainedTiltStartTime_ms s"
  "md3_sustainedSlideStartTime_ms (updateSystemIndicatorsAndLogging t s)
     = md3_sustainedSlideStartTime_ms s"
  "md3_firstTiltCheck (updateSystemIndicatorsAndLogging t s) = md3_firstTiltCheck s"
  "md3_firstSlideCheck (updateSystemIndicatorsAndLogging t s) = md3_firstSlideCheck s"
  by (simp_all add: updateSystemIndicatorsAndLogging_def Let_def)

lemma md3_processSensorData_frame:
  "md3_sustainedTiltStartTime_ms (md3_processSensorData e s) = md3_sustainedTiltStartTime_ms s"
  "md3_sustainedSlideStartTime_ms (md3_processSensorData e s) = md3_sustainedSlideStartTime_ms s"
  "md3_firstTiltCheck (md3_processSensorData e s) = md3_firstTiltCheck s"
  "md3_firstSlideCheck (md3_processSensorData e s) = md3_firstSlideCheck s"
  "md3_isSustainedTilt (md3_processSensorData e s) = md3_isSustainedTilt s"
  "md3_isSustainedSlide (md3_processSensorData e s) = md3_isSustainedSlide s"
  by (simp_all add: md3_processSensorData_def Let_def)

lemma md3_processSensorData_lastMotion:
  "md3_lastMotionTimestamp_ms (md3_processSensorData e s) = md3_lastMotionTimestamp_ms s"
  by (simp add: md3_processSensorData_def Let_def)

lemma md3_detects_again:
  assumes "\<not> (t1 - md3_lastMotionTimestamp_ms s < 1500 \<and> md3_lastMotionTimestamp_ms s \<noteq> 0)"
  shows "\<not> md3_firstTiltCheck s \<Longrightarrow> md3_sustainedTiltStartTime_ms s \<noteq> 0 \<Longrightarrow>
      md3_tilt_over (md3_processSensorData e (updateSystemIndicatorsAndLogging t1 s)) \<Longrightarrow>
      md3_currentSustainedTiltDurationMs \<le> t2 - md3_sustainedTiltStartTime_ms s \<Longrightarrow>
      Tilt \<in> set (fst (md3_detectSustainedMotionEvents t2 lt ls
                          (md3_processSensorData e (updateSystemIndicatorsAndLogging t1 s))))"
    and "\<not> md3_firstSlideCheck s \<Longrightarrow> md3_sustainedSlideStartTime_ms s \<noteq> 0 \<Longrightarrow>
      md3_slide_over (md3_processSensorData e (updateSystemIndicatorsAndLogging t1 s)) \<Longrightarrow>
      md3_currentSustainedSlideDurationMs \<le> t2 - md3_sustainedSlideStartTime_ms s \<Longrightarrow>
      Slide \<in> set (fst (md3_detectSustainedMotionEvents t2 lt ls
                           (md3_processSensorData e (updateSystemIndicatorsAndLogging t1 s))))"
  using assms
  by (simp_all add: md3_tilt_tick md3_slide_tick updateSystemIndicatorsAndLogging_flags
      updateSystemIndicatorsAndLogging_frame md3_processSensorData_frame)

lemma sqrt_2_far: "\<not> sqrt 2 * 137438953472 < (13743895::real)"
proof -
  have "(1::real) \<le> sqrt 2" by simp
  then show ?thesis by linarith
qed

lemma readTelemetry_events:
  "readTelemetryDataAndAngles rolled_event s =
     s\<lparr> current_a := \<lparr>vx = 0, vy = 1, vz = 1\<rparr>, current_g := \<lparr>vx = 0, vy = 0, vz = 0\<rparr>,
        current_roll := 45, current_pitch := 0 \<rparr>"
  "readTelemetryDataAndAngles tipped_event s =
     s\<lparr> current_a := \<lparr>vx = 0, vy = 1, vz = - 1\<rparr>, current_g := \<lparr>vx = 0, vy = 0, vz = 0\<rparr>,
        current_roll := 135, current_pitch := 0 \<rparr>"
  by (simp_all add: readTelemetryDataAndAngles_def rolled_event_def tipped_event_def Let_def
      near_zero_eps_def atan2_deg_1_1 atan2_deg_1_m1 atan2_deg_0_pos sqrt_2_far)

lemma md1_tilted_facts:
  "\<not> firstTiltReading md1_tilted" "continuousTiltChangeStartTime md1_tilted = 0"
  "\<not> deviceIsTiltingSustained md1_tilted"
  by (simp_all add: md1_tilted_def md1_tiltTick_def checkSustainedTilt_def readTelemetry_events
      md1_init_def)

lemmas md1_tilt_eval = md1_tiltTick_def checkSustainedTilt_def readTelemetry_events
  md1_tilt_over_def md1_tilted_def md1_init_def Let_def
  TILT_CHANGE_DEGREE_THRESHOLD_def SUSTAINED_TILT_DURATION_def

lemma md1_tilted_run:
  "md1_tilt_over_run [(1050, tipped_event), (1100, rolled_event), (1200, tipped_event),
                      (1300, rolled_event), (1350, tipped_event)] md1_tilted"
  by (simp add: md1_tilt_eval)

lemma v5_fires_once:
  assumes "systemArmed s"
    and "candidate_start k s = 0" "\<not> candidate_sustained k s"
    and "t0 \<noteq> 0"
    and "\<forall>te \<in> set ((t0, e0) # ticks). over_threshold k (processSensorData (snd te) s)"
  shows "map (\<lambda>as. k \<in> set as) (pollTicks ((t0, e0) # ticks) s)
           = fires_at_first_reach (debounce_duration k) t0 (t0 # map fst ticks)
         \<and> length (filter (\<lambda>as. k \<in> set as) (pollTicks ((t0, e0) # ticks) s))
           = (if \<exists>t \<in> set (t0 # map fst ticks). debounce_duration k \<le> t - t0
              then 1 else 0)"
proof -
  let ?s' = "snd (pollTick (t0, e0) s)"
  from assms(5) have ov: "over_threshold k (processSensorData e0 s)" by simp
  have quiet: "k \<notin> set (fst (pollTick (t0, e0) s))"
    using assms(1-3) by (simp add: pollTick_candidate debounce_duration_pos)
  have start': "candidate_start k ?s' = t0"
    using assms(1,2) ov by (simp add: pollTick_candidate)
  have flag': "\<not> candidate_sustained k ?s'"
    using assms(1-3) by (simp add: pollTick_candidate debounce_duration_pos)
  have rest: "\<forall>te \<in> set ticks. over_threshold k (processSensorData (snd te) ?s')"
    using assms(5) by simp
  have "map (\<lambda>as. k \<in> set as) (pollTicks ticks ?s')
          = fires_at_first_reach (debounce_duration k) t0 (map fst ticks)"
    using assms(1,4) start' flag' rest by (intro candidate_fires_at_first_reach) simp_all
  with quiet have pattern:
    "map (\<lambda>as. k \<in> set as) (pollTicks ((t0, e0) # ticks) s)
       = fires_at_first_reach (debounce_duration k) t0 (t0 # map fst ticks)"
    by (simp add: debounce_duration_pos)
  have "length (filter (\<lambda>as. k \<in> set as) (pollTicks ((t0, e0) # ticks) s))
          = length (filter id (map (\<lambda>as. k \<in> set as) (pollTicks ((t0, e0) # ticks) s)))"
    by (simp add: filter_map comp_def)
  also have "\<dots> = (if \<exists>t \<in> set (t0 # map fst ticks). debounce_duration k \<le> t - t0
                    then 1 else 0)"
    unfolding pattern by (rule count_fires_at_first_reach)
  finally show ?thesis using pattern by simp
qed


lemma md1_rises_once:
  assumes "\<not> firstTiltReading s" "continuousTiltChangeStartTime s = 0"
    and "\<not> deviceIsTiltingSustained s" "t0 \<noteq> 0"
    and "md1_tilt_over_run ((t0, e0) # ticks) s"
  shows "md1_tilt_rises ((t0, e0) # ticks) s
           = fires_at_first_reach SUSTAINED_TILT_DURATION t0 (t0 # map fst ticks)
         \<and> length (filter id (md1_tilt_rises ((t0, e0) # ticks) s))
           = (if \<exists>t \<in> set (t0 # map fst ticks). SUSTAINED_TILT_DURATION \<le> t - t0
              then 1 else 0)"
proof -
  have pattern: "md1_tilt_rises ((t0, e0) # ticks) s
      = fires_at_first_reach SUSTAINED_TILT_DURATION t0 (t0 # map fst ticks)"
    using assms by (rule md1_fires_once)
  have "length (filter id (md1_tilt_rises ((t0, e0) # ticks) s))
      = (if \<exists>t \<in> set (t0 # map fst ticks). SUSTAINED_TILT_DURATION \<le> t - t0 then 1 else 0)"
    unfolding pattern by (rule count_fires_at_first_reach)
  with pattern show ?thesis by simp
qed

lemma md3_sustained_tilt_facts:
  "\<not> md3_firstTiltCheck md3_sustained_tilt" "\<not> md3_firstSlideCheck md3_sustained_tilt"
  "md3_isSustainedTilt md3_sustained_tilt" "md3_isSustainedSlide md3_sustained_tilt"
  "md3_sustainedTiltStartTime_ms md3_sustained_tilt = 1050"
  "md3_sustainedSlideStartTime_ms md3_sustained_tilt = 1050"
  "md3_lastMotionTimestamp_ms md3_sustained_tilt = 1150"
  by (simp_all add: md3_sustained_tilt_def md3_init_def)

lemma md3_rolled_over:
  "md3_tilt_over (md3_processSensorData rolled_event md3_sustained_tilt)"
  "md3_slide_over (md3_processSensorData rolled_event md3_sustained_tilt)"
  "md3_tilt_over (md3_processSensorData rolled_event
                    (updateSystemIndicatorsAndLogging t md3_sustained_tilt))"
  "md3_slide_over (md3_processSensorData rolled_event
                     (updateSystemIndicatorsAndLogging t md3_sustained_tilt))"
  by (simp_all add: md3_tilt_over_def md3_slide_over_def md3_processSensorData_events
      updateSystemIndicatorsAndLogging_def Let_def md3_sustained_tilt_def md3_init_def
      md3_currentTiltThresholdDegrees_def md3_currentSlideThresholdAccel_def)

text \<open>
  C1, as the code has it. In the v5 sketch, for each of its motion types (tilt, slide,
  lift): let the system be armed and the candidate idle (start time 0, flag clear), and
  let every poll tick of a run read a deviation above the type's threshold. If the first
  tick reads a time other than 0 from \<^verbatim>\<open>millis()\<close>, the alert of that type is printed at
  exactly one tick of the run, the first whose time is the type's duration or more past
  the first tick, and at no tick when no tick reaches the duration. A poll tick is what
  \<^verbatim>\<open>loop()\<close> does on a telemetry tick while armed: \<^verbatim>\<open>processSensorData\<close>, then
  \<^verbatim>\<open>detectSustainedMotionEvents\<close>. Time 0 is left out: the sketch uses a start time of 0
  for "no candidate".

  The same holds of \<^verbatim>\<open>checkSustainedTilt\<close> in motion\_detection.ino after its first
  reading: on such a run \<^verbatim>\<open>deviceIsTiltingSustained\<close> rises at exactly one tick, the first
  whose time is \<^verbatim>\<open>SUSTAINED_TILT_DURATION\<close> or more past the first tick.

  In motion\_detection3.ino, after the first check, a poll tick over the threshold
  detects the tilt (the slide) exactly when the candidate is timed, its time has reached
  the duration and the sustained flag is clear; it sets the flag then, leaves a set flag
  set, and starts the timer when it is 0. \<^verbatim>\<open>updateSystemIndicatorsAndLogging\<close> keeps the
  two flags while the pass is less than 1500 ms past the last detection, clears them in
  every other pass, and leaves the timers as they are: so the first poll tick over the
  threshold after such a pass, at the duration or more past the timer, detects again. The
  time of the last detection is the time of the tick that detected.
\<close>

theorem sustained_fires_once:
  "(systemArmed s \<and> candidate_start k s = 0 \<and> \<not> candidate_sustained k s \<and> t0 \<noteq> 0
      \<and> (\<forall>te \<in> set ((t0, e0) # ticks). over_threshold k (processSensorData (snd te) s)) \<longrightarrow>
      map (\<lambda>as. k \<in> set as) (pollTicks ((t0, e0) # ticks) s)
        = fires_at_first_reach (debounce_duration k) t0 (t0 # map fst ticks)
      \<and> length (filter (\<lambda>as. k \<in> set as) (pollTicks ((t0, e0) # ticks) s))
        = (if \<exists>t \<in> set (t0 # map fst ticks). debounce_duration k \<le> t - t0 then 1 else 0))
   \<and> (\<not> firstTiltReading m \<and> continuousTiltChangeStartTime m = 0
      \<and> \<not> deviceIsTiltingSustained m \<and> u0 \<noteq> 0 \<and> md1_tilt_over_run ((u0, f0) # mticks) m \<longrightarrow>
      md1_tilt_rises ((u0, f0) # mticks) m
        = fires_at_first_reach SUSTAINED_TILT_DURATION u0 (u0 # map fst mticks)
      \<and> length (filter id (md1_tilt_rises ((u0, f0) # mticks) m))
        = (if \<exists>t \<in> set (u0 # map fst mticks). SUSTAINED_TILT_DURATION \<le> t - u0
           then 1 else 0))
   \<and> (\<not> md3_firstTiltCheck d \<and> md3_tilt_over d \<longrightarrow>
      (Tilt \<in> set (fst (md3_detectSustainedMotionEvents t lt ls d))) =
        (md3_sustainedTiltStartTime_ms d \<noteq> 0
         \<and> md3_currentSustainedTiltDurationMs \<le> t - md3_sustainedTiltStartTime_ms d
         \<and> \<not> md3_isSustainedTilt d)
      \<and> md3_isSustainedTilt (snd (md3_detectSustainedMotionEvents t lt ls d)) =
        (md3_isSustainedTilt d
         \<or> md3_sustainedTiltStartTime_ms d \<noteq> 0
           \<and> md3_currentSustainedTiltDurationMs \<le> t - md3_sustainedTiltStartTime_ms d)
      \<and> md3_sustainedTiltStartTime_ms (snd (md3_detectSustainedMotionEvents t lt ls d)) =
        (if md3_sustainedTiltStartTime_ms d = 0 then t else md3_sustainedTiltStartTime_ms d))
   \<and> (\<not> md3_firstSlideCheck d \<and> md3_slide_over d \<longrightarrow>
      (Slide \<in> set (fst (md3_detectSustainedMotionEvents t lt ls d))) =
        (md3_sustainedSlideStartTime_ms d \<noteq> 0
         \<and> md3_currentSustainedSlideDurationMs \<le> t - md3_sustainedSlideStartTime_ms d
         \<and> \<not> md3_isSustainedSlide d)
      \<and> md3_isSustainedSlide (snd (md3_detectSustainedMotionEvents t lt ls d)) =
        (md3_isSustainedSlide d
         \<or> md3_sustainedSlideStartTime_ms d \<noteq> 0
           \<and> md3_currentSustainedSlideDurationMs \<le> t - md3_sustainedSlideStartTime_ms d)
      \<and> md3_sustainedSlideStartTime_ms (snd (md3_detectSustainedMotionEvents t lt ls d)) =
        (if md3_sustainedSlideStartTime_ms d = 0 then t else md3_sustainedSlideStartTime_ms d))
   \<and> md3_isSustainedTilt (updateSystemIndicatorsAndLogging t1 d) =
       (md3_isSustainedTilt d
        \<and> t1 - md3_lastMotionTimestamp_ms d < 1500 \<and> md3_lastMotionTimestamp_ms d \<noteq> 0)
   \<and> md3_isSustainedSlide (updateSystemIndicatorsAndLogging t1 d) =
       (md3_isSustainedSlide d
        \<and> t1 - md3_lastMotionTimestamp_ms d < 1500 \<and> md3_lastMotionTimestamp_ms d \<noteq> 0)
   \<and> md3_sustainedTiltStartTime_ms (updateSystemIndicatorsAndLogging t1 d)
       = md3_sustainedTiltStartTime_ms d
   \<and> md3_sustainedSlideStartTime_ms (updateSystemIndicatorsAndLogging t1 d)
       = md3_sustainedSlideStartTime_ms d
   \<and> md3_lastMotionTimestamp_ms (snd (md3_detectSustainedMotionEvents t lt ls d)) =
       (if fst (md3_detectSustainedMotionEvents t lt ls d) = [] then md3_lastMotionTimestamp_ms d
        else t)
   \<and> (\<not> (t1 - md3_lastMotionTimestamp_ms d < 1500 \<and> md3_lastMotionTimestamp_ms d \<noteq> 0)
      \<and> \<not> md3_firstTiltCheck d \<and> md3_sustainedTiltStartTime_ms d \<noteq> 0
      \<and> md3_tilt_over (md3_processSensorData e (updateSystemIndicatorsAndLogging t1 d))
      \<and> md3_currentSustainedTiltDurationMs \<le> t2 - md3_sustainedTiltStartTime_ms d \<longrightarrow>
      Tilt \<in> set (fst (md3_detectSustainedMotionEvents t2 lt ls
                          (md3_processSensorData e (updateSystemIndicatorsAndLogging t1 d)))))
   \<and> (\<not> (t1 - md3_lastMotionTimestamp_ms d < 1500 \<and> md3_lastMotionTimestamp_ms d \<noteq> 0)
      \<and> \<not> md3_firstSlideCheck d \<and> md3_sustainedSlideStartTime_ms d \<noteq> 0
      \<and> md3_slide_over (md3_processSensorData e (updateSystemIndicatorsAndLogging t1 d))
      \<and> md3_currentSustainedSlideDurationMs \<le> t2 - md3_sustainedSlideStartTime_ms d \<longrightarrow>
      Slide \<in> set (fst (md3_detectSustainedMotionEvents t2 lt ls
                           (md3_processSensorData e (updateSystemIndicatorsAndLogging t1 d)))))"
  apply (intro conjI)
  subgoal using v5_fires_once [of s k t0 e0 ticks] by blast
  subgoal using md1_rises_once [of m u0 f0 mticks] by blast
  subgoal by (simp add: md3_tilt_tick)
  subgoal by (simp add: md3_slide_tick)
  subgoal by (rule updateSystemIndicatorsAndLogging_flags)
  subgoal by (rule updateSystemIndicatorsAndLogging_flags)
  subgoal by (rule updateSystemIndicatorsAndLogging_frame)
  subgoal by (rule updateSystemIndicatorsAndLogging_frame)
  subgoal by (rule md3_detect_lastMotion)
  subgoal using md3_detects_again(1) [where ?t1.0 = t1 and s = d] by blast
  subgoal using md3_detects_again(2) [where ?t1.0 = t1 and s = d] by blast
  done

text \<open>In v5, armed flat at 1000 ms, then rolled by 45 degrees: of the poll ticks at 1050,
  1300, 1550 and 1600 ms, the third (500 ms after the first) prints the tilt alert, and
  only it. In motion\_detection.ino, with the roll changing by 90 degrees from tick to
  tick, of the ticks at 1050, 1100, 1200, 1300 and 1350 ms the fourth (250 ms after the
  first) raises the flag, and only it. In motion\_detection3.ino, with tilt and slide
  sustained since a detection at 1150 ms, a tick over the threshold at 1200 ms detects
  nothing and leaves the time of the last detection; the flags are kept in a pass at
  2600 ms and cleared in a pass at 2650 ms, and the tick at 2700 ms detects both again and
  sets that time to 2700 ms.\<close>

theorem sustained_fires_once_witness:
  "map (\<lambda>as. Tilt \<in> set as)
     (pollTicks [(1050, rolled_event), (1300, rolled_event), (1550, rolled_event),
                 (1600, rolled_event)]
        (handleArmSystem 1000 flat_event v5_init))
   = [False, False, True, False]
   \<and> length (filter (\<lambda>as. Tilt \<in> set as)
     (pollTicks [(1050, rolled_event), (1300, rolled_event), (1550, rolled_event),
                 (1600, rolled_event)]
        (handleArmSystem 1000 flat_event v5_init))) = 1
   \<and> md1_tilt_rises [(1050, tipped_event), (1100, rolled_event), (1200, tipped_event),
                      (1300, rolled_event), (1350, tipped_event)] md1_tilted
      = [False, False, False, True, False]
   \<and> length (filter id
        (md1_tilt_rises [(1050, tipped_event), (1100, rolled_event), (1200, tipped_event),
                         (1300, rolled_event), (1350, tipped_event)] md1_tilted)) = 1
   \<and> Tilt \<notin> set (fst (md3_detectSustainedMotionEvents 1200 1200 1200
                           (md3_processSensorData rolled_event md3_sustained_tilt)))
   \<and> Slide \<notin> set (fst (md3_detectSustainedMotionEvents 1200 1200 1200
                            (md3_processSensorData rolled_event md3_sustained_tilt)))
   \<and> md3_isSustainedTilt (updateSystemIndicatorsAndLogging 2600 md3_sustained_tilt)
   \<and> \<not> md3_isSustainedTilt (updateSystemIndicatorsAndLogging 2650 md3_sustained_tilt)
   \<and> \<not> md3_isSustainedSlide (updateSystemIndicatorsAndLogging 2650 md3_sustained_tilt)
   \<and> md3_sustainedTiltStartTime_ms (updateSystemIndicatorsAndLogging 2650 md3_sustained_tilt)
       = 1050
   \<and> Tilt \<in> set (fst (md3_detectSustainedMotionEvents 2700 2700 2700
                           (md3_processSensorData rolled_event
                              (updateSystemIndicatorsAndLogging 2650 md3_sustained_tilt))))
   \<and> Slide \<in> set (fst (md3_detectSustainedMotionEvents 2700 2700 2700
                            (md3_processSensorData rolled_event
                               (updateSystemIndicatorsAndLogging 2650 md3_sustained_tilt))))
   \<and> md3_lastMotionTimestamp_ms
        (snd (md3_detectSustainedMotionEvents 1200 1200 1200
                (md3_processSensorData rolled_event md3_sustained_tilt))) = 1150
   \<and> md3_lastMotionTimestamp_ms
        (snd (md3_detectSustainedMotionEvents 2700 2700 2700
                (md3_processSensorData rolled_event
                   (updateSystemIndicatorsAndLogging 2650 md3_sustained_tilt)))) = 2700"
proof -
  note run = sustained_fires_once [where s = "handleArmSystem 1000 flat_event v5_init"
      and k = Tilt and ?t0.0 = 1050 and ?e0.0 = rolled_event
      and ticks = "[(1300, rolled_event), (1550, rolled_event), (1600, rolled_event)]"
      and m = md1_tilted and ?u0.0 = 1050 and ?f0.0 = tipped_event
      and mticks = "[(1100, rolled_event), (1200, tipped_event), (1300, rolled_event),
                     (1350, tipped_event)]"
      and d = "md3_processSensorData rolled_event md3_sustained_tilt"
      and t = 1200 and lt = 1200 and ls = 1200 and ?t1.0 = 2600 and ?t2.0 = 2700
      and e = rolled_event]
  note again = sustained_fires_once [where d = md3_sustained_tilt and ?t1.0 = 2650
      and ?t2.0 = 2700 and e = rolled_event and lt = 2700 and ls = 2700]
  note before = sustained_fires_once [where d = md3_sustained_tilt and ?t1.0 = 2600]
  have v5: "map (\<lambda>as. Tilt \<in> set as)
     (pollTicks [(1050, rolled_event), (1300, rolled_event), (1550, rolled_event),
                 (1600, rolled_event)]
        (handleArmSystem 1000 flat_event v5_init))
     = [False, False, True, False]
   \<and> length (filter (\<lambda>as. Tilt \<in> set as)
     (pollTicks [(1050, rolled_event), (1300, rolled_event), (1550, rolled_event),
                 (1600, rolled_event)]
        (handleArmSystem 1000 flat_event v5_init))) = 1"
    using run
    by (simp add: handleArmSystem_arm handleArmSystem_fields processSensorData_roll v5_init_def
        DEFAULT_TILT_THRESHOLD_DEGREES_def DEFAULT_SUSTAINED_TILT_DURATION_MS_def
        del: md1_tilt_rises.simps md1_tilt_over_run.simps)
  have md1: "md1_tilt_rises [(1050, tipped_event), (1100, rolled_event), (1200, tipped_event),
                      (1300, rolled_event), (1350, tipped_event)] md1_tilted
      = [False, False, False, True, False]
   \<and> length (filter id
        (md1_tilt_rises [(1050, tipped_event), (1100, rolled_event), (1200, tipped_event),
                         (1300, rolled_event), (1350, tipped_event)] md1_tilted)) = 1"
    using run md1_tilted_run md1_tilted_facts
    by (simp add: SUSTAINED_TILT_DURATION_def
        del: md1_tilt_rises.simps md1_tilt_over_run.simps pollTicks.simps)
  have quiet: "Tilt \<notin> set (fst (md3_detectSustainedMotionEvents 1200 1200 1200
                           (md3_processSensorData rolled_event md3_sustained_tilt)))"
    "Slide \<notin> set (fst (md3_detectSustainedMotionEvents 1200 1200 1200
                            (md3_processSensorData rolled_event md3_sustained_tilt)))"
    using run md3_rolled_over(1,2)
    by (simp_all add: md3_sustained_tilt_facts md3_processSensorData_frame
        del: md1_tilt_rises.simps md1_tilt_over_run.simps pollTicks.simps)
  have kept: "md3_isSustainedTilt (updateSystemIndicatorsAndLogging 2600 md3_sustained_tilt)"
    using before by (simp add: md3_sustained_tilt_facts)
  have cleared: "\<not> md3_isSustainedTilt (updateSystemIndicatorsAndLogging 2650 md3_sustained_tilt)"
    "\<not> md3_isSustainedSlide (updateSystemIndicatorsAndLogging 2650 md3_sustained_tilt)"
    "md3_sustainedTiltStartTime_ms (updateSystemIndicatorsAndLogging 2650 md3_sustained_tilt)
       = 1050"
    using again by (simp_all add: md3_sustained_tilt_facts)
  have detected: "Tilt \<in> set (fst (md3_detectSustainedMotionEvents 2700 2700 2700
                           (md3_processSensorData rolled_event
                              (updateSystemIndicatorsAndLogging 2650 md3_sustained_tilt))))"
    "Slide \<in> set (fst (md3_detectSustainedMotionEvents 2700 2700 2700
                            (md3_processSensorData rolled_event
                               (updateSystemIndicatorsAndLogging 2650 md3_sustained_tilt))))"
    using again md3_rolled_over(3,4) [of 2650]
    by (simp_all add: md3_sustained_tilt_facts md3_currentSustainedTiltDurationMs_def
        md3_currentSustainedSlideDurationMs_def)
  have "k \<notin> set (fst (md3_detectSustainedMotionEvents 1200 1200 1200
      (md3_processSensorData rolled_event md3_sustained_tilt)))" for k
    using quiet by (cases k) (simp_all add: md3_other_lift)
  then have no_alert: "fst (md3_detectSustainedMotionEvents 1200 1200 1200
      (md3_processSensorData rolled_event md3_sustained_tilt)) = []"
    by (simp add: no_alert_iff)
  have unstamped: "md3_lastMotionTimestamp_ms
        (snd (md3_detectSustainedMotionEvents 1200 1200 1200
                (md3_processSensorData rolled_event md3_sustained_tilt))) = 1150"
    using run
    by (simp add: no_alert md3_processSensorData_lastMotion md3_sustained_tilt_facts
        del: md1_tilt_rises.simps md1_tilt_over_run.simps pollTicks.simps)
  have alert: "fst (md3_detectSustainedMotionEvents 2700 2700 2700
      (md3_processSensorData rolled_event
         (updateSystemIndicatorsAndLogging 2650 md3_sustained_tilt))) \<noteq> []"
    using detected(1) by auto
  have stamped: "md3_lastMotionTimestamp_ms
        (snd (md3_detectSustainedMotionEvents 2700 2700 2700
                (md3_processSensorData rolled_event
                   (updateSystemIndicatorsAndLogging 2650 md3_sustained_tilt)))) = 2700"
    using sustained_fires_once [where s = "handleArmSystem 1000 flat_event v5_init"
        and k = Tilt and ?t0.0 = 1050 and ?e0.0 = rolled_event and ticks = "[]"
        and m = md1_tilted and ?u0.0 = 1050 and ?f0.0 = tipped_event and mticks = "[]"
        and t = 2700 and lt = 2700 and ls = 2700 and ?t1.0 = 2650 and ?t2.0 = 2700
        and e = rolled_event
        and d = "md3_processSensorData rolled_event
                   (updateSystemIndicatorsAndLogging 2650 md3_sustained_tilt)"]
    by (simp add: alert del: md1_tilt_rises.simps md1_tilt_over_run.simps pollTicks.simps)
  from v5 md1 quiet kept cleared detected unstamped stamped show ?thesis by blast
qed

text \<open>
  Counterexample to C1 as stated, in motion\_detection3.ino. From power-up, 35 passes of
  \<^verbatim>\<open>loop()\<close> follow one another 50 ms apart, from 1000 ms to 2700 ms; each is a poll
  tick. The roll alternates between 45 and 135 degrees, so from the second tick on the
  tilt deviation (the change of roll since the previous tick, 90 degrees) is above the
  threshold of 0.3 degrees at every tick. The tilt is detected at 1150 ms, 100 ms after
  the candidate started. At 2650 ms the display window of 1500 ms has passed and
  \<^verbatim>\<open>updateSystemIndicatorsAndLogging\<close> clears \<^verbatim>\<open>isSustainedTilt\<close>; the tick at 2700 ms
  detects the tilt a second time. The candidate timer still holds 1050 in the end: no
  tick was at or below the threshold in between.
\<close>

theorem md3_fires_again:
  "md3_outcome
     [md3_pass 1000 rolled_event,
      md3_pass 1050 tipped_event,
      md3_pass 1100 rolled_event,
      md3_pass 1150 tipped_event,
      md3_pass 1200 rolled_event,
      md3_pass 1250 tipped_event,
      md3_pass 1300 rolled_event,
      md3_pass 1350 tipped_event,
      md3_pass 1400 rolled_event,
      md3_pass 1450 tipped_event,
      md3_pass 1500 rolled_event,
      md3_pass 1550 tipped_event,
      md3_pass 1600 rolled_event,
      md3_pass 1650 tipped_event,
      md3_pass 1700 rolled_event,
      md3_pass 1750 tipped_event,
      md3_pass 1800 rolled_event,
      md3_pass 1850 tipped_event,
      md3_pass 1900 rolled_event,
      md3_pass 1950 tipped_event,
      md3_pass 2000 rolled_event,
      md3_pass 2050 tipped_event,
      md3_pass 2100 rolled_event,
      md3_pass 2150 tipped_event,
      md3_pass 2200 rolled_event,
      md3_pass 2250 tipped_event,
      md3_pass 2300 rolled_event,
      md3_pass 2350 tipped_event,
      md3_pass 2400 rolled_event,
      md3_pass 2450 tipped_event,
      md3_pass 2500 rolled_event,
      md3_pass 2550 tipped_event,
      md3_pass 2600 rolled_event,
      md3_pass 2650 tipped_event,
      md3_pass 2700 rolled_event] md3_init
     = ([[], [], [], [Tilt], [], [], [], [], [], [], [], [], [], [], [], [], [], [], [], [], [], [], [], [], [], [], [], [], [], [], [], [], [], [], [Tilt]], 1050)"
  by (simp add: md3_outcome_def md3_loops_def md3_step_def md3_eval md3_init_def)

section \<open>Verification: arming\<close>

lemma handleArmSystem_current:
  "currentRoll_deg (handleArmSystem now e s)
     = atan2 (vy (ev_acceleration e)) (vz (ev_acceleration e)) * 180 / pi"
  "currentPitch_deg (handleArmSystem now e s)
     = atan2 (- vx (ev_acceleration e))
         (sqrt ((vy (ev_acceleration e))\<^sup>2 + (vz (ev_acceleration e))\<^sup>2)) * 180 / pi"
  by (simp_all add: handleArmSystem_def processSensorData_def Let_def)

lemma httpHandleArmCommand_arm:
  "snd (httpHandleArmCommand (Some ''1'') now s) =
     s\<lparr> g_isSystemArmed := True, g_motionEventForWebUI := False,
        g_motionLogCount := 0, g_armingTimeMillis := now,
        g_baselineEstablished := False,
        g_accelMagnitudeSamples := map (\<lambda>x. 0) (g_accelMagnitudeSamples s),
        g_accelSampleIndex := 0, g_potentialSlowMove := False \<rparr>"
  by (simp add: httpHandleArmCommand_def Let_def)

text \<open>
  What arming resets (C2). \<^verbatim>\<open>handleArmSystem\<close> of v5, in any state: the system is armed,
  the arm timer restarts at the current time, every sustained flag and the display
  timestamp are cleared, the yaw is reset and the baseline is captured at once from a
  fresh sensor reading (the sketch has no "established" flag and no event log).
  \<^verbatim>\<open>httpHandleArmCommand\<close> of AuraGuard with \<^verbatim>\<open>state=1\<close>, in any state: the system is armed,
  the arming time is the current time, the baseline is marked not established, the
  sample window is zeroed, the slow-move candidate is reset and the event log is
  emptied.
\<close>

theorem arm_resets:
  "systemArmed (handleArmSystem now e s)
   \<and> armStartTime_ms (handleArmSystem now e s) = now
   \<and> \<not> candidate_sustained k (handleArmSystem now e s)
   \<and> lastMotionTimestamp_ms (handleArmSystem now e s) = 0
   \<and> lastMotionType (handleArmSystem now e s) = ''None''
   \<and> baseRoll_deg (handleArmSystem now e s)
       = atan2 (vy (ev_acceleration e)) (vz (ev_acceleration e)) * 180 / pi
   \<and> basePitch_deg (handleArmSystem now e s)
       = atan2 (- vx (ev_acceleration e))
           (sqrt ((vy (ev_acceleration e))\<^sup>2 + (vz (ev_acceleration e))\<^sup>2)) * 180 / pi
   \<and> baseAccelZ_ms2 (handleArmSystem now e s) = vz (ev_acceleration e)
   \<and> currentYaw_deg (handleArmSystem now e s) = 0
   \<and> g_isSystemArmed (snd (httpHandleArmCommand (Some ''1'') now' a))
   \<and> g_armingTimeMillis (snd (httpHandleArmCommand (Some ''1'') now' a)) = now'
   \<and> \<not> g_baselineEstablished (snd (httpHandleArmCommand (Some ''1'') now' a))
   \<and> g_accelMagnitudeSamples (snd (httpHandleArmCommand (Some ''1'') now' a))
       = replicate (length (g_accelMagnitudeSamples a)) 0
   \<and> g_accelSampleIndex (snd (httpHandleArmCommand (Some ''1'') now' a)) = 0
   \<and> \<not> g_potentialSlowMove (snd (httpHandleArmCommand (Some ''1'') now' a))
   \<and> httpHandleStateRequest_log (snd (httpHandleArmCommand (Some ''1'') now' a)) = []"
proof -
  have flags: "\<not> candidate_sustained k (handleArmSystem now e s)"
    by (cases k) (simp_all add: handleArmSystem_fields)
  have zeros: "map (\<lambda>x. 0) (g_accelMagnitudeSamples a)
                 = replicate (length (g_accelMagnitudeSamples a)) (0::real)"
    by (simp add: map_replicate_const)
  show ?thesis
    using flags zeros
    by (simp add: handleArmSystem_arm handleArmSystem_fields processSensorData_def Let_def
        httpHandleArmCommand_arm httpHandleStateRequest_log_def)
qed

lemma v5_tilt_pending_facts:
  "sustainedTiltStartTime_ms v5_tilt_pending = 1050" "\<not> isSustainedTilt v5_tilt_pending"
  by (simp_all add: v5_tilt_pending_def pollTick_tilt handleArmSystem_arm
      handleArmSystem_fields processSensorData_roll v5_init_def
      DEFAULT_TILT_THRESHOLD_DEGREES_def DEFAULT_SUSTAINED_TILT_DURATION_MS_def)

lemma handleDisarmSystem_timers:
  "sustainedTiltStartTime_ms (handleDisarmSystem s) = sustainedTiltStartTime_ms s"
  "sustainedSlideStartTime_ms (handleDisarmSystem s) = sustainedSlideStartTime_ms s"
  "sustainedLiftStartTime_ms (handleDisarmSystem s) = sustainedLiftStartTime_ms s"
  by (simp_all add: handleDisarmSystem_def)

text \<open>
  C2 fails in v5 by a slip of \<^verbatim>\<open>handleArmSystem\<close>: it clears the three sustained flags and
  the display timestamp and leaves the three start-time globals as they are, which the
  detector's own branch below the threshold and AuraGuard's arm handler do reset. Armed
  flat at 1000 ms, the detector starts timing a tilt at 1050 ms; after a disarm and a new
  arm at 9000 ms the tilt candidate still has the start time 1050 ms, and the first poll
  tick, at 9050 ms, that reads a roll of 45 degrees prints the tilt alert at once, while
  after a first arm the same tick prints none. Arming at 9000 ms while a tilt is
  sustained keeps the start time of 1050 ms as well, and the first poll tick after it
  prints a tilt alert for a deviation that has lasted one tick.
\<close>

theorem arm_keeps_candidate_timer:
  "candidate_start Tilt (handleArmSystem 9000 flat_event (handleDisarmSystem v5_tilt_pending))
     = 1050
   \<and> Tilt \<in> set (fst (pollTick (9050, rolled_event)
                          (handleArmSystem 9000 flat_event (handleDisarmSystem v5_tilt_pending))))
   \<and> Tilt \<notin> set (fst (pollTick (9050, rolled_event) (handleArmSystem 9000 flat_event v5_init)))
   \<and> candidate_sustained Tilt v5_sustained_tilt
   \<and> candidate_start Tilt (handleArmSystem 9000 rolled_event v5_sustained_tilt) = 1050
   \<and> Tilt \<in> set (fst (pollTick (9050, flat_event)
                          (handleArmSystem 9000 rolled_event v5_sustained_tilt)))"
  by (simp add: pollTick_tilt v5_sustained_tilt_facts v5_tilt_pending_facts
      handleDisarmSystem_timers handleArmSystem_fields
      handleArmSystem_arm processSensorData_roll v5_init_def
      DEFAULT_TILT_THRESHOLD_DEGREES_def DEFAULT_SUSTAINED_TILT_DURATION_MS_def)

section \<open>Verification: the bounded event log\<close>

lemma motionLog_appendEntry:
  "motionLog (appendEntry e s) =
     (if MAX_MOTION_LOG_ENTRIES \<le> length (motionLog s) then tl (motionLog s) else motionLog s)
     @ [e]"
  by (simp add: appendEntry_def addMotionToLog_def Let_def)

lemma drop_window_step:
  assumes "length l = n" "0 < n"
  shows "drop (length ((tl l @ [e]) @ es) - n) ((tl l @ [e]) @ es)
           = drop (length (l @ e # es) - n) (l @ e # es)"
proof (cases l)
  case Nil
  with assms show ?thesis by simp
next
  case (Cons x l')
  with assms have "length l' + 1 = n" by simp
  then have "length ((tl l @ [e]) @ es) - n = length es"
    and "length (l @ e # es) - n = Suc (length es)"
    by (simp_all add: Cons)
  then show ?thesis by (simp add: Cons)
qed

lemma motionLog_fold_appendEntry:
  assumes "length (motionLog s) \<le> MAX_MOTION_LOG_ENTRIES"
  shows "motionLog (fold appendEntry es s) =
           drop (length (motionLog s @ es) - MAX_MOTION_LOG_ENTRIES) (motionLog s @ es)"
  using assms
proof (induction es arbitrary: s)
  case Nil
  then show ?case by simp
next
  case (Cons e es)
  let ?l = "motionLog s"
  let ?s' = "appendEntry e s"
  show ?case
  proof (cases "length ?l = MAX_MOTION_LOG_ENTRIES")
    case True
    then have l': "motionLog ?s' = tl ?l @ [e]"
      by (simp add: motionLog_appendEntry)
    have pos: "0 < MAX_MOTION_LOG_ENTRIES"
      by (simp add: MAX_MOTION_LOG_ENTRIES_def)
    have len: "length (motionLog ?s') = MAX_MOTION_LOG_ENTRIES"
      using True pos by (simp add: l')
    have "motionLog (fold appendEntry es ?s') =
            drop (length (motionLog ?s' @ es) - MAX_MOTION_LOG_ENTRIES) (motionLog ?s' @ es)"
      using len by (intro Cons.IH) simp
    also have "\<dots> = drop (length (?l @ e # es) - MAX_MOTION_LOG_ENTRIES) (?l @ e # es)"
      unfolding l' using True pos by (rule drop_window_step)
    finally show ?thesis by simp
  next
    case False
    with Cons.prems have lt: "length ?l < MAX_MOTION_LOG_ENTRIES" by simp
    then have l': "motionLog ?s' = ?l @ [e]"
      by (simp add: motionLog_appendEntry)
    have "motionLog (fold appendEntry es ?s') =
            drop (length (motionLog ?s' @ es) - MAX_MOTION_LOG_ENTRIES) (motionLog ?s' @ es)"
      using lt by (intro Cons.IH) (simp add: l')
    then show ?thesis by (simp add: l')
  qed
qed

lemma updateAccelSamples_log [simp]:
  "g_motionLog (updateAccelSamples m s) = g_motionLog s"
  "g_motionLogCount (updateAccelSamples m s) = g_motionLogCount s"
  "g_isSystemArmed (updateAccelSamples m s) = g_isSystemArmed s"
  by (simp_all add: updateAccelSamples_def Let_def)

lemma checkForSlowMove_log [simp]:
  "g_motionLog (snd (checkForSlowMove now s)) = g_motionLog s"
  "g_motionLogCount (snd (checkForSlowMove now s)) = g_motionLogCount s"
  "g_isSystemArmed (snd (checkForSlowMove now s)) = g_isSystemArmed s"
  by (simp_all add: checkForSlowMove_def Let_def)

lemma processMotionDetection_frame [simp]:
  "g_isSystemArmed (processMotionDetection ob s) = g_isSystemArmed s"
  "length (g_motionLog (processMotionDetection ob s)) = length (g_motionLog s)"
  by (simp_all add: processMotionDetection_def Let_def)

lemma take_take_append: "take n (take n xs @ ys) = take n (xs @ ys)"
  by (induction xs arbitrary: n) (auto simp add: take_Cons split: nat.splits)

lemma processMotionDetection_log:
  assumes "g_isSystemArmed s" "ag_interrupt ob"
  shows "g_motionLogCount (processMotionDetection ob s) =
           (if g_motionLogCount s < MAX_MOTION_LOG_ENTRIES_AG
            then g_motionLogCount s + 1 else g_motionLogCount s)"
    and "g_motionLog (processMotionDetection ob s) =
           (if g_motionLogCount s < MAX_MOTION_LOG_ENTRIES_AG
            then (g_motionLog s)[g_motionLogCount s := ag_formattedTime ob]
            else g_motionLog s)"
  using assms by (simp_all add: processMotionDetection_def Let_def)

lemma map_nth_below:
  "n \<le> length xs \<Longrightarrow> map (\<lambda>i. xs ! i) [0 ..< n] = take n xs"
  by (simp add: list_eq_iff_nth_eq)

lemma httpHandleStateRequest_log_take:
  assumes "g_isSystemArmed s" "g_motionLogCount s \<le> length (g_motionLog s)"
  shows "httpHandleStateRequest_log s = take (g_motionLogCount s) (g_motionLog s)"
  using assms by (simp add: httpHandleStateRequest_log_def map_nth_below)

lemma processMotionDetection_full:
  assumes "MAX_MOTION_LOG_ENTRIES_AG \<le> g_motionLogCount s"
  shows "g_motionLogCount (processMotionDetection ob s) = g_motionLogCount s"
    and "g_motionLog (processMotionDetection ob s) = g_motionLog s"
  using assms by (simp_all add: processMotionDetection_def Let_def)

lemma processMotionDetection_count_le:
  assumes "g_motionLogCount s \<le> MAX_MOTION_LOG_ENTRIES_AG"
  shows "g_motionLogCount (processMotionDetection ob s) \<le> MAX_MOTION_LOG_ENTRIES_AG"
  using assms by (simp add: processMotionDetection_def Let_def)

lemma ag_log_step:
  assumes "g_isSystemArmed s" "ag_interrupt ob"
    and "length (g_motionLog s) = MAX_MOTION_LOG_ENTRIES_AG"
    and "g_motionLogCount s \<le> MAX_MOTION_LOG_ENTRIES_AG"
  shows "httpHandleStateRequest_log (processMotionDetection ob s)
           = take MAX_MOTION_LOG_ENTRIES_AG (httpHandleStateRequest_log s @ [ag_formattedTime ob])"
    and "g_motionLogCount (processMotionDetection ob s)
           = min MAX_MOTION_LOG_ENTRIES_AG (g_motionLogCount s + 1)"
proof -
  show cnt: "g_motionLogCount (processMotionDetection ob s)
           = min MAX_MOTION_LOG_ENTRIES_AG (g_motionLogCount s + 1)"
    using assms by (simp add: processMotionDetection_log)
  have before: "httpHandleStateRequest_log s = take (g_motionLogCount s) (g_motionLog s)"
    using assms by (intro httpHandleStateRequest_log_take) simp_all
  have after: "httpHandleStateRequest_log (processMotionDetection ob s)
      = take (g_motionLogCount (processMotionDetection ob s))
          (g_motionLog (processMotionDetection ob s))"
    using assms cnt by (intro httpHandleStateRequest_log_take) simp_all
  show "httpHandleStateRequest_log (processMotionDetection ob s)
          = take MAX_MOTION_LOG_ENTRIES_AG (httpHandleStateRequest_log s @ [ag_formattedTime ob])"
  proof (cases "g_motionLogCount s < MAX_MOTION_LOG_ENTRIES_AG")
    case True
    then show ?thesis
      unfolding after before using assms
      by (simp add: processMotionDetection_log take_Suc_conv_app_nth)
  next
    case False
    with assms(4) have "g_motionLogCount s = MAX_MOTION_LOG_ENTRIES_AG" by simp
    then show ?thesis
      unfolding after before using assms by (simp add: processMotionDetection_log)
  qed
qed

lemma ag_log_fold:
  assumes "g_isSystemArmed s" "\<forall>ob \<in> set obs. ag_interrupt ob"
    and "length (g_motionLog s) = MAX_MOTION_LOG_ENTRIES_AG"
    and "g_motionLogCount s \<le> MAX_MOTION_LOG_ENTRIES_AG"
  shows "httpHandleStateRequest_log (fold processMotionDetection obs s)
           = take MAX_MOTION_LOG_ENTRIES_AG
               (httpHandleStateRequest_log s @ map ag_formattedTime obs)
         \<and> g_motionLogCount (fold processMotionDetection obs s)
           = min MAX_MOTION_LOG_ENTRIES_AG (g_motionLogCount s + length obs)"
  using assms
proof (induction obs arbitrary: s)
  case Nil
  then show ?case by (simp add: httpHandleStateRequest_log_take)
next
  case (Cons ob obs)
  let ?s' = "processMotionDetection ob s"
  have step: "httpHandleStateRequest_log ?s'
      = take MAX_MOTION_LOG_ENTRIES_AG (httpHandleStateRequest_log s @ [ag_formattedTime ob])"
    and cnt: "g_motionLogCount ?s' = min MAX_MOTION_LOG_ENTRIES_AG (g_motionLogCount s + 1)"
    using Cons.prems by (simp_all add: ag_log_step)
  have ih: "httpHandleStateRequest_log (fold processMotionDetection obs ?s')
          = take MAX_MOTION_LOG_ENTRIES_AG
              (httpHandleStateRequest_log ?s' @ map ag_formattedTime obs)
        \<and> g_motionLogCount (fold processMotionDetection obs ?s')
          = min MAX_MOTION_LOG_ENTRIES_AG (g_motionLogCount ?s' + length obs)"
    using Cons.prems cnt by (intro Cons.IH) simp_all
  have "take MAX_MOTION_LOG_ENTRIES_AG (httpHandleStateRequest_log ?s' @ map ag_formattedTime obs)
      = take MAX_MOTION_LOG_ENTRIES_AG
          ((httpHandleStateRequest_log s @ [ag_formattedTime ob]) @ map ag_formattedTime obs)"
    unfolding step by (rule take_take_append)
  moreover have "min MAX_MOTION_LOG_ENTRIES_AG (g_motionLogCount ?s' + length obs)
      = min MAX_MOTION_LOG_ENTRIES_AG (g_motionLogCount s + length (ob # obs))"
    by (simp add: cnt)
  ultimately show ?case using ih by simp
qed

lemma ag_armed_facts:
  "g_isSystemArmed ag_armed" "length (g_motionLog ag_armed) = MAX_MOTION_LOG_ENTRIES_AG"
  "g_motionLogCount ag_armed = 0" "httpHandleStateRequest_log ag_armed = []"
  by (simp_all add: ag_armed_def httpHandleArmCommand_arm ag_init_def
      httpHandleStateRequest_log_def)

lemma ag_motion_pass_sel [simp]:
  "ag_interrupt (ag_motion_pass n)" "ag_formattedTime (ag_motion_pass n) = time_text n"
  by (simp_all add: ag_motion_pass_def)

text \<open>
  C3, as the code has it. In motion\_detection.ino the log never holds more than
  \<^verbatim>\<open>MAX_MOTION_LOG_ENTRIES\<close> (20) entries: after any run of \<^verbatim>\<open>addMotionToLog\<close> calls it
  holds the last 20 of the entries it held before followed by the new ones, in insertion
  order, and a call on a full log removes the oldest entry and appends the new one. In
  AuraGuard the counter \<^verbatim>\<open>g_motionLogCount\<close> never passes \<^verbatim>\<open>MAX_MOTION_LOG_ENTRIES\<close> (30),
  whatever a pass of \<^verbatim>\<open>processMotionDetection\<close> observes, and at a full log a pass changes
  neither the counter nor the array: a motion detected then is not logged. After any run
  of passes with a motion interrupt while armed, the counter is the least of 30 and the
  number of entries offered, and the log read out holds the first 30 of the entries it
  held before followed by the new ones.
\<close>

theorem log_full_policy:
  "(length (motionLog s) \<le> MAX_MOTION_LOG_ENTRIES \<longrightarrow>
      motionLog (fold appendEntry es s)
        = drop (length (motionLog s @ es) - MAX_MOTION_LOG_ENTRIES) (motionLog s @ es)
      \<and> length (motionLog (fold appendEntry es s)) \<le> MAX_MOTION_LOG_ENTRIES)
   \<and> (length (motionLog s) = MAX_MOTION_LOG_ENTRIES \<longrightarrow>
      motionLog (appendEntry e s) = tl (motionLog s) @ [e])
   \<and> (g_motionLogCount a \<le> MAX_MOTION_LOG_ENTRIES_AG \<longrightarrow>
      g_motionLogCount (processMotionDetection ob a) \<le> MAX_MOTION_LOG_ENTRIES_AG)
   \<and> (g_motionLogCount a = MAX_MOTION_LOG_ENTRIES_AG \<longrightarrow>
      g_motionLogCount (processMotionDetection ob a) = g_motionLogCount a
      \<and> g_motionLog (processMotionDetection ob a) = g_motionLog a)
   \<and> (g_isSystemArmed a \<and> (\<forall>ob \<in> set obs. ag_interrupt ob)
       \<and> length (g_motionLog a) = MAX_MOTION_LOG_ENTRIES_AG
       \<and> g_motionLogCount a \<le> MAX_MOTION_LOG_ENTRIES_AG \<longrightarrow>
      g_motionLogCount (fold processMotionDetection obs a)
        = min MAX_MOTION_LOG_ENTRIES_AG (g_motionLogCount a + length obs)
      \<and> httpHandleStateRequest_log (fold processMotionDetection obs a)
        = take MAX_MOTION_LOG_ENTRIES_AG
            (httpHandleStateRequest_log a @ map ag_formattedTime obs)
      \<and> length (httpHandleStateRequest_log (fold processMotionDetection obs a))
        \<le> MAX_MOTION_LOG_ENTRIES_AG)"
proof (intro conjI impI)
  assume "length (motionLog s) \<le> MAX_MOTION_LOG_ENTRIES"
  then show window: "motionLog (fold appendEntry es s)
      = drop (length (motionLog s @ es) - MAX_MOTION_LOG_ENTRIES) (motionLog s @ es)"
    by (rule motionLog_fold_appendEntry)
  show "length (motionLog (fold appendEntry es s)) \<le> MAX_MOTION_LOG_ENTRIES"
    unfolding window by simp
next
  assume "length (motionLog s) = MAX_MOTION_LOG_ENTRIES"
  then show "motionLog (appendEntry e s) = tl (motionLog s) @ [e]"
    by (simp add: motionLog_appendEntry)
next
  assume "g_motionLogCount a \<le> MAX_MOTION_LOG_ENTRIES_AG"
  then show "g_motionLogCount (processMotionDetection ob a) \<le> MAX_MOTION_LOG_ENTRIES_AG"
    by (rule processMotionDetection_count_le)
next
  assume full: "g_motionLogCount a = MAX_MOTION_LOG_ENTRIES_AG"
  then show "g_motionLogCount (processMotionDetection ob a) = g_motionLogCount a"
    by (intro processMotionDetection_full) simp
  from full show "g_motionLog (processMotionDetection ob a) = g_motionLog a"
    by (intro processMotionDetection_full) simp
next
  assume run: "g_isSystemArmed a \<and> (\<forall>ob \<in> set obs. ag_interrupt ob)
       \<and> length (g_motionLog a) = MAX_MOTION_LOG_ENTRIES_AG
       \<and> g_motionLogCount a \<le> MAX_MOTION_LOG_ENTRIES_AG"
  then have both: "httpHandleStateRequest_log (fold processMotionDetection obs a)
        = take MAX_MOTION_LOG_ENTRIES_AG
            (httpHandleStateRequest_log a @ map ag_formattedTime obs)
      \<and> g_motionLogCount (fold processMotionDetection obs a)
        = min MAX_MOTION_LOG_ENTRIES_AG (g_motionLogCount a + length obs)"
    by (intro ag_log_fold) simp_all
  then show "g_motionLogCount (fold processMotionDetection obs a)
        = min MAX_MOTION_LOG_ENTRIES_AG (g_motionLogCount a + length obs)"
    by simp
  from both show first: "httpHandleStateRequest_log (fold processMotionDetection obs a)
        = take MAX_MOTION_LOG_ENTRIES_AG
            (httpHandleStateRequest_log a @ map ag_formattedTime obs)"
    by simp
  show "length (httpHandleStateRequest_log (fold processMotionDetection obs a))
      \<le> MAX_MOTION_LOG_ENTRIES_AG"
    unfolding first by simp
qed

text \<open>Twenty-one appends to the empty log of motion\_detection.ino leave entries 1 to 20.
  Five motions after arming AuraGuard are all logged, and the counter is 5. After 30
  motions the counter is 30, and a pass with a further motion leaves counter and array;
  after 31 motions the counter is 30. One pass from the empty log keeps the counter
  within 30.\<close>

theorem log_full_policy_witness:
  "motionLog (fold appendEntry (map tilt_entry [0..<21]) md1_init) = map tilt_entry [1..<21]
   \<and> motionLog (appendEntry (tilt_entry 20) (fold appendEntry (map tilt_entry [0..<20]) md1_init))
       = tl (map tilt_entry [0..<20]) @ [tilt_entry 20]
   \<and> httpHandleStateRequest_log
        (fold processMotionDetection (map ag_motion_pass [0..<5]) ag_armed)
       = map time_text [0..<5]
   \<and> g_motionLogCount (fold processMotionDetection (map ag_motion_pass [0..<5]) ag_armed) = 5
   \<and> g_motionLogCount (fold processMotionDetection (map ag_motion_pass [0..<30]) ag_armed) = 30
   \<and> g_motionLogCount
        (processMotionDetection (ag_motion_pass 30)
           (fold processMotionDetection (map ag_motion_pass [0..<30]) ag_armed)) = 30
   \<and> g_motionLog
        (processMotionDetection (ag_motion_pass 30)
           (fold processMotionDetection (map ag_motion_pass [0..<30]) ag_armed))
       = g_motionLog (fold processMotionDetection (map ag_motion_pass [0..<30]) ag_armed)
   \<and> g_motionLogCount (fold processMotionDetection (map ag_motion_pass [0..<31]) ag_armed) = 30
   \<and> g_motionLogCount (processMotionDetection (ag_motion_pass 0) ag_armed) \<le> 30"
proof -
  have m20: "motionLog (fold appendEntry (map tilt_entry [0..<20]) md1_init)
               = map tilt_entry [0..<20]"
    using log_full_policy [where s = md1_init and es = "map tilt_entry [0..<20]"]
    by (simp add: md1_init_def MAX_MOTION_LOG_ENTRIES_def)
  have m21: "motionLog (fold appendEntry (map tilt_entry [0..<21]) md1_init)
               = map tilt_entry [1..<21]"
    using log_full_policy [where s = md1_init and es = "map tilt_entry [0..<21]"]
    by (simp add: md1_init_def MAX_MOTION_LOG_ENTRIES_def drop_map)
  have full: "motionLog (appendEntry (tilt_entry 20)
                (fold appendEntry (map tilt_entry [0..<20]) md1_init))
              = tl (map tilt_entry [0..<20]) @ [tilt_entry 20]"
    using log_full_policy [where s = "fold appendEntry (map tilt_entry [0..<20]) md1_init"
        and e = "tilt_entry 20"]
    by (simp add: m20 MAX_MOTION_LOG_ENTRIES_def)
  have ag5: "httpHandleStateRequest_log
               (fold processMotionDetection (map ag_motion_pass [0..<5]) ag_armed)
              = map time_text [0..<5]"
    "g_motionLogCount (fold processMotionDetection (map ag_motion_pass [0..<5]) ag_armed) = 5"
    using log_full_policy [where a = ag_armed and obs = "map ag_motion_pass [0..<5]"]
    by (simp_all add: ag_armed_facts MAX_MOTION_LOG_ENTRIES_AG_def comp_def)
  have ag30: "g_motionLogCount
      (fold processMotionDetection (map ag_motion_pass [0..<30]) ag_armed) = 30"
    using log_full_policy [where a = ag_armed and obs = "map ag_motion_pass [0..<30]"]
    by (simp add: ag_armed_facts MAX_MOTION_LOG_ENTRIES_AG_def)
  have ag31: "g_motionLogCount
      (fold processMotionDetection (map ag_motion_pass [0..<31]) ag_armed) = 30"
    using log_full_policy [where a = ag_armed and obs = "map ag_motion_pass [0..<31]"]
    by (simp add: ag_armed_facts MAX_MOTION_LOG_ENTRIES_AG_def)
  have refused: "g_motionLogCount
        (processMotionDetection (ag_motion_pass 30)
           (fold processMotionDetection (map ag_motion_pass [0..<30]) ag_armed)) = 30"
    "g_motionLog
        (processMotionDetection (ag_motion_pass 30)
           (fold processMotionDetection (map ag_motion_pass [0..<30]) ag_armed))
       = g_motionLog (fold processMotionDetection (map ag_motion_pass [0..<30]) ag_armed)"
    using log_full_policy
      [where a = "fold processMotionDetection (map ag_motion_pass [0..<30]) ag_armed"
        and ob = "ag_motion_pass 30"]
    by (simp_all add: ag30 MAX_MOTION_LOG_ENTRIES_AG_def)
  have bounded: "g_motionLogCount (processMotionDetection (ag_motion_pass 0) ag_armed) \<le> 30"
    using log_full_policy [where a = ag_armed and ob = "ag_motion_pass 0"]
    by (simp add: ag_armed_facts MAX_MOTION_LOG_ENTRIES_AG_def)
  from m21 full ag5 ag30 ag31 refused bounded show ?thesis by simp
qed

text \<open>
  Counterexample to C3 as stated, in AuraGuard: armed with an empty log, 31 motions one
  second apart are detected. The log then holds the first 30 time stamps, from 12:00:00
  to 12:00:29: the oldest entry is still there and the newest, 12:00:30, is not.
\<close>

theorem ag_log_drops_newest:
  "httpHandleStateRequest_log
     (fold processMotionDetection (map ag_motion_pass [0..<31]) ag_armed)
     = map time_text [0..<30]
   \<and> hd (httpHandleStateRequest_log
           (fold processMotionDetection (map ag_motion_pass [0..<31]) ag_armed))
     = ''12:00:00''
   \<and> last (httpHandleStateRequest_log
             (fold processMotionDetection (map ag_motion_pass [0..<31]) ag_armed))
     = ''12:00:29''
   \<and> ag_formattedTime (ag_motion_pass 30) = ''12:00:30''"
proof -
  have "httpHandleStateRequest_log
          (fold processMotionDetection (map ag_motion_pass [0..<31]) ag_armed)
        = take MAX_MOTION_LOG_ENTRIES_AG
            (httpHandleStateRequest_log ag_armed
             @ map ag_formattedTime (map ag_motion_pass [0..<31]))
      \<and> g_motionLogCount (fold processMotionDetection (map ag_motion_pass [0..<31]) ag_armed)
        = min MAX_MOTION_LOG_ENTRIES_AG
            (g_motionLogCount ag_armed + length (map ag_motion_pass [0..<31]))"
    by (intro ag_log_fold) (simp_all add: ag_armed_facts)
  then have run: "httpHandleStateRequest_log
      (fold processMotionDetection (map ag_motion_pass [0..<31]) ag_armed)
        = map time_text [0..<30]"
    by (simp add: ag_armed_facts MAX_MOTION_LOG_ENTRIES_AG_def comp_def take_map)
  show ?thesis
    unfolding run by (simp add: hd_map last_map time_text_def)
qed

section \<open>Verification: the debounce of the event log\<close>

lemma addEventToMotionLog_nonempty:
  "md3_motionEventLog s \<noteq> [] \<Longrightarrow> md3_motionEventLog (addEventToMotionLog now ts ty r p s) \<noteq> []"
  by (simp add: addEventToMotionLog_def Let_def)

lemma addEventToMotionLog_drop:
  assumes "md3_motionEventLog s \<noteq> []" "now - md3_lastLogEntryTime_ms s < md3_MIN_LOG_INTERVAL_MS"
  shows "addEventToMotionLog now ts ty r p s = s"
  using assms by (simp add: addEventToMotionLog_def)

lemma addEventToMotionLog_push:
  assumes "\<not> (md3_motionEventLog s \<noteq> [] \<and> now - md3_lastLogEntryTime_ms s < md3_MIN_LOG_INTERVAL_MS)"
  shows "md3_motionEventLog (addEventToMotionLog now ts ty r p s)
           = (if md3_MAX_LOG_ENTRIES \<le> length (md3_motionEventLog s)
              then tl (md3_motionEventLog s) else md3_motionEventLog s)
             @ [\<lparr> timestamp_ms = ts, motionType = ty, rollAtDetection_deg = r,
                   pitchAtDetection_deg = p \<rparr>]"
    and "md3_lastLogEntryTime_ms (addEventToMotionLog now ts ty r p s) = now"
proof -
  from assms have c: "\<not> (now - md3_lastLogEntryTime_ms s < md3_MIN_LOG_INTERVAL_MS
      \<and> md3_motionEventLog s \<noteq> [])" by blast
  show "md3_motionEventLog (addEventToMotionLog now ts ty r p s)
           = (if md3_MAX_LOG_ENTRIES \<le> length (md3_motionEventLog s)
              then tl (md3_motionEventLog s) else md3_motionEventLog s)
             @ [\<lparr> timestamp_ms = ts, motionType = ty, rollAtDetection_deg = r,
                   pitchAtDetection_deg = p \<rparr>]"
    unfolding addEventToMotionLog_def Let_def if_not_P [OF c] by simp
  show "md3_lastLogEntryTime_ms (addEventToMotionLog now ts ty r p s) = now"
    unfolding addEventToMotionLog_def Let_def if_not_P [OF c] by simp
qed

lemma logMotionStart_drop:
  assumes "motionStarted m" "t - lastTimeEntryAddedToLog m < MIN_INTERVAL_BETWEEN_LOG_ENTRIES"
  shows "motionLog (logMotionStart t m) = motionLog m"
    and "lastTimeEntryAddedToLog (logMotionStart t m) = lastTimeEntryAddedToLog m"
proof -
  from assms(2) have c: "\<not> MIN_INTERVAL_BETWEEN_LOG_ENTRIES \<le> t - lastTimeEntryAddedToLog m"
    by simp
  from assms(1) have r: "(deviceIsTiltingSustained m \<or> deviceIsSlidingSustained m)
      \<and> \<not> prevOverallMotionState m"
    by (simp add: motionStarted_def)
  show "motionLog (logMotionStart t m) = motionLog m"
    using c r by (simp add: logMotionStart_def Let_def)
  show "lastTimeEntryAddedToLog (logMotionStart t m) = lastTimeEntryAddedToLog m"
    using c r by (simp add: logMotionStart_def Let_def)
qed

lemma logMotionStart_push:
  assumes "motionStarted m" "\<not> t - lastTimeEntryAddedToLog m < MIN_INTERVAL_BETWEEN_LOG_ENTRIES"
  shows "motionLog (logMotionStart t m)
           = (if MAX_MOTION_LOG_ENTRIES \<le> length (motionLog m) then tl (motionLog m)
              else motionLog m)
             @ [\<lparr> timestamp = t, le_motionType = motionTypeStr m, accelData = current_a m,
                   gyroData = current_g m, rollAtDetection = current_roll m,
                   pitchAtDetection = current_pitch m \<rparr>]"
    and "lastTimeEntryAddedToLog (logMotionStart t m) = t"
proof -
  from assms(2) have c: "MIN_INTERVAL_BETWEEN_LOG_ENTRIES \<le> t - lastTimeEntryAddedToLog m"
    by simp
  from assms(1) have r: "(deviceIsTiltingSustained m \<or> deviceIsSlidingSustained m)
      \<and> \<not> prevOverallMotionState m"
    by (simp add: motionStarted_def)
  show "motionLog (logMotionStart t m)
           = (if MAX_MOTION_LOG_ENTRIES \<le> length (motionLog m) then tl (motionLog m)
              else motionLog m)
             @ [\<lparr> timestamp = t, le_motionType = motionTypeStr m, accelData = current_a m,
                   gyroData = current_g m, rollAtDetection = current_roll m,
                   pitchAtDetection = current_pitch m \<rparr>]"
    using c r by (simp add: logMotionStart_def addMotionToLog_def motionTypeStr_def Let_def)
  show "lastTimeEntryAddedToLog (logMotionStart t m) = t"
    using c r by (simp add: logMotionStart_def addMotionToLog_def Let_def)
qed

lemma md3_logged_facts:
  "md3_motionEventLog md3_logged
     = [\<lparr> timestamp_ms = 1150, motionType = ''Tilt Detected'', rollAtDetection_deg = 45,
          pitchAtDetection_deg = 0 \<rparr>]"
  "md3_lastLogEntryTime_ms md3_logged = 1150"
  by (simp_all add: md3_logged_def addEventToMotionLog_def md3_init_def Let_def
      md3_MAX_LOG_ENTRIES_def)

lemma md1_tilting_facts:
  "motionStarted md1_tilting" "lastTimeEntryAddedToLog md1_tilting = 0"
  "motionLog md1_tilting = []" "motionTypeStr md1_tilting = ''Tilt''"
  "current_a md1_tilting = \<lparr>vx = 0, vy = 0, vz = 0\<rparr>"
  "current_g md1_tilting = \<lparr>vx = 0, vy = 0, vz = 0\<rparr>"
  "current_roll md1_tilting = 0" "current_pitch md1_tilting = 0"
  by (simp_all add: md1_tilting_def md1_init_def motionStarted_def motionTypeStr_def)

lemma md1_tilting_again_facts:
  "motionStarted md1_tilting_again" "lastTimeEntryAddedToLog md1_tilting_again = 2500"
  "length (motionLog md1_tilting_again) = 1"
  by (simp_all add: md1_tilting_again_def md1_tilting_def md1_init_def motionStarted_def
      logMotionStart_def addMotionToLog_def Let_def MIN_INTERVAL_BETWEEN_LOG_ENTRIES_def
      MAX_MOTION_LOG_ENTRIES_def)

text \<open>
  C6. In motion\_detection3.ino, \<^verbatim>\<open>addEventToMotionLog\<close> called at time \<open>now\<close>: when the log
  holds an entry and \<open>now\<close> is less than \<^verbatim>\<open>MIN_LOG_INTERVAL_MS\<close> (250) past the time of
  the last append, the call changes nothing; otherwise the entry is appended, after the
  oldest entry has been removed from a log of \<^verbatim>\<open>MAX_LOG_ENTRIES\<close> (10), and the time of
  the last append becomes \<open>now\<close>. No function of that sketch removes the last entry of
  the log, so the log holds an entry exactly when an append has succeeded before. In
  motion\_detection.ino, \<^verbatim>\<open>loop()\<close> at time \<open>t\<close> on the start of a motion: when \<open>t\<close> is less
  than \<^verbatim>\<open>MIN_INTERVAL_BETWEEN_LOG_ENTRIES\<close> (300) past the time of the last append, log
  and time of the last append stay as they are; otherwise the entry is appended, after
  the oldest entry has been removed from a log of 20, and the time of the last append
  becomes \<open>t\<close>. Time differences are the unsigned 32-bit differences the sketches compute;
  the time of the last append is 0 at power-up.
\<close>

theorem log_debounce:
  "(md3_motionEventLog s \<noteq> [] \<and> now - md3_lastLogEntryTime_ms s < md3_MIN_LOG_INTERVAL_MS \<longrightarrow>
      addEventToMotionLog now ts ty r p s = s)
   \<and> (\<not> (md3_motionEventLog s \<noteq> [] \<and> now - md3_lastLogEntryTime_ms s < md3_MIN_LOG_INTERVAL_MS) \<longrightarrow>
      md3_motionEventLog (addEventToMotionLog now ts ty r p s)
        = (if md3_MAX_LOG_ENTRIES \<le> length (md3_motionEventLog s)
           then tl (md3_motionEventLog s) else md3_motionEventLog s)
          @ [\<lparr> timestamp_ms = ts, motionType = ty, rollAtDetection_deg = r,
                pitchAtDetection_deg = p \<rparr>]
      \<and> md3_lastLogEntryTime_ms (addEventToMotionLog now ts ty r p s) = now)
   \<and> (motionStarted m \<and> t - lastTimeEntryAddedToLog m < MIN_INTERVAL_BETWEEN_LOG_ENTRIES \<longrightarrow>
      motionLog (logMotionStart t m) = motionLog m
      \<and> lastTimeEntryAddedToLog (logMotionStart t m) = lastTimeEntryAddedToLog m)
   \<and> (motionStarted m \<and> \<not> t - lastTimeEntryAddedToLog m < MIN_INTERVAL_BETWEEN_LOG_ENTRIES \<longrightarrow>
      motionLog (logMotionStart t m)
        = (if MAX_MOTION_LOG_ENTRIES \<le> length (motionLog m) then tl (motionLog m)
           else motionLog m)
          @ [\<lparr> timestamp = t, le_motionType = motionTypeStr m, accelData = current_a m,
                gyroData = current_g m, rollAtDetection = current_roll m,
                pitchAtDetection = current_pitch m \<rparr>]
      \<and> lastTimeEntryAddedToLog (logMotionStart t m) = t)"
  by (intro conjI impI)
    (simp_all add: addEventToMotionLog_drop addEventToMotionLog_push logMotionStart_drop
      logMotionStart_push)


text \<open>In motion\_detection3.ino a tilt is logged at 1150 ms and the slide detected in the
  same pass is dropped; in motion\_detection.ino a tilt is logged at 2500 ms and the tilt
  that starts at 2700 ms is dropped.\<close>

theorem log_debounce_witness:
  "addEventToMotionLog 1150 1150 ''Slide Detected'' 45 0 md3_logged = md3_logged
   \<and> md3_motionEventLog (addEventToMotionLog 1150 1150 ''Tilt Detected'' 45 0 md3_init)
       = [\<lparr> timestamp_ms = 1150, motionType = ''Tilt Detected'', rollAtDetection_deg = 45,
            pitchAtDetection_deg = 0 \<rparr>]
   \<and> md3_lastLogEntryTime_ms (addEventToMotionLog 1150 1150 ''Tilt Detected'' 45 0 md3_init)
       = 1150
   \<and> motionLog (logMotionStart 2700 md1_tilting_again) = motionLog md1_tilting_again
   \<and> lastTimeEntryAddedToLog (logMotionStart 2700 md1_tilting_again) = 2500
   \<and> motionLog (logMotionStart 2500 md1_tilting)
       = [\<lparr> timestamp = 2500, le_motionType = ''Tilt'', accelData = \<lparr>vx = 0, vy = 0, vz = 0\<rparr>,
            gyroData = \<lparr>vx = 0, vy = 0, vz = 0\<rparr>, rollAtDetection = 0,
            pitchAtDetection = 0 \<rparr>]
   \<and> lastTimeEntryAddedToLog (logMotionStart 2500 md1_tilting) = 2500"
proof -
  have drop3: "addEventToMotionLog 1150 1150 ''Slide Detected'' 45 0 md3_logged = md3_logged"
    using log_debounce [where s = md3_logged and now = 1150 and ts = 1150
        and ty = "''Slide Detected''" and r = 45 and p = 0 and m = md1_tilting and t = 2500]
    by (simp add: md3_logged_facts md3_MIN_LOG_INTERVAL_MS_def)
  have push3: "md3_motionEventLog (addEventToMotionLog 1150 1150 ''Tilt Detected'' 45 0 md3_init)
       = [\<lparr> timestamp_ms = 1150, motionType = ''Tilt Detected'', rollAtDetection_deg = 45,
            pitchAtDetection_deg = 0 \<rparr>]
     \<and> md3_lastLogEntryTime_ms (addEventToMotionLog 1150 1150 ''Tilt Detected'' 45 0 md3_init)
       = 1150"
    using log_debounce [where s = md3_init and now = 1150 and ts = 1150
        and ty = "''Tilt Detected''" and r = 45 and p = 0 and m = md1_tilting and t = 2500]
    by (simp add: md3_init_def md3_MAX_LOG_ENTRIES_def)
  have drop1: "motionLog (logMotionStart 2700 md1_tilting_again) = motionLog md1_tilting_again
     \<and> lastTimeEntryAddedToLog (logMotionStart 2700 md1_tilting_again) = 2500"
    using log_debounce [where s = md3_init and now = 1150 and ts = 1150
        and ty = "''Tilt Detected''" and r = 45 and p = 0 and m = md1_tilting_again
        and t = 2700]
    by (simp add: md1_tilting_again_facts MIN_INTERVAL_BETWEEN_LOG_ENTRIES_def)
  have push1: "motionLog (logMotionStart 2500 md1_tilting)
       = [\<lparr> timestamp = 2500, le_motionType = ''Tilt'', accelData = \<lparr>vx = 0, vy = 0, vz = 0\<rparr>,
            gyroData = \<lparr>vx = 0, vy = 0, vz = 0\<rparr>, rollAtDetection = 0,
            pitchAtDetection = 0 \<rparr>]
     \<and> lastTimeEntryAddedToLog (logMotionStart 2500 md1_tilting) = 2500"
    using log_debounce [where s = md3_init and now = 1150 and ts = 1150
        and ty = "''Tilt Detected''" and r = 45 and p = 0 and m = md1_tilting and t = 2500]
    by (simp add: md1_tilting_facts MIN_INTERVAL_BETWEEN_LOG_ENTRIES_def
        MAX_MOTION_LOG_ENTRIES_def)
  from drop3 push3 drop1 push1 show ?thesis by simp
qed

section \<open>Verification: the baseline of the slow-move detector\<close>

lemma checkForSlowMove_pending:
  assumes "g_baselineEstablished s" "slowMoveOver s"
    and "\<not> (g_potentialSlowMove s \<and> SLOW_MOVE_MIN_DURATION_MS \<le> now - g_slowMoveStartTime s)"
  shows "\<not> fst (checkForSlowMove now s)"
    and "g_accelBaselineMagnitude (snd (checkForSlowMove now s)) = g_accelBaselineMagnitude s"
    and "g_potentialSlowMove (snd (checkForSlowMove now s))"
  using assms
  by (auto simp add: checkForSlowMove_def slowMoveOver_def smoothedMagnitude_def Let_def)

lemma checkForSlowMove_sustained:
  assumes "g_baselineEstablished s" "slowMoveOver s"
    and "g_potentialSlowMove s" "SLOW_MOVE_MIN_DURATION_MS \<le> now - g_slowMoveStartTime s"
  shows "fst (checkForSlowMove now s)"
    and "g_accelBaselineMagnitude (snd (checkForSlowMove now s)) = smoothedMagnitude s"
    and "\<not> g_potentialSlowMove (snd (checkForSlowMove now s))"
  using assms
  by (simp_all add: checkForSlowMove_def slowMoveOver_def smoothedMagnitude_def Let_def)

lemma checkForSlowMove_below:
  assumes "g_baselineEstablished s" "\<not> slowMoveOver s"
  shows "\<not> fst (checkForSlowMove now s)"
    and "g_accelBaselineMagnitude (snd (checkForSlowMove now s)) =
           (if now mod 1000 = 0
            then g_accelBaselineMagnitude s * (95 / 100) + smoothedMagnitude s * (5 / 100)
            else g_accelBaselineMagnitude s)"
    and "\<not> g_potentialSlowMove (snd (checkForSlowMove now s))"
  using assms
  by (simp_all add: checkForSlowMove_def slowMoveOver_def smoothedMagnitude_def Let_def
      ACCEL_READ_INTERVAL_MS_def)

lemma sumSamples_cells:
  "sumSamples s =
     g_accelMagnitudeSamples s ! 0 + g_accelMagnitudeSamples s ! 1
     + g_accelMagnitudeSamples s ! 2 + g_accelMagnitudeSamples s ! 3
     + g_accelMagnitudeSamples s ! 4"
proof -
  have "[0..<SLOW_MOVE_SAMPLE_COUNT] = [0, 1, 2, 3, 4]"
    unfolding SLOW_MOVE_SAMPLE_COUNT_def by code_simp
  then show ?thesis by (simp add: sumSamples_def)
qed

lemma ag_witness_facts:
  "g_baselineEstablished ag_pending" "smoothedMagnitude ag_pending = 1"
  "slowMoveOver ag_pending" "g_potentialSlowMove ag_pending"
  "g_slowMoveStartTime ag_pending = 1000" "g_accelBaselineMagnitude ag_pending = 0"
  "g_baselineEstablished ag_drifting" "smoothedMagnitude ag_drifting = 1004 / 1000"
  "\<not> slowMoveOver ag_drifting" "g_accelBaselineMagnitude ag_drifting = 1"
  by (simp_all add: ag_pending_def ag_drifting_def ag_init_def smoothedMagnitude_def
      slowMoveOver_def sumSamples_cells SLOW_MOVE_SAMPLE_COUNT_def SLOW_MOVE_THRESHOLD_G_def)

text \<open>
  C7, as the code has it. In AuraGuard's \<^verbatim>\<open>checkForSlowMove\<close>, with the baseline
  established: while the smoothed magnitude is above the threshold and the candidate has
  not lasted \<^verbatim>\<open>SLOW_MOVE_MIN_DURATION_MS\<close> (750), the baseline is unchanged and no move is
  reported; on the tick at which the candidate has lasted 750 ms, the move is reported,
  the baseline is replaced by the current smoothed magnitude and the candidate is reset;
  and at or below the threshold, no move is reported, and the baseline is blended
  (0.95 of the old value, 0.05 of the smoothed magnitude) when the millisecond clock
  reads a multiple of 1000, and is unchanged otherwise. So the exponential blend runs
  only at or below the threshold.
\<close>

theorem baseline_drift:
  "(g_baselineEstablished s \<and> slowMoveOver s
      \<and> \<not> (g_potentialSlowMove s \<and> SLOW_MOVE_MIN_DURATION_MS \<le> now - g_slowMoveStartTime s) \<longrightarrow>
      \<not> fst (checkForSlowMove now s)
      \<and> g_accelBaselineMagnitude (snd (checkForSlowMove now s)) = g_accelBaselineMagnitude s)
   \<and> (g_baselineEstablished s \<and> slowMoveOver s
      \<and> g_potentialSlowMove s \<and> SLOW_MOVE_MIN_DURATION_MS \<le> now - g_slowMoveStartTime s \<longrightarrow>
      fst (checkForSlowMove now s)
      \<and> g_accelBaselineMagnitude (snd (checkForSlowMove now s)) = smoothedMagnitude s
      \<and> \<not> g_potentialSlowMove (snd (checkForSlowMove now s)))
   \<and> (g_baselineEstablished s \<and> \<not> slowMoveOver s \<longrightarrow>
      \<not> fst (checkForSlowMove now s)
      \<and> g_accelBaselineMagnitude (snd (checkForSlowMove now s)) =
          (if now mod 1000 = 0
           then g_accelBaselineMagnitude s * (95 / 100) + smoothedMagnitude s * (5 / 100)
           else g_accelBaselineMagnitude s))"
  by (intro conjI impI)
    (simp_all add: checkForSlowMove_pending checkForSlowMove_sustained checkForSlowMove_below)

text \<open>A candidate pending since 1000 ms is not reported at 1700 ms and is reported at
  1800 ms, when the baseline becomes the smoothed magnitude; below the threshold the
  baseline is blended at 2000 ms and is kept at 2100 ms.\<close>

theorem baseline_drift_witness:
  "\<not> fst (checkForSlowMove 1700 ag_pending)
   \<and> g_accelBaselineMagnitude (snd (checkForSlowMove 1700 ag_pending)) = 0
   \<and> fst (checkForSlowMove 1800 ag_pending)
   \<and> g_accelBaselineMagnitude (snd (checkForSlowMove 1800 ag_pending)) = 1
   \<and> \<not> g_potentialSlowMove (snd (checkForSlowMove 1800 ag_pending))
   \<and> g_accelBaselineMagnitude (snd (checkForSlowMove 2000 ag_drifting)) = 10002 / 10000
   \<and> g_accelBaselineMagnitude (snd (checkForSlowMove 2100 ag_drifting)) = 1"
  using baseline_drift [where s = ag_pending and now = 1700]
    baseline_drift [where s = ag_pending and now = 1800]
    baseline_drift [where s = ag_drifting and now = 2000]
    baseline_drift [where s = ag_drifting and now = 2100]
  by (simp add: ag_witness_facts SLOW_MOVE_MIN_DURATION_MS_def)

text \<open>
  Counterexample to C7 as stated: with a baseline of 1 and the smoothed magnitude at 1.2
  since 1000 ms, the tick at 1800 ms reports the sustained move and sets the baseline
  to 1.2. The reported move is absorbed into the baseline by that very tick.
\<close>

theorem baseline_absorbs_sustained_move:
  "g_accelBaselineMagnitude ag_lifted = 1
   \<and> smoothedMagnitude ag_lifted = 12 / 10
   \<and> fst (checkForSlowMove 1800 ag_lifted)
   \<and> g_accelBaselineMagnitude (snd (checkForSlowMove 1800 ag_lifted)) = 12 / 10"
  by (simp add: ag_lifted_def ag_init_def checkForSlowMove_def smoothedMagnitude_def
      sumSamples_cells Let_def SLOW_MOVE_SAMPLE_COUNT_def SLOW_MOVE_THRESHOLD_G_def
      SLOW_MOVE_MIN_DURATION_MS_def)

section \<open>Verification: the orientation estimate near the origin\<close>

lemma readTelemetry_roll:
  "current_roll (readTelemetryDataAndAngles e s) =
     (if \<bar>vz (ev_acceleration e)\<bar> < near_zero_eps \<and> \<bar>vy (ev_acceleration e)\<bar> < near_zero_eps
      then (if firstTiltReading s then 0 else prev_roll_tilt s)
      else atan2 (vy (ev_acceleration e)) (vz (ev_acceleration e)) * 180 / pi)"
  by (simp add: readTelemetryDataAndAngles_def Let_def)

lemma readTelemetry_pitch:
  "current_pitch (readTelemetryDataAndAngles e s) =
     (if sqrt ((vy (ev_acceleration e))\<^sup>2 + (vz (ev_acceleration e))\<^sup>2) < near_zero_eps
      then (if firstTiltReading s then 0 else prev_pitch_tilt s)
      else atan2 (- vx (ev_acceleration e))
             (sqrt ((vy (ev_acceleration e))\<^sup>2 + (vz (ev_acceleration e))\<^sup>2)) * 180 / pi)"
  by (simp add: readTelemetryDataAndAngles_def Let_def)

lemma checkSustainedTilt_prev:
  "prev_roll_tilt (checkSustainedTilt ct s) = current_roll s"
  "prev_pitch_tilt (checkSustainedTilt ct s) = current_pitch s"
  "current_roll (checkSustainedTilt ct s) = current_roll s"
  "current_pitch (checkSustainedTilt ct s) = current_pitch s"
  "\<not> firstTiltReading (checkSustainedTilt ct s)"
  by (simp_all add: checkSustainedTilt_def Let_def)

lemma checkSustainedSlide_frame [simp]:
  "prev_roll_tilt (checkSustainedSlide ct s) = prev_roll_tilt s"
  "prev_pitch_tilt (checkSustainedSlide ct s) = prev_pitch_tilt s"
  "current_roll (checkSustainedSlide ct s) = current_roll s"
  "current_pitch (checkSustainedSlide ct s) = current_pitch s"
  "firstTiltReading (checkSustainedSlide ct s) = firstTiltReading s"
  by (simp_all add: checkSustainedSlide_def Let_def)

lemma logMotionStart_frame [simp]:
  "prev_roll_tilt (logMotionStart t s) = prev_roll_tilt s"
  "prev_pitch_tilt (logMotionStart t s) = prev_pitch_tilt s"
  "current_roll (logMotionStart t s) = current_roll s"
  "current_pitch (logMotionStart t s) = current_pitch s"
  "firstTiltReading (logMotionStart t s) = firstTiltReading s"
  by (simp_all add: logMotionStart_def addMotionToLog_def Let_def)

lemma updateMotionDisplayStates_frame [simp]:
  "prev_roll_tilt (updateMotionDisplayStates t s) = prev_roll_tilt s"
  "prev_pitch_tilt (updateMotionDisplayStates t s) = prev_pitch_tilt s"
  "current_roll (updateMotionDisplayStates t s) = current_roll s"
  "current_pitch (updateMotionDisplayStates t s) = current_pitch s"
  "firstTiltReading (updateMotionDisplayStates t s) = firstTiltReading s"
  by (simp_all add: updateMotionDisplayStates_def)

lemma md1_prev_ok_init: "md1_prev_ok md1_init"
  by (simp add: md1_prev_ok_def md1_init_def)

lemma md1_prev_ok_loop: "md1_prev_ok s \<Longrightarrow> md1_prev_ok (md1_loop now ct e s)"
  by (simp add: md1_prev_ok_def md1_loop_def Let_def checkSustainedTilt_prev)

lemma md1_first_reading:
  "current_roll (md1_loop 2000 2000 rolled_event md1_init) = 45"
  "current_pitch (md1_loop 2000 2000 rolled_event md1_init) = 0"
  by (simp_all add: md1_loop_def Let_def checkSustainedTilt_prev readTelemetry_roll
      readTelemetry_pitch md1_init_def rolled_event_def near_zero_eps_def telemetryReadInterval_def
      atan2_deg_1_1 atan2_deg_0_pos)

lemma md1_first_reading_pitched:
  "current_roll (md1_loop 2000 2000 pitched_event md1_init) = 0"
  "current_pitch (md1_loop 2000 2000 pitched_event md1_init) = 45"
  by (simp_all add: md1_loop_def Let_def checkSustainedTilt_prev readTelemetry_roll
      readTelemetry_pitch md1_init_def pitched_event_def near_zero_eps_def telemetryReadInterval_def
      atan2_deg_1_1 atan2_deg_0_pos)

lemma processSensorData_freefall:
  "currentRoll_deg (processSensorData freefall_event s) = 0"
  by (simp add: processSensorData_def freefall_event_def atan2_def Let_def)

text \<open>
  C8, as the code has it. In motion\_detection.ino, \<^verbatim>\<open>readTelemetryDataAndAngles\<close> keeps the
  previous roll when the absolute values of accel.y and accel.z are both below
  \<^verbatim>\<open>1e-4f\<close>, and the previous pitch when the square root of their squares' sum is below
  it; for every other sample the roll is atan2(accel.y, accel.z) in degrees, and the
  pitch is atan2 of -accel.x and that square root, in degrees. "Previous" holds
  between passes of \<^verbatim>\<open>loop()\<close>, from power-up on (\<open>md1_prev_ok\<close>, with 0 for both before
  the first reading). \<^verbatim>\<open>processSensorData\<close> of v5 and of motion\_detection3.ino has no
  such guard: its roll is atan2(accel.y, accel.z) in degrees for every sample.
\<close>

theorem near_zero_guard:
  "(md1_prev_ok s \<and> \<bar>vy (ev_acceleration e)\<bar> < near_zero_eps
      \<and> \<bar>vz (ev_acceleration e)\<bar> < near_zero_eps \<longrightarrow>
      current_roll (readTelemetryDataAndAngles e s) = current_roll s)
   \<and> (md1_prev_ok s
      \<and> sqrt ((vy (ev_acceleration e))\<^sup>2 + (vz (ev_acceleration e))\<^sup>2) < near_zero_eps \<longrightarrow>
      current_pitch (readTelemetryDataAndAngles e s) = current_pitch s)
   \<and> (\<not> (\<bar>vy (ev_acceleration e)\<bar> < near_zero_eps \<and> \<bar>vz (ev_acceleration e)\<bar> < near_zero_eps) \<longrightarrow>
      current_roll (readTelemetryDataAndAngles e s)
        = atan2 (vy (ev_acceleration e)) (vz (ev_acceleration e)) * 180 / pi)
   \<and> (\<not> sqrt ((vy (ev_acceleration e))\<^sup>2 + (vz (ev_acceleration e))\<^sup>2) < near_zero_eps \<longrightarrow>
      current_pitch (readTelemetryDataAndAngles e s)
        = atan2 (- vx (ev_acceleration e))
            (sqrt ((vy (ev_acceleration e))\<^sup>2 + (vz (ev_acceleration e))\<^sup>2)) * 180 / pi)
   \<and> (md1_prev_ok s \<longrightarrow> md1_prev_ok (md1_loop now ct e s))
   \<and> md1_prev_ok md1_init
   \<and> currentRoll_deg (processSensorData e v)
       = atan2 (vy (ev_acceleration e)) (vz (ev_acceleration e)) * 180 / pi
   \<and> md3_currentRoll_deg (md3_processSensorData e w)
       = atan2 (vy (ev_acceleration e)) (vz (ev_acceleration e)) * 180 / pi"
  by (auto simp add: readTelemetry_roll readTelemetry_pitch md1_prev_ok_def
      md1_prev_ok_loop [unfolded md1_prev_ok_def] processSensorData_def md3_processSensorData_def
      Let_def md1_init_def)

text \<open>A first reading rolled by 45 degrees gives a roll of 45, and a reading in free
  fall after it keeps the roll of 45; a first reading pitched by 45 degrees gives a pitch
  of 45, and a reading in free fall after it keeps the pitch of 45.\<close>

theorem near_zero_guard_witness:
  "current_roll (readTelemetryDataAndAngles freefall_event
                   (md1_loop 2000 2000 rolled_event md1_init)) = 45
   \<and> current_pitch (readTelemetryDataAndAngles freefall_event
                   (md1_loop 2000 2000 pitched_event md1_init)) = 45
   \<and> current_roll (readTelemetryDataAndAngles rolled_event md1_init) = 45
   \<and> current_pitch (readTelemetryDataAndAngles pitched_event md1_init) = 45
   \<and> md1_prev_ok (md1_loop 2000 2000 rolled_event md1_init)
   \<and> md1_prev_ok (md1_loop 2000 2000 pitched_event md1_init)"
proof -
  note g = near_zero_guard [where s = "md1_loop 2000 2000 rolled_event md1_init"
      and e = freefall_event]
  note g' = near_zero_guard [where s = "md1_loop 2000 2000 pitched_event md1_init"
      and e = freefall_event]
  note h = near_zero_guard [where s = md1_init and e = rolled_event and now = 2000
      and ct = 2000]
  note h' = near_zero_guard [where s = md1_init and e = pitched_event and now = 2000
      and ct = 2000]
  have ok: "md1_prev_ok (md1_loop 2000 2000 rolled_event md1_init)"
    using h by blast
  have ok': "md1_prev_ok (md1_loop 2000 2000 pitched_event md1_init)"
    using h' by blast
  have zero: "\<bar>vy (ev_acceleration freefall_event)\<bar> < near_zero_eps"
    "\<bar>vz (ev_acceleration freefall_event)\<bar> < near_zero_eps"
    "sqrt ((vy (ev_acceleration freefall_event))\<^sup>2 + (vz (ev_acceleration freefall_event))\<^sup>2)
       < near_zero_eps"
    by (simp_all add: freefall_event_def near_zero_eps_def)
  have far: "\<not> (\<bar>vy (ev_acceleration rolled_event)\<bar> < near_zero_eps
      \<and> \<bar>vz (ev_acceleration rolled_event)\<bar> < near_zero_eps)"
    by (simp add: rolled_event_def near_zero_eps_def)
  have far': "\<not> sqrt ((vy (ev_acceleration pitched_event))\<^sup>2
                    + (vz (ev_acceleration pitched_event))\<^sup>2) < near_zero_eps"
    by (simp add: pitched_event_def near_zero_eps_def)
  have r1: "current_roll (readTelemetryDataAndAngles freefall_event
                   (md1_loop 2000 2000 rolled_event md1_init)) = 45"
    using g ok zero by (simp add: md1_first_reading)
  have p1: "current_pitch (readTelemetryDataAndAngles freefall_event
                   (md1_loop 2000 2000 pitched_event md1_init)) = 45"
    using g' ok' zero by (simp add: md1_first_reading_pitched)
  have r2: "current_roll (readTelemetryDataAndAngles rolled_event md1_init) = 45"
    using h far by (simp add: rolled_event_def atan2_deg_1_1)
  have p2: "current_pitch (readTelemetryDataAndAngles pitched_event md1_init) = 45"
    using h' far' by (simp add: pitched_event_def atan2_deg_1_1)
  from r1 p1 r2 p2 ok ok' show ?thesis by simp
qed

text \<open>
  Counterexample to C8 as stated, in v5: after a reading at a roll of 45 degrees, a reading
  in free fall gives a roll of 0, the value of atan2(0, 0), not the previous roll.
\<close>

theorem processSensorData_unguarded:
  "currentRoll_deg (processSensorData rolled_event v5_init) = 45
   \<and> currentRoll_deg (processSensorData freefall_event (processSensorData rolled_event v5_init))
       = 0"
  by (simp add: processSensorData_roll processSensorData_freefall)

section \<open>Verification: rounding to single precision\<close>



lemma round_even_of_int [simp]: "round_even (of_int n) = n"
  by (simp add: round_even_def)

lemma binade_bounds:
  assumes "x \<noteq> 0"
  shows "2 powi binade x \<le> \<bar>x\<bar>" and "\<bar>x\<bar> < 2 powi (binade x + 1)"
proof -
  have both: "2 powi binade x \<le> \<bar>x\<bar> \<and> \<bar>x\<bar> < 2 powi (binade x + 1)"
  proof (cases "1 \<le> \<bar>x\<bar>")
    case True
    define n where "n = nat \<lfloor>\<bar>x\<bar>\<rfloor>"
    define k where "k = floorlog 2 n"
    have npos: "0 < n" using True by (simp add: n_def)
    have b: "2 ^ (k - 1) \<le> n" "n < 2 ^ k"
      using floorlog_bounds [of n 2] npos by (simp_all add: k_def)
    have "k \<noteq> 0" using npos by (simp add: k_def floorlog_eq_zero_iff)
    then have kpos: "0 < k" by simp
    have bin: "binade x = int k - 1"
      using True by (simp add: binade_def n_def k_def)
    have nx: "real n \<le> \<bar>x\<bar>" "\<bar>x\<bar> < real n + 1"
      using True by (simp_all add: n_def)
    have p1: "(2::real) powi (int k - 1) = 2 ^ (k - 1)"
      using kpos by (simp add: power_int_def of_nat_diff)
    have p2: "(2::real) powi (int k - 1 + 1) = 2 ^ k"
      by (simp add: power_int_def)
    have "real (2 ^ (k - 1)) \<le> real n"
      using b(1) by (rule of_nat_mono)
    then have lo: "(2::real) ^ (k - 1) \<le> real n" by simp
    have "real (Suc n) \<le> real (2 ^ k)"
      using b(2) by (intro of_nat_mono) simp
    then have up: "real n + 1 \<le> 2 ^ k" by simp
    show ?thesis
      unfolding bin p1 p2 using lo nx up by linarith
  next
    case False
    define y where "y = 1 / \<bar>x\<bar>"
    define m where "m = nat (\<lceil>y\<rceil> - 1)"
    define k where "k = floorlog 2 m"
    have xpos: "0 < \<bar>x\<bar>" using assms by simp
    have y1: "1 < y" using False xpos by (simp add: y_def)
    then have cy: "2 \<le> \<lceil>y\<rceil>" by linarith
    then have mpos: "0 < m" by (simp add: m_def)
    have b: "2 ^ (k - 1) \<le> m" "m < 2 ^ k"
      using floorlog_bounds [of m 2] mpos by (simp_all add: k_def)
    have "k \<noteq> 0" using mpos by (simp add: k_def floorlog_eq_zero_iff)
    then have kpos: "0 < k" by simp
    have bin: "binade x = - int k"
      using False by (simp add: binade_def m_def k_def y_def)
    have my: "real m < y" "y \<le> real m + 1"
      using cy by (simp_all add: m_def) linarith+
    have "real (2 ^ (k - 1)) \<le> real m"
      using b(1) by (rule of_nat_mono)
    then have lo': "(2::real) ^ (k - 1) \<le> real m" by simp
    have lo: "(2::real) ^ (k - 1) < y" using my lo' by linarith
    have "real (Suc m) \<le> real (2 ^ k)"
      using b(2) by (intro of_nat_mono) simp
    then have up: "real m + 1 \<le> 2 ^ k" by simp
    have hi: "y \<le> 2 ^ k" using my up by linarith
    have p1: "(2::real) powi (- int k) = 1 / 2 ^ k"
      by (simp add: power_int_def field_simps)
    have p2: "(2::real) powi (- int k + 1) = 1 / 2 ^ (k - 1)"
      using kpos by (cases k) (simp_all add: power_int_def field_simps)
    have x_eq: "\<bar>x\<bar> = 1 / y" using xpos by (simp add: y_def)
    have a: "1 / 2 ^ k \<le> 1 / y"
      using hi y1 by (intro divide_left_mono) simp_all
    have c: "1 / y < 1 / 2 ^ (k - 1)"
      using lo y1 by (intro divide_strict_left_mono) simp_all
    show ?thesis
      unfolding bin p1 p2 x_eq using a c by simp
  qed
  from both show "2 powi binade x \<le> \<bar>x\<bar>" and "\<bar>x\<bar> < 2 powi (binade x + 1)" by simp_all
qed

lemma powi2_less_imp: "(2::real) powi a < 2 powi b \<Longrightarrow> a < b"
proof (rule ccontr)
  assume lt: "(2::real) powi a < 2 powi b" and "\<not> a < b"
  then have "b \<le> a" by simp
  then have "(2::real) powi b \<le> 2 powi a" by (rule power_int_increasing) simp
  with lt show False by simp
qed


lemma binade_eqI:
  assumes "2 powi e \<le> \<bar>x\<bar>" "\<bar>x\<bar> < 2 powi (e + 1)"
  shows "binade x = e"
proof -
  have pos: "(0::real) < 2 powi e" by (simp add: zero_less_power_int)
  with assms(1) have "0 < \<bar>x\<bar>" by linarith
  then have x: "x \<noteq> 0" by simp
  have "2 powi binade x \<le> \<bar>x\<bar>" using x by (rule binade_bounds)
  also note assms(2)
  finally have a: "binade x < e + 1" by (rule powi2_less_imp)
  note assms(1)
  also have "\<bar>x\<bar> < 2 powi (binade x + 1)" using x by (rule binade_bounds)
  finally have "e < binade x + 1" by (rule powi2_less_imp)
  with a show ?thesis by simp
qed

lemma ulp_pos [simp]: "0 < (2::real) powi e"
  by (simp add: zero_less_power_int)



section \<open>Verification: the sensitivity to threshold mappings of Tap-Guard\<close>

lemma constrain_range: "low \<le> high \<Longrightarrow> low \<le> constrain amt low high \<and> constrain amt low high \<le> high"
  by (auto simp add: constrain_def)

lemma constrain_inside: "low \<le> amt \<Longrightarrow> amt \<le> high \<Longrightarrow> constrain amt low high = amt"
  by (auto simp add: constrain_def)

lemmas fl_eval = fl_def ulp_exp_def binade_def round_even_def compute_floorlog float_of_int_def











lemma tg7_step: "fl (float_of_int (tg7_THR_MAX - tg7_THR_MIN) / 9) = 5213753 / 262144"
  by (simp add: tg7_THR_MAX_def tg7_THR_MIN_def fl_eval)

lemma tg7_thrVal_table:
  "tg7_thrVal 1 = 180" "tg7_thrVal 2 = 160" "tg7_thrVal 3 = 140" "tg7_thrVal 4 = 120"
  "tg7_thrVal 5 = 100" "tg7_thrVal 6 = 80" "tg7_thrVal 7 = 60" "tg7_thrVal 8 = 40"
  "tg7_thrVal 9 = 20" "tg7_thrVal 10 = 1"
  unfolding tg7_thrVal_def tg7_step
  by (simp_all add: tg7_THR_MAX_def fl_eval trunc_int_def)




lemma tg8_thrVal_table:
  "map tg8_thrVal [1, 2, 3, 4, 5, 6, 7, 8, 9, 10] = [80, 54, 28, 2, 1, 1, 1, 1, 1, 1]"
  by (simp add: tg8_thrVal_def arduino_map_def c_div_def DEVICE_THR_MOST_SENSITIVE_def
      DEVICE_THR_DEFAULT_OPTIMAL_def DEVICE_THR_LEAST_SENSITIVE_def)

lemma arduino_map_levels:
  assumes "1 \<le> level"
  shows "arduino_map level 1 4 80 2 = 80 - 26 * (level - 1)"
proof -
  have "\<bar>(level - 1) * (2 - 80)\<bar> = 3 * (26 * (level - 1))"
    using assms by (simp add: abs_mult)
  then have "\<bar>(level - 1) * (2 - 80)\<bar> div \<bar>4 - 1\<bar> = 26 * (level - 1)"
    by simp
  moreover have "sgn ((level - 1) * (2 - 80)) * sgn (4 - 1 :: int) * (26 * (level - 1))
                   = - (26 * (level - 1))"
    using assms by (cases "level = 1") (simp_all add: sgn_mult)
  ultimately show ?thesis
    by (simp add: arduino_map_def c_div_def)
qed

lemma tg8_thrVal_cases:
  assumes "1 \<le> level"
  shows "tg8_thrVal level = (if level < 5 then 80 - 26 * (level - 1) else 1)"
  using assms
  by (simp add: tg8_thrVal_def arduino_map_levels DEVICE_THR_MOST_SENSITIVE_def
      DEVICE_THR_DEFAULT_OPTIMAL_def DEVICE_THR_LEAST_SENSITIVE_def)





section \<open>Verification: configuration values outside their range\<close>

lemma word_of_int_between:
  assumes "50 \<le> n" "n \<le> 1000"
  shows "(50 :: 32 word) \<le> word_of_int n" "(word_of_int n :: 32 word) \<le> 1000"
proof -
  have u: "uint (word_of_int n :: 32 word) = n"
    using assms by (simp add: uint_word_of_int take_bit_int_eq_self)
  show "(50 :: 32 word) \<le> word_of_int n"
    using assms u by (simp add: word_le_def)
  show "(word_of_int n :: 32 word) \<le> 1000"
    using assms u by (simp add: word_le_def)
qed

lemma handleUpdateSetting_reply:
  "fst (handleUpdateSetting param action s)
     = \<lparr> reply_code = 302, reply_location = Some ''/'', reply_body = ''Updating...'' \<rparr>"
  by (simp add: handleUpdateSetting_def Let_def)

lemma handleUpdateSetting_values:
  "md4_currentTiltThresholdDegrees (snd (handleUpdateSetting ''tilt_thresh'' action s))
     = constrain (md4_steppedFloat action (md4_currentTiltThresholdDegrees s)) (2 / 10) 5"
  "md4_currentSlideThresholdAccel (snd (handleUpdateSetting ''slide_thresh'' action s))
     = constrain (md4_steppedFloat action (md4_currentSlideThresholdAccel s)) (1 / 10) 3"
  "md4_currentSustainedTiltDurationMs (snd (handleUpdateSetting ''tilt_dur'' action s))
     = word_of_int (constrain (md4_steppedLong action (sint (md4_currentSustainedTiltDurationMs s))) 50 1000)"
  "md4_currentSustainedSlideDurationMs (snd (handleUpdateSetting ''slide_dur'' action s))
     = word_of_int (constrain (md4_steppedLong action (sint (md4_currentSustainedSlideDurationMs s))) 50 1000)"
  by (simp_all add: handleUpdateSetting_def md4_steppedFloat_def md4_steppedLong_def Let_def)

lemma mg_single_duration:
  "mg_currentSustainedSlideDurationMs
     (snd (handleUpdateSettings True
             [\<lparr>arg_name = ''slide_duration_ms'', arg_toFloat = f, arg_strtoul = v\<rparr>] s))
     = (if 50 \<le> v \<and> v \<le> 3000 then v else mg_currentSustainedSlideDurationMs s)"
  by (simp add: handleUpdateSettings_def mg_applyArg_def Let_def)

lemma mg_single_threshold:
  "mg_currentSlideThresholdAccel
     (snd (handleUpdateSettings True
             [\<lparr>arg_name = ''slide_thresh_accel'', arg_toFloat = f, arg_strtoul = v\<rparr>] s))
     = (case f of
          Num x \<Rightarrow> if 5 / 100 \<le> x \<and> x \<le> 5 then x else mg_currentSlideThresholdAccel s
        | _ \<Rightarrow> mg_currentSlideThresholdAccel s)"
  by (simp add: handleUpdateSettings_def mg_applyArg_def Let_def split: cfloat.splits)

lemma mg_reply:
  "fst (handleUpdateSettings True args s)
     = \<lparr> reply_code = 302, reply_location = Some ''/'', reply_body = ''Updating...'' \<rparr>"
  by (simp add: handleUpdateSettings_def)

lemma calcThr_ends: "calcThr 0 = 120" "calcThr 1 = 1"
  by (simp_all add: calcThr_def THR_MIN_def THR_MAX_def fl_eval trunc_int_def)

text \<open>A NaN is not clamped by \<^verbatim>\<open>hSens\<close> of v6: it is stored as the sensitivity.\<close>

lemma hSens_NaN: "snd (hSens NaN) = (NaN, None)"
  by (simp add: hSens_def constrain_float_def)

text \<open>
  C9, as the code has it. \<^verbatim>\<open>hSens\<close> of Tap-Guard v6 clamps a submitted number to 0..1 (an
  infinity to the nearer end), stores it and hands the threshold of the stored value to
  the sensor; \<^verbatim>\<open>hSens\<close> of v7 clamps the submitted level to 1..10, stores it and hands
  its threshold to the sensor, and so does \<^verbatim>\<open>hSens\<close> of v8 when the request has the
  argument, while without it the level is kept; their reply is status 200 with an empty
  body. \<^verbatim>\<open>handleUpdateSetting\<close> of Motion\_Detection4.ino moves a setting one step and
  clamps the result to 0.2..5 (tilt threshold), 0.1..3 (slide threshold) or 50..1000 ms
  (durations); its reply is a redirect to the dashboard with the body "Updating...".
  \<^verbatim>\<open>handleUpdateSettings\<close> of motion\_detection2.ino stores a submitted slide threshold
  inside 0.05..5.0 and a slide duration inside 50..3000 ms, and keeps the setting as it
  was for a value outside the range; its reply is the same redirect whatever was
  submitted.
\<close>

theorem out_of_range_settings:
  "fst (hSens val) = \<lparr> reply_code = 200, reply_location = None, reply_body = [] \<rparr>
   \<and> snd (hSens (Num x)) = (Num (constrain x 0 1), Some (calcThr (constrain x 0 1)))
   \<and> 0 \<le> constrain x 0 1 \<and> constrain x 0 1 \<le> 1
   \<and> snd (hSens PosInf) = (Num 1, Some (calcThr 1))
   \<and> snd (hSens NegInf) = (Num 0, Some (calcThr 0))
   \<and> tg7_hSens lv
       = (\<lparr> reply_code = 200, reply_location = None, reply_body = [] \<rparr>,
          constrain lv 1 10, tg7_thrVal (constrain lv 1 10))
   \<and> tg8_hSens (Some lv) level
       = (\<lparr> reply_code = 200, reply_location = None, reply_body = [] \<rparr>,
          constrain lv 1 10, Some (tg8_thrVal (constrain lv 1 10)))
   \<and> tg8_hSens None level
       = (\<lparr> reply_code = 200, reply_location = None, reply_body = [] \<rparr>, level, None)
   \<and> 1 \<le> constrain lv 1 10 \<and> constrain lv 1 10 \<le> 10
   \<and> md4_currentTiltThresholdDegrees (snd (handleUpdateSetting ''tilt_thresh'' action s))
       = constrain (md4_steppedFloat action (md4_currentTiltThresholdDegrees s)) (2 / 10) 5
   \<and> md4_currentSlideThresholdAccel (snd (handleUpdateSetting ''slide_thresh'' action s))
       = constrain (md4_steppedFloat action (md4_currentSlideThresholdAccel s)) (1 / 10) 3
   \<and> md4_currentSustainedTiltDurationMs (snd (handleUpdateSetting ''tilt_dur'' action s))
       = word_of_int
           (constrain (md4_steppedLong action (sint (md4_currentSustainedTiltDurationMs s))) 50 1000)
   \<and> 50 \<le> md4_currentSustainedTiltDurationMs (snd (handleUpdateSetting ''tilt_dur'' action s))
   \<and> md4_currentSustainedTiltDurationMs (snd (handleUpdateSetting ''tilt_dur'' action s)) \<le> 1000
   \<and> md4_currentSustainedSlideDurationMs (snd (handleUpdateSetting ''slide_dur'' action s))
       = word_of_int
           (constrain (md4_steppedLong action (sint (md4_currentSustainedSlideDurationMs s))) 50 1000)
   \<and> 50 \<le> md4_currentSustainedSlideDurationMs (snd (handleUpdateSetting ''slide_dur'' action s))
   \<and> md4_currentSustainedSlideDurationMs (snd (handleUpdateSetting ''slide_dur'' action s)) \<le> 1000
   \<and> fst (handleUpdateSetting param action s)
       = \<lparr> reply_code = 302, reply_location = Some ''/'', reply_body = ''Updating...'' \<rparr>
   \<and> mg_currentSustainedSlideDurationMs
        (snd (handleUpdateSettings True
                [\<lparr>arg_name = ''slide_duration_ms'', arg_toFloat = f, arg_strtoul = v\<rparr>] g))
       = (if 50 \<le> v \<and> v \<le> 3000 then v else mg_currentSustainedSlideDurationMs g)
   \<and> mg_currentSlideThresholdAccel
        (snd (handleUpdateSettings True
                [\<lparr>arg_name = ''slide_thresh_accel'', arg_toFloat = f, arg_strtoul = v\<rparr>] g))
       = (case f of
            Num r \<Rightarrow> if 5 / 100 \<le> r \<and> r \<le> 5 then r else mg_currentSlideThresholdAccel g
          | _ \<Rightarrow> mg_currentSlideThresholdAccel g)
   \<and> fst (handleUpdateSettings True args g)
       = \<lparr> reply_code = 302, reply_location = Some ''/'', reply_body = ''Updating...'' \<rparr>"
proof -
  have c1: "(0::real) \<le> constrain x 0 1 \<and> constrain x 0 1 \<le> 1"
    by (rule constrain_range) simp
  have c2: "(1::int) \<le> constrain lv 1 10 \<and> constrain lv 1 10 \<le> 10"
    by (rule constrain_range) simp
  have c3: "(50::int) \<le> constrain y 50 1000 \<and> constrain y 50 1000 \<le> 1000" for y
    by (rule constrain_range) simp
  have v6: "fst (hSens val) = \<lparr> reply_code = 200, reply_location = None, reply_body = [] \<rparr>"
    "snd (hSens (Num x)) = (Num (constrain x 0 1), Some (calcThr (constrain x 0 1)))"
    "snd (hSens PosInf) = (Num 1, Some (calcThr 1))"
    "snd (hSens NegInf) = (Num 0, Some (calcThr 0))"
    by (simp_all add: hSens_def constrain_float_def constrain_def Let_def)
  have levels: "tg7_hSens lv
       = (\<lparr> reply_code = 200, reply_location = None, reply_body = [] \<rparr>,
          constrain lv 1 10, tg7_thrVal (constrain lv 1 10))"
    "tg8_hSens (Some lv) level
       = (\<lparr> reply_code = 200, reply_location = None, reply_body = [] \<rparr>,
          constrain lv 1 10, Some (tg8_thrVal (constrain lv 1 10)))"
    "tg8_hSens None level
       = (\<lparr> reply_code = 200, reply_location = None, reply_body = [] \<rparr>, level, None)"
    by (simp_all add: tg7_hSens_def tg8_hSens_def Let_def)
  show ?thesis
    using c1 c2 v6 levels
    by (simp add: handleUpdateSetting_values
        handleUpdateSetting_reply mg_single_duration mg_single_threshold mg_reply
        word_of_int_between c3)
qed

text \<open>Sensitivity 7 is stored as 1, with threshold 1; level 0 is stored as 1 in v7, with
  threshold 180, and level 12 as 10 in v8, with threshold 1; a tilt threshold of 5 stays 5
  on "inc" and a slide duration of 50 ms stays 50 on "dec"; motion\_detection2.ino keeps
  150 ms when 3001 is submitted, and its slide threshold when 6 is submitted.\<close>

theorem out_of_range_settings_witness:
  "snd (hSens (Num 7)) = (Num 1, Some 1)
   \<and> snd (tg7_hSens 0) = (1, 180)
   \<and> snd (tg8_hSens (Some 12) 5) = (10, Some 1)
   \<and> md4_currentTiltThresholdDegrees
        (snd (handleUpdateSetting ''tilt_thresh'' ''inc''
                (md4_init\<lparr>md4_currentTiltThresholdDegrees := 5\<rparr>))) = 5
   \<and> md4_currentSustainedSlideDurationMs
        (snd (handleUpdateSetting ''slide_dur'' ''dec''
                (md4_init\<lparr>md4_currentSustainedSlideDurationMs := 50\<rparr>))) = 50
   \<and> mg_currentSustainedSlideDurationMs
        (snd (handleUpdateSettings True [slide_duration_arg 3001] mg_defaults)) = 150
   \<and> mg_currentSlideThresholdAccel
        (snd (handleUpdateSettings True
                [\<lparr>arg_name = ''slide_thresh_accel'', arg_toFloat = Num 6, arg_strtoul = 6\<rparr>]
                mg_defaults))
       = mg_currentSlideThresholdAccel mg_defaults"
proof -
  note up = out_of_range_settings [where val = "Num 7" and x = 7 and lv = 0 and level = 5
      and action = "''inc''"
      and s = "md4_init\<lparr>md4_currentTiltThresholdDegrees := 5\<rparr>" and param = "''tilt_thresh''"
      and f = "Num 6" and v = 6 and g = mg_defaults and args = "[]"]
  note down = out_of_range_settings [where val = "Num 7" and x = 7 and lv = 12 and level = 5
      and action = "''dec''"
      and s = "md4_init\<lparr>md4_currentSustainedSlideDurationMs := 50\<rparr>"
      and param = "''slide_dur''" and f = "Num 3001" and v = 3001 and g = mg_defaults
      and args = "[]"]
  have sens: "snd (hSens (Num 7)) = (Num 1, Some 1)"
    using up by (simp add: constrain_def calcThr_ends)
  have level7: "snd (tg7_hSens 0) = (1, 180)"
    using up by (simp add: constrain_def tg7_thrVal_table)
  have level8: "snd (tg8_hSens (Some 12) 5) = (10, Some 1)"
    using down by (simp add: constrain_def tg8_thrVal_cases)
  have tilt: "md4_currentTiltThresholdDegrees
        (snd (handleUpdateSetting ''tilt_thresh'' ''inc''
                (md4_init\<lparr>md4_currentTiltThresholdDegrees := 5\<rparr>))) = 5"
    using up by (simp add: constrain_def md4_steppedFloat_def)
  have dur: "md4_currentSustainedSlideDurationMs
        (snd (handleUpdateSetting ''slide_dur'' ''dec''
                (md4_init\<lparr>md4_currentSustainedSlideDurationMs := 50\<rparr>))) = 50"
    using down by (simp add: constrain_def md4_steppedLong_def)
  have kept: "mg_currentSustainedSlideDurationMs
        (snd (handleUpdateSettings True [slide_duration_arg 3001] mg_defaults)) = 150"
    using down by (simp add: slide_duration_arg_def mg_defaults_def)
  have thresh: "mg_currentSlideThresholdAccel
        (snd (handleUpdateSettings True
                [\<lparr>arg_name = ''slide_thresh_accel'', arg_toFloat = Num 6, arg_strtoul = 6\<rparr>]
                mg_defaults))
       = mg_currentSlideThresholdAccel mg_defaults"
    using up by simp
  show ?thesis
    using sens level7 level8 tilt dur kept thresh by blast
qed

text \<open>
  C9 as stated fails in motion\_detection2.ino: a slide duration of 5000 ms, outside
  50..3000, leaves the setting at its default of 150 ms (it is not clamped to 3000), and
  the reply is the one given to the accepted value 200.
\<close>

theorem out_of_range_ignored:
  "mg_currentSustainedSlideDurationMs mg_defaults = 150
   \<and> mg_currentSustainedSlideDurationMs
       (snd (handleUpdateSettings True [slide_duration_arg 5000] mg_defaults)) = 150
   \<and> fst (handleUpdateSettings True [slide_duration_arg 5000] mg_defaults)
       = fst (handleUpdateSettings True [slide_duration_arg 200] mg_defaults)
   \<and> mg_currentSustainedSlideDurationMs
       (snd (handleUpdateSettings True [slide_duration_arg 200] mg_defaults)) = 200"
  by (simp add: handleUpdateSettings_def mg_applyArg_def slide_duration_arg_def mg_defaults_def
      Let_def)

end
